(* ===== verification/Prelude.thy ===== *)
theory Prelude
  imports Main "HOL-Library.Word"
begin

text \<open>
  Shared vocabulary of the FARM inference model: the Python exceptions the code
  can raise (as one \<open>error\<close> datatype, with results in \<open>error + 'a\<close>), the
  sequencing of fallible steps (\<open>sbind\<close>) and a fallible map over a list
  (\<open>smap\<close>, the list comprehension that stops at the first exception), Python
  dictionaries with string keys as association lists in insertion order
  (\<open>dict_get\<close> raises \<open>KeyError\<close>), Python slicing, torch's \<open>long\<close> dtype as
  a 64-bit word, and the torch device.  The lemmas here are the generic facts the
  component theories share; they are collected in \<open>sum_simps\<close>.
\<close>

named_theorems sum_simps "rewriting of fallible (error + 'a) computations"

section \<open>Exceptions\<close>

datatype error =
    IndexError
  | KeyError string
  | ValueError nat nat nat
    \<comment> \<open>torch: expected sequence of length, at dimension, got\<close>
  | BatchSizeError int
    \<comment> \<open>torch BatchSampler: batch_size should be a positive integer\<close>
  | AssertionError string
  | AttributeError string
  | TypeError string
  | NotImplementedError
  | RuntimeError string
    \<comment> \<open>raised inside a collaborator (model, loader, tokenizer)\<close>
  | SyntaxError string
    \<comment> \<open>raised by the Python compiler, e.g. for a malformed escape sequence\<close>
  | ValueErrorMsg string
    \<comment> \<open>a ValueError raised by a library with a message (fastText's wrapper)\<close>

text \<open>torch's error for a Python int that does not fit the long dtype
  (\<open>THPUtils_unpackLong\<close>).\<close>

abbreviation long_overflow :: error where
  "long_overflow \<equiv> RuntimeError ''Overflow when unpacking long''"

section \<open>Sequencing fallible steps\<close>

definition sbind :: "error + 'a \<Rightarrow> ('a \<Rightarrow> error + 'b) \<Rightarrow> error + 'b" where
  "sbind r f = (case r of Inl e \<Rightarrow> Inl e | Inr x \<Rightarrow> f x)"

lemma sbind_Inl [simp, sum_simps]: "sbind (Inl e) f = Inl e"
  by (simp add: sbind_def)

lemma sbind_Inr [simp, sum_simps]: "sbind (Inr x) f = f x"
  by (simp add: sbind_def)

lemma sbind_eq_Inr_iff [sum_simps]:
  "sbind r f = Inr y \<longleftrightarrow> (\<exists>x. r = Inr x \<and> f x = Inr y)"
  by (cases r) auto

lemma sbind_eq_Inl_iff [sum_simps]:
  "sbind r f = Inl e \<longleftrightarrow> r = Inl e \<or> (\<exists>x. r = Inr x \<and> f x = Inl e)"
  by (cases r) auto

text \<open>A Python list comprehension \<open>[f(x) for x in xs]\<close> whose \<open>f\<close> may raise.\<close>

fun smap :: "('a \<Rightarrow> error + 'b) \<Rightarrow> 'a list \<Rightarrow> error + 'b list" where
  "smap f [] = Inr []"
| "smap f (x # xs) = sbind (f x) (\<lambda>y. sbind (smap f xs) (\<lambda>ys. Inr (y # ys)))"

lemma smap_Inr_iff [sum_simps]:
  "smap f xs = Inr ys \<longleftrightarrow> list_all2 (\<lambda>x y. f x = Inr y) xs ys"
proof (induction xs arbitrary: ys)
  case Nil
  then show ?case by auto
next
  case (Cons x xs)
  then show ?case
    by (cases ys) (auto simp: sbind_eq_Inr_iff)
qed

lemma smap_length: "smap f xs = Inr ys \<Longrightarrow> length ys = length xs"
  by (simp add: smap_Inr_iff list_all2_lengthD)

lemma smap_nth:
  "smap f xs = Inr ys \<Longrightarrow> i < length xs \<Longrightarrow> f (xs ! i) = Inr (ys ! i)"
  by (simp add: smap_Inr_iff list_all2_conv_all_nth)

lemma smap_map: "smap (\<lambda>x. Inr (g x)) xs = Inr (map g xs)"
  by (induction xs) auto

text \<open>A step that succeeds exactly on \<open>P\<close>, with result \<open>g\<close>, lifts to the list.\<close>

lemma smap_Inr_map_iff:
  assumes "\<And>x y. f x = Inr y \<longleftrightarrow> P x \<and> y = g x"
  shows "smap f xs = Inr ys \<longleftrightarrow> (\<forall>x \<in> set xs. P x) \<and> ys = map g xs"
proof (induction xs arbitrary: ys)
  case Nil
  then show ?case by auto
next
  case (Cons x xs)
  then show ?case
    by (auto simp: sbind_eq_Inr_iff assms)
qed

lemma smap_eq_map:
  "\<forall>x \<in> set xs. f x = Inr (g x) \<Longrightarrow> smap f xs = Inr (map g xs)"
  by (induction xs) auto

lemma smap_ok:
  assumes "\<forall>x \<in> set xs. \<exists>y. f x = Inr y"
  shows "\<exists>ys. smap f xs = Inr ys"
  using assms by (induction xs) auto

text \<open>The first element whose step raises decides the exception.\<close>

lemma smap_Inl:
  assumes "f x = Inl e" and "\<forall>z \<in> set pre. \<exists>y. f z = Inr y"
  shows "smap f (pre @ x # post) = Inl e"
  using assms by (induction pre) auto

lemma smap_Inl_ex:
  "smap f xs = Inl e \<Longrightarrow> \<exists>x \<in> set xs. f x = Inl e"
  by (induction xs) (auto simp: sbind_eq_Inl_iff)

lemma smap_append:
  "smap f (xs @ ys) = sbind (smap f xs) (\<lambda>as. sbind (smap f ys) (\<lambda>bs. Inr (as @ bs)))"
  by (induction xs) (auto simp: sbind_def split: sum.splits)

lemma smap_map_comp: "smap f (map g xs) = smap (f \<circ> g) xs"
  by (induction xs) auto

lemma smap_map_sum:
  "smap (\<lambda>x. map_sum id h (f x)) xs = map_sum id (map h) (smap f xs)"
  by (induction xs) (auto simp: sbind_def split: sum.split)

section \<open>Python dictionaries and slices\<close>

text \<open>
  A dict with string keys, in insertion order (Python 3.7+).  \<open>d[k]\<close> is
  \<open>dict_get\<close>; the keys of a dict are distinct, which \<open>pydict_ok\<close> states.
\<close>

type_synonym 'v pydict = "(string \<times> 'v) list"

definition dict_get :: "'v pydict \<Rightarrow> string \<Rightarrow> error + 'v" where
  "dict_get d k = (case map_of d k of None \<Rightarrow> Inl (KeyError k) | Some v \<Rightarrow> Inr v)"

definition pydict_ok :: "'v pydict \<Rightarrow> bool" where
  "pydict_ok d \<longleftrightarrow> distinct (map fst d)"

lemma dict_get_Inr_iff [sum_simps]: "dict_get d k = Inr v \<longleftrightarrow> map_of d k = Some v"
  by (simp add: dict_get_def split: option.splits)

lemma dict_get_Inl_iff [sum_simps]: "dict_get d k = Inl e \<longleftrightarrow> map_of d k = None \<and> e = KeyError k"
  by (auto simp: dict_get_def split: option.splits)

text \<open>\<open>xs[i]\<close> for a non-negative index: IndexError past the end.\<close>

definition py_nth :: "'a list \<Rightarrow> nat \<Rightarrow> error + 'a" where
  "py_nth xs i = (if i < length xs then Inr (xs ! i) else Inl IndexError)"

lemma py_nth_Inr_iff [sum_simps]: "py_nth xs i = Inr x \<longleftrightarrow> i < length xs \<and> x = xs ! i"
  by (auto simp: py_nth_def)

text \<open>\<open>xs[a:b]\<close> for non-negative \<open>a\<close>, \<open>b\<close>: never raises, clips at the end.\<close>

definition py_slice :: "'a list \<Rightarrow> nat \<Rightarrow> nat \<Rightarrow> 'a list" where
  "py_slice xs a b = take (b - a) (drop a xs)"

lemma py_slice_length: "length (py_slice xs a b) = min (b - a) (length xs - a)"
  by (simp add: py_slice_def)

lemma py_slice_nth:
  assumes "i < length (py_slice xs a b)"
  shows "py_slice xs a b ! i = xs ! (a + i)"
proof -
  from assms have "a \<le> length xs" by (simp add: py_slice_def) arith
  with assms show ?thesis by (simp add: py_slice_def)
qed

lemma py_slice_upto:
  "py_slice xs a b = map (\<lambda>j. xs ! j) [a..<min b (length xs)]"
proof (rule nth_equalityI)
  show "length (py_slice xs a b) = length (map (\<lambda>j. xs ! j) [a..<min b (length xs)])"
    by (simp add: py_slice_length min_diff)
next
  fix i assume "i < length (py_slice xs a b)"
  moreover from this have "a + i < min b (length xs)" by (simp add: py_slice_length) arith
  moreover from this have "i < min b (length xs) - a" by arith
  ultimately show "py_slice xs a b ! i = map (\<lambda>j. xs ! j) [a..<min b (length xs)] ! i"
    by (simp add: py_slice_nth)
qed

lemma py_slice_map2:
  "map2 f (py_slice xs a b) (py_slice ys a b) = py_slice (map2 f xs ys) a b"
  by (simp add: py_slice_def drop_map take_map drop_zip take_zip)

text \<open>Consecutive slices of width \<open>n\<close> concatenate to a prefix.\<close>

lemma concat_slices:
  "concat (map (\<lambda>k. py_slice xs (k * n) (Suc k * n)) [0..<m]) = take (m * n) xs"
proof (induction m)
  case 0
  then show ?case by simp
next
  case (Suc m)
  have "take (m * n) xs @ take n (drop (m * n) xs) = take (m * n + n) xs"
    by (simp add: take_add)
  with Suc show ?case by (simp add: py_slice_def add.commute)
qed

lemma py_slice_min_end: "py_slice xs a (min b (length xs)) = py_slice xs a b"
  by (simp add: py_slice_def min_def)

lemma sum_list_map_const:
  "(\<And>x. x \<in> set xs \<Longrightarrow> f x = (c :: nat)) \<Longrightarrow> sum_list (map f xs) = length xs * c"
  by (induction xs) auto

lemma drop_eq_Cons:
  "drop n xs = y # ys \<Longrightarrow> n < length xs \<and> xs ! n = y \<and> ys = drop (Suc n) xs"
proof -
  assume d: "drop n xs = y # ys"
  then have n: "n < length xs" by (metis drop_eq_Nil list.distinct(1) not_le)
  from Cons_nth_drop_Suc [OF n] d have "xs ! n # drop (Suc n) xs = y # ys" by simp
  with n show ?thesis by simp
qed

section \<open>torch values\<close>

datatype device = Cpu | Cuda

type_synonym int64 = "64 word"

text \<open>The range of torch's \<open>long\<close> dtype.\<close>

definition in_int64 :: "int \<Rightarrow> bool" where
  "in_int64 x \<longleftrightarrow> - (2 ^ 63) \<le> x \<and> x < 2 ^ 63"

lemma sint_word_of_int_in_int64:
  "in_int64 x \<Longrightarrow> sint (word_of_int x :: int64) = x"
  by (simp add: in_int64_def sint_sbintrunc' signed_take_bit_int_eq_self)

lemma in_int64_sint: "in_int64 (sint (w :: int64))"
  using sint_ge [of w] sint_lt [of w] by (simp add: in_int64_def)

section \<open>Runs of deterministic step relations\<close>

text \<open>A deterministic relation reaches at most one final state from a given state.\<close>

lemma rtranclp_deterministic_final:
  assumes det: "\<And>a b c. r a b \<Longrightarrow> r a c \<Longrightarrow> b = c"
    and ab: "r\<^sup>*\<^sup>* a b" and ac: "r\<^sup>*\<^sup>* a c"
    and fb: "\<And>x. \<not> r b x" and fc: "\<And>x. \<not> r c x"
  shows "b = c"
  using ab ac fc
proof (induction arbitrary: c rule: converse_rtranclp_induct)
  case base
  then show ?case using fb by (auto elim: converse_rtranclpE)
next
  case (step a y)
  note IH = step.IH and ay = step.hyps(1) and fin = step.prems(2)
  from step.prems(1) show ?case
  proof (cases rule: converse_rtranclpE)
    case base
    with ay fin show ?thesis by simp
  next
    case (step y')
    from ay \<open>r a y'\<close> have "y = y'" by (rule det)
    with \<open>r\<^sup>*\<^sup>* y' c\<close> have "r\<^sup>*\<^sup>* y c" by simp
    then show ?thesis using fin by (rule IH)
  qed
qed
end
