(* ===== verification/Dataset.thy ===== *)
theory Dataset
  imports Prelude
begin

text \<open>
  The feature-to-batch converter, \<open>convert_features_to_dataset\<close> of
  \<open>src/farm/data_handler/dataset.py\<close>, together with the two torch calls it makes:
  \<open>torch.tensor(rows, dtype=torch.long)\<close> (\<open>torch_tensor_long\<close>: the rows must be
  rectangular and every value must fit a signed 64-bit integer; the first offending
  row or value in row-major order raises) and \<open>TensorDataset(*tensors)\<close>
  (\<open>tensor_dataset\<close>: asserts that all tensors have the same number of rows), and
  the two dataset accessors the data loader uses (\<open>len\<close> and indexing).
  The main results: the converter succeeds exactly on well-formed feature lists
  (\<open>features_ok\<close>), and then returns one tensor per key of the first feature dict, in
  key order, whose rows read back (through \<open>sint\<close>) to the feature values.
\<close>

type_synonym feature = "int list pydict"

record tensor =
  t_rows :: "int64 list list"
  t_device :: device

section \<open>torch.tensor with dtype long\<close>

definition to_long :: "int \<Rightarrow> error + int64" where
  "to_long x = (if in_int64 x then Inr (word_of_int x) else Inl long_overflow)"

text \<open>One row of a 2-D tensor of inferred width \<open>n\<close> (torch's \<open>recursive_store\<close>
  at dimension 1: the length is checked before the values are converted).\<close>

definition store_row :: "nat \<Rightarrow> int list \<Rightarrow> error + int64 list" where
  "store_row n row =
     (if length row \<noteq> n then Inl (ValueError n 1 (length row)) else smap to_long row)"

text \<open>The width is inferred from the first row (torch's \<open>compute_sizes\<close>).\<close>

definition torch_tensor_long :: "int list list \<Rightarrow> error + tensor" where
  "torch_tensor_long rows =
     (case rows of
        [] \<Rightarrow> Inr \<lparr>t_rows = [], t_device = Cpu\<rparr>
      | r # _ \<Rightarrow> sbind (smap (store_row (length r)) rows)
                   (\<lambda>rs. Inr \<lparr>t_rows = rs, t_device = Cpu\<rparr>))"

section \<open>TensorDataset\<close>

record dataset =
  ds_tensors :: "tensor list"

definition tensor_dataset :: "tensor list \<Rightarrow> error + dataset" where
  "tensor_dataset ts =
     (if list_all (\<lambda>t. length (t_rows t) = length (t_rows (hd ts))) ts
      then Inr \<lparr>ds_tensors = ts\<rparr>
      else Inl (AssertionError ''Size mismatch between tensors''))"

text \<open>\<open>len(dataset)\<close> reads the first tensor: it raises when there is none.\<close>

definition ds_len :: "dataset \<Rightarrow> error + nat" where
  "ds_len ds = (case ds_tensors ds of [] \<Rightarrow> Inl IndexError | t # _ \<Rightarrow> Inr (length (t_rows t)))"

text \<open>\<open>dataset[i]\<close>: the \<open>i\<close>-th row of every tensor.\<close>

definition ds_getitem :: "dataset \<Rightarrow> nat \<Rightarrow> error + int64 list list" where
  "ds_getitem ds i =
     smap (\<lambda>t. if i < length (t_rows t) then Inr (t_rows t ! i) else Inl IndexError)
       (ds_tensors ds)"

section \<open>convert_features_to_dataset\<close>

definition tensor_names :: "'v pydict list \<Rightarrow> error + string list" where
  "tensor_names features =
     (case features of [] \<Rightarrow> Inl IndexError | f # _ \<Rightarrow> Inr (map fst f))"

definition feature_column :: "'v pydict list \<Rightarrow> string \<Rightarrow> error + 'v list" where
  "feature_column features t_name = smap (\<lambda>sample. dict_get sample t_name) features"

definition convert_features_to_dataset :: "feature list \<Rightarrow> error + dataset \<times> string list" where
  "convert_features_to_dataset features =
     sbind (tensor_names features) (\<lambda>names.
     sbind (smap (\<lambda>t_name. sbind (feature_column features t_name) torch_tensor_long) names)
       (\<lambda>all_tensors.
     sbind (tensor_dataset all_tensors) (\<lambda>dataset. Inr (dataset, names))))"

section \<open>Well-formed feature lists\<close>

text \<open>
  A column is well formed when every sample has the key, with a value of the length the
  first sample has, and every value fits the long dtype.
\<close>

definition column_ok :: "feature list \<Rightarrow> string \<Rightarrow> bool" where
  "column_ok features n \<longleftrightarrow>
     (\<forall>s \<in> set features. case map_of s n of
         None \<Rightarrow> False
       | Some v \<Rightarrow> length v = length (the (map_of (hd features) n)) \<and> list_all in_int64 v)"

definition features_ok :: "feature list \<Rightarrow> bool" where
  "features_ok features \<longleftrightarrow>
     features \<noteq> [] \<and> (\<forall>n \<in> set (map fst (hd features)). column_ok features n)"

text \<open>The tensor the converter builds for key \<open>n\<close>.\<close>

definition feature_tensor :: "feature list \<Rightarrow> string \<Rightarrow> tensor" where
  "feature_tensor features n =
     \<lparr>t_rows = map (\<lambda>s. map word_of_int (the (map_of s n))) features, t_device = Cpu\<rparr>"

section \<open>Lemmas\<close>

lemma to_long_Inr_iff [sum_simps]: "to_long x = Inr w \<longleftrightarrow> in_int64 x \<and> w = word_of_int x"
  by (auto simp: to_long_def)

lemma to_long_Inl_iff [sum_simps]: "to_long x = Inl e \<longleftrightarrow> \<not> in_int64 x \<and> e = long_overflow"
  by (auto simp: to_long_def)

lemma store_row_Inr_iff:
  "store_row n row = Inr ws \<longleftrightarrow>
     (length row = n \<and> list_all in_int64 row) \<and> ws = map word_of_int row"
  by (auto simp: store_row_def list_all_iff smap_Inr_map_iff [OF to_long_Inr_iff])

lemma torch_tensor_long_Cons_Inr_iff:
  "torch_tensor_long (r # rs) = Inr t \<longleftrightarrow>
     (\<forall>x \<in> set (r # rs). length x = length r \<and> list_all in_int64 x) \<and>
     t = \<lparr>t_rows = map (map word_of_int) (r # rs), t_device = Cpu\<rparr>"
proof -
  have "smap (store_row (length r)) (r # rs) = Inr ws \<longleftrightarrow>
      (\<forall>x \<in> set (r # rs). length x = length r \<and> list_all in_int64 x) \<and>
      ws = map (map word_of_int) (r # rs)" for ws
    by (rule smap_Inr_map_iff) (rule store_row_Inr_iff)
  then show ?thesis
    by (auto simp: torch_tensor_long_def sbind_eq_Inr_iff simp del: smap.simps)
qed

lemma feature_column_Inr_iff:
  "feature_column features n = Inr c \<longleftrightarrow>
     (\<forall>s \<in> set features. map_of s n \<noteq> None) \<and> c = map (\<lambda>s. the (map_of s n)) features"
  unfolding feature_column_def
  by (rule smap_Inr_map_iff) (auto simp: dict_get_Inr_iff)

lemma column_tensor_Inr_iff:
  assumes "features \<noteq> []"
  shows "sbind (feature_column features n) torch_tensor_long = Inr t \<longleftrightarrow>
           column_ok features n \<and> t = feature_tensor features n"
proof -
  from assms obtain f fs where fs: "features = f # fs" by (cases features) auto
  have "sbind (feature_column features n) torch_tensor_long = Inr t \<longleftrightarrow>
     (\<forall>s \<in> set features. map_of s n \<noteq> None) \<and>
     torch_tensor_long (map (\<lambda>s. the (map_of s n)) features) = Inr t"
    by (auto simp: sbind_eq_Inr_iff feature_column_Inr_iff)
  also have "\<dots> \<longleftrightarrow> column_ok features n \<and> t = feature_tensor features n"
    by (auto simp: fs torch_tensor_long_Cons_Inr_iff column_ok_def feature_tensor_def
        split: option.splits)
  finally show ?thesis .
qed

lemma feature_tensor_rows: "length (t_rows (feature_tensor features n)) = length features"
  by (simp add: feature_tensor_def)

lemma tensor_dataset_feature_tensors:
  "tensor_dataset (map (feature_tensor features) names) =
     Inr \<lparr>ds_tensors = map (feature_tensor features) names\<rparr>"
  by (cases names) (simp_all add: tensor_dataset_def list_all_iff feature_tensor_rows)

lemma tensor_dataset_same_rows:
  "\<forall>t \<in> set ts. length (t_rows t) = m \<Longrightarrow> tensor_dataset ts = Inr \<lparr>ds_tensors = ts\<rparr>"
  by (cases ts) (simp_all add: tensor_dataset_def list_all_iff)

lemma ds_getitem_in_range:
  "\<forall>t \<in> set (ds_tensors ds). i < length (t_rows t) \<Longrightarrow>
     ds_getitem ds i = Inr (map (\<lambda>t. t_rows t ! i) (ds_tensors ds))"
proof -
  have "\<forall>t \<in> set ts. i < length (t_rows t) \<Longrightarrow>
      smap (\<lambda>t. if i < length (t_rows t) then Inr (t_rows t ! i) else Inl IndexError) ts =
      Inr (map (\<lambda>t. t_rows t ! i) ts)" for ts
    by (induction ts) auto
  then show "\<forall>t \<in> set (ds_tensors ds). i < length (t_rows t) \<Longrightarrow> ?thesis"
    by (simp add: ds_getitem_def)
qed

lemma map_sint_word_of_int:
  "list_all in_int64 v \<Longrightarrow> map sint (map (word_of_int :: int \<Rightarrow> int64) v) = v"
  by (induction v) (simp_all add: sint_word_of_int_in_int64)

lemmas dataset_simps = column_tensor_Inr_iff feature_tensor_rows tensor_dataset_feature_tensors

lemma column_tensors_Inr_iff:
  assumes "features \<noteq> []"
  shows "smap (\<lambda>t_name. sbind (feature_column features t_name) torch_tensor_long) names = Inr ts
           \<longleftrightarrow> (\<forall>n \<in> set names. column_ok features n) \<and> ts = map (feature_tensor features) names"
  by (rule smap_Inr_map_iff) (rule column_tensor_Inr_iff [OF assms])

lemma column_ok_value:
  assumes "column_ok features n" and "s \<in> set features"
  obtains v where "map_of s n = Some v" and "list_all in_int64 v"
  using assms by (auto simp: column_ok_def split: option.splits)

lemma store_row_Inl:
  "store_row n row = Inl e \<Longrightarrow> (\<exists>a b c. e = ValueError a b c) \<or> e = long_overflow"
  by (auto simp: store_row_def to_long_Inl_iff split: if_splits dest!: smap_Inl_ex)

lemma torch_tensor_long_Inl:
  "torch_tensor_long rows = Inl e \<Longrightarrow> (\<exists>a b c. e = ValueError a b c) \<or> e = long_overflow"
  by (auto simp: torch_tensor_long_def sbind_eq_Inl_iff split: list.splits
      dest!: smap_Inl_ex store_row_Inl)

lemma column_tensor_Inl:
  "sbind (feature_column features n) torch_tensor_long = Inl e \<Longrightarrow>
     (\<exists>k. e = KeyError k) \<or> (\<exists>a b c. e = ValueError a b c) \<or> e = long_overflow"
  by (auto simp: sbind_eq_Inl_iff feature_column_def dict_get_Inl_iff
      dest!: smap_Inl_ex torch_tensor_long_Inl)

section \<open>Properties of the converter\<close>

lemma convert_features_to_dataset_eq:
  "convert_features_to_dataset features = Inr r \<longleftrightarrow>
     features_ok features \<and>
     r = (\<lparr>ds_tensors = map (feature_tensor features) (map fst (hd features))\<rparr>,
          map fst (hd features))"
proof (cases features)
  case Nil
  then show ?thesis
    by (simp add: convert_features_to_dataset_def tensor_names_def features_ok_def)
next
  case (Cons f fs)
  then show ?thesis
    by (auto simp: convert_features_to_dataset_def tensor_names_def features_ok_def
        sbind_eq_Inr_iff column_tensors_Inr_iff tensor_dataset_feature_tensors
        simp del: smap.simps map_map)
qed

lemma convert_features_to_dataset_shape:
  "convert_features_to_dataset features = Inr (ds, names) \<Longrightarrow>
     (\<forall>t \<in> set (ds_tensors ds). length (t_rows t) = length features) \<and>
     length names = length (ds_tensors ds)"
  by (auto simp: convert_features_to_dataset_eq feature_tensor_rows)

text \<open>
  C1. The converter succeeds exactly on well-formed feature lists (non-empty, every
  sample has every key of the first sample, values of a key have one length, all
  values fit the long dtype), and then returns one long tensor per key of the first
  sample, in the first sample's key order, together with those keys.
\<close>

theorem convert_features_to_dataset_Inr_iff:
  "convert_features_to_dataset features = Inr r \<longleftrightarrow>
     features_ok features \<and>
     r = (\<lparr>ds_tensors = map (feature_tensor features) (map fst (hd features))\<rparr>,
          map fst (hd features))"
  by (rule convert_features_to_dataset_eq)

text \<open>
  C2. Round trip: after a successful conversion, row \<open>i\<close> of the dataset, read back
  as signed 64-bit integers, is for every tensor name exactly the value sample \<open>i\<close>
  has under that name; no value is truncated by the long dtype.
\<close>

theorem convert_features_to_dataset_roundtrip:
  assumes "convert_features_to_dataset features = Inr (ds, names)"
    and "i < length features"
  shows "\<exists>row. ds_getitem ds i = Inr row \<and>
           list_all2 (\<lambda>n v. map_of (features ! i) n = Some (map sint v)) names row"
proof -
  from assms(1) have ok: "features_ok features"
    and ds: "ds = \<lparr>ds_tensors = map (feature_tensor features) names\<rparr>"
    and names: "names = map fst (hd features)"
    by (simp_all add: convert_features_to_dataset_eq)
  have get: "ds_getitem ds i = Inr (map (\<lambda>n. t_rows (feature_tensor features n) ! i) names)"
    using assms(2) by (simp add: ds ds_getitem_in_range feature_tensor_rows)
  have "map_of (features ! i) n = Some (map sint (t_rows (feature_tensor features n) ! i))"
    if "n \<in> set names" for n
  proof -
    from ok that names have "column_ok features n" by (auto simp: features_ok_def)
    moreover have "features ! i \<in> set features" using assms(2) by simp
    ultimately obtain v where v: "map_of (features ! i) n = Some v" "list_all in_int64 v"
      by (rule column_ok_value)
    from v(2) have "map sint (map (word_of_int :: int \<Rightarrow> int64) v) = v"
      by (rule map_sint_word_of_int)
    with v assms(2) show ?thesis by (simp add: feature_tensor_def)
  qed
  then show ?thesis
    using get by (auto simp: list_all2_conv_all_nth)
qed

text \<open>
  C3. \<open>len\<close> of a converted dataset is the number of samples, except when the
  first sample has no keys: then there is no tensor and \<open>len\<close> raises IndexError
  (TensorDataset reads its first tensor).
\<close>

theorem convert_features_to_dataset_len:
  assumes "convert_features_to_dataset features = Inr (ds, names)"
  shows "ds_len ds = (if names = [] then Inl IndexError else Inr (length features))"
  using assms
  by (auto simp: convert_features_to_dataset_eq ds_len_def feature_tensor_rows
      split: list.splits)

text \<open>
  C4. The converter raises only IndexError (no samples), KeyError (a sample lacks a
  key of the first sample), ValueError (ragged values) or torch's RuntimeError
  \<open>Overflow when unpacking long\<close> (a value outside the long range): the size
  assertion of TensorDataset never fires.
\<close>

theorem convert_features_to_dataset_errors:
  assumes "convert_features_to_dataset features = Inl e"
  shows "e = IndexError \<or> (\<exists>k. e = KeyError k) \<or> (\<exists>a b c. e = ValueError a b c) \<or>
         e = long_overflow"
proof (cases features)
  case Nil
  with assms show ?thesis
    by (simp add: convert_features_to_dataset_def tensor_names_def)
next
  case (Cons f fs)
  let ?col = "\<lambda>t_name. sbind (feature_column features t_name) torch_tensor_long"
  have "smap ?col (map fst f) = Inl e"
  proof (cases "smap ?col (map fst f)")
    case (Inr ts)
    with Cons have "ts = map (feature_tensor features) (map fst f)"
      by (simp add: column_tensors_Inr_iff del: smap.simps map_map)
    then have "tensor_dataset ts = Inr \<lparr>ds_tensors = ts\<rparr>"
      by (simp only: tensor_dataset_feature_tensors)
    with assms Inr Cons show ?thesis
      by (simp add: convert_features_to_dataset_def tensor_names_def del: smap.simps)
  next
    case (Inl e')
    with assms Cons show ?thesis
      by (simp add: convert_features_to_dataset_def tensor_names_def del: smap.simps)
  qed
  then obtain n where "?col n = Inl e"
    by (auto dest: smap_Inl_ex)
  then show ?thesis
    by (auto dest: column_tensor_Inl)
qed

section \<open>Witnesses\<close>

theorem convert_features_to_dataset_Inr_iff_witness:
  "features_ok [[(''input_ids'', [101, 7]), (''label_ids'', [1])], [(''input_ids'', [101, 9]), (''label_ids'', [0])]] \<and>
   convert_features_to_dataset [[(''input_ids'', [101, 7]), (''label_ids'', [1])], [(''input_ids'', [101, 9]), (''label_ids'', [0])]] =
     Inr (\<lparr>ds_tensors = map (feature_tensor [[(''input_ids'', [101, 7]), (''label_ids'', [1])], [(''input_ids'', [101, 9]), (''label_ids'', [0])]]) [''input_ids'', ''label_ids'']\<rparr>,
          [''input_ids'', ''label_ids''])"
proof -
  have ok: "features_ok [[(''input_ids'', [101, 7]), (''label_ids'', [1])], [(''input_ids'', [101, 9]), (''label_ids'', [0])]]"
    by (simp add: features_ok_def column_ok_def in_int64_def)
  then show ?thesis
    using convert_features_to_dataset_Inr_iff [of "[[(''input_ids'', [101, 7]), (''label_ids'', [1])], [(''input_ids'', [101, 9]), (''label_ids'', [0])]]"] by simp
qed

theorem convert_features_to_dataset_roundtrip_witness:
  "convert_features_to_dataset [[(''input_ids'', [101, 7]), (''label_ids'', [1])], [(''input_ids'', [101, 9]), (''label_ids'', [0])]] =
     Inr (\<lparr>ds_tensors = map (feature_tensor [[(''input_ids'', [101, 7]), (''label_ids'', [1])], [(''input_ids'', [101, 9]), (''label_ids'', [0])]]) [''input_ids'', ''label_ids'']\<rparr>,
          [''input_ids'', ''label_ids'']) \<and> (1::nat) < length [[(''input_ids'', [101, 7]), (''label_ids'', [1])], [(''input_ids'', [101, 9]), (''label_ids'', [0])]] \<and>
   (\<exists>row. ds_getitem \<lparr>ds_tensors = map (feature_tensor [[(''input_ids'', [101, 7]), (''label_ids'', [1])], [(''input_ids'', [101, 9]), (''label_ids'', [0])]]) [''input_ids'', ''label_ids'']\<rparr> 1
            = Inr row \<and>
      list_all2 (\<lambda>n v. map_of ([[(''input_ids'', [101, 7]), (''label_ids'', [1])], [(''input_ids'', [101, 9]), (''label_ids'', [0])]] ! 1) n = Some (map sint v)) [''input_ids'', ''label_ids''] row)"
proof -
  have conv: "convert_features_to_dataset [[(''input_ids'', [101, 7]), (''label_ids'', [1])], [(''input_ids'', [101, 9]), (''label_ids'', [0])]] =
     Inr (\<lparr>ds_tensors = map (feature_tensor [[(''input_ids'', [101, 7]), (''label_ids'', [1])], [(''input_ids'', [101, 9]), (''label_ids'', [0])]]) [''input_ids'', ''label_ids'']\<rparr>,
          [''input_ids'', ''label_ids''])"
    using convert_features_to_dataset_eq [of "[[(''input_ids'', [101, 7]), (''label_ids'', [1])], [(''input_ids'', [101, 9]), (''label_ids'', [0])]]"]
    by (simp add: features_ok_def column_ok_def in_int64_def)
  show ?thesis
    using conv convert_features_to_dataset_roundtrip [OF conv, of 1] by simp
qed

theorem convert_features_to_dataset_len_witness:
  "convert_features_to_dataset [[(''input_ids'', [101, 7]), (''label_ids'', [1])], [(''input_ids'', [101, 9]), (''label_ids'', [0])]] =
     Inr (\<lparr>ds_tensors = map (feature_tensor [[(''input_ids'', [101, 7]), (''label_ids'', [1])], [(''input_ids'', [101, 9]), (''label_ids'', [0])]]) [''input_ids'', ''label_ids'']\<rparr>,
          [''input_ids'', ''label_ids'']) \<and>
   ds_len \<lparr>ds_tensors = map (feature_tensor [[(''input_ids'', [101, 7]), (''label_ids'', [1])], [(''input_ids'', [101, 9]), (''label_ids'', [0])]]) [''input_ids'', ''label_ids'']\<rparr> = Inr 2 \<and>
   convert_features_to_dataset [[], []] = Inr (\<lparr>ds_tensors = []\<rparr>, []) \<and>
   ds_len \<lparr>ds_tensors = []\<rparr> = Inl IndexError"
proof -
  have conv: "convert_features_to_dataset [[(''input_ids'', [101, 7]), (''label_ids'', [1])], [(''input_ids'', [101, 9]), (''label_ids'', [0])]] =
     Inr (\<lparr>ds_tensors = map (feature_tensor [[(''input_ids'', [101, 7]), (''label_ids'', [1])], [(''input_ids'', [101, 9]), (''label_ids'', [0])]]) [''input_ids'', ''label_ids'']\<rparr>,
          [''input_ids'', ''label_ids''])"
    using convert_features_to_dataset_eq [of "[[(''input_ids'', [101, 7]), (''label_ids'', [1])], [(''input_ids'', [101, 9]), (''label_ids'', [0])]]"]
    by (simp add: features_ok_def column_ok_def in_int64_def)
  have empty: "convert_features_to_dataset [[], []] = Inr (\<lparr>ds_tensors = []\<rparr>, [])"
    using convert_features_to_dataset_eq [of "[[], []]"] by (simp add: features_ok_def)
  show ?thesis
    using conv empty convert_features_to_dataset_len [OF conv]
      convert_features_to_dataset_len [OF empty] by simp
qed

theorem convert_features_to_dataset_errors_witness:
  "convert_features_to_dataset [[(''input_ids'', [101, 7])], [(''label_ids'', [1])]] =
     Inl (KeyError ''input_ids'') \<and>
   (\<exists>k. KeyError ''input_ids'' = KeyError k)"
proof -
  have e: "convert_features_to_dataset [[(''input_ids'', [101, 7])], [(''label_ids'', [1])]] =
     Inl (KeyError ''input_ids'')"
    by (simp add: convert_features_to_dataset_def tensor_names_def feature_column_def
        dict_get_def)
  show ?thesis
    using e convert_features_to_dataset_errors [OF e] by simp
qed

end
