(* ===== verification/Loader.thy ===== *)
theory Loader
  imports Dataset
begin

text \<open>
  The batch loader both inference paths build (\<open>infer.py\<close> lines 119-124 and
  159-164): FARM's \<open>NamedDataLoader\<close> over a \<open>SequentialSampler\<close>, which is torch's
  \<open>DataLoader\<close> with a \<open>BatchSampler\<close> (no \<open>drop_last\<close>) and a collate function
  that stacks the rows of each tensor under its name.  These classes live outside
  \<open>src/\<close> (\<open>farm/data_handler/dataloader.py\<close> and torch) and are modelled from the
  spec and their documented behaviour.
  \<open>batch_sampler_iter\<close> is the sampler's accumulate-and-yield loop; it is proved equal to
  the reference chunking \<open>chunks\<close>, which is proved to cover the rows exactly once, in
  order, in \<open>ceil(N / batch_size)\<close> batches, batch \<open>i\<close> being the slice
  \<open>[i * bs, (i + 1) * bs)\<close>.  Collating the rows of a batch equals slicing every column.
\<close>

section \<open>Reference chunking\<close>

function chunks :: "nat \<Rightarrow> 'a list \<Rightarrow> 'a list list" where
  "chunks n xs = (if n = 0 \<or> xs = [] then [] else take n xs # chunks n (drop n xs))"
  by pat_completeness auto
termination
  by (relation "measure (\<lambda>(n, xs). length xs)") auto

declare chunks.simps [simp del]

section \<open>Samplers\<close>

text \<open>\<open>SequentialSampler(dataset)\<close> yields \<open>range(len(dataset))\<close>.\<close>

definition sequential_sampler :: "nat \<Rightarrow> nat list" where
  "sequential_sampler n = [0..<n]"

text \<open>
  \<open>BatchSampler.__iter__\<close>: append each index to the current batch, yield it when it
  reaches \<open>batch_size\<close>, and yield the non-empty remainder at the end.
\<close>

fun batch_sampler_iter :: "nat \<Rightarrow> 'a list \<Rightarrow> 'a list \<Rightarrow> 'a list list" where
  "batch_sampler_iter bs batch [] = (if batch \<noteq> [] then [batch] else [])"
| "batch_sampler_iter bs batch (idx # idxs) =
     (if length (batch @ [idx]) = bs then (batch @ [idx]) # batch_sampler_iter bs [] idxs
      else batch_sampler_iter bs (batch @ [idx]) idxs)"

section \<open>NamedDataLoader\<close>

text \<open>torch.stack of equally long rows, on the CPU where the dataset lives.\<close>

definition stack :: "int64 list list \<Rightarrow> tensor" where
  "stack rows = \<lparr>t_rows = rows, t_device = Cpu\<rparr>"

text \<open>
  The collate function: every example (one row per tensor) must have one row per
  tensor name; the rows are grouped per name and stacked.
\<close>

definition collate :: "string list \<Rightarrow> int64 list list list \<Rightarrow> error + tensor pydict" where
  "collate names batch =
     (case batch of
        [] \<Rightarrow> Inl IndexError
      | ex # _ \<Rightarrow>
          if length ex \<noteq> length names
          then Inl (AssertionError ''Dataset contains a different number of tensors than tensor names'')
          else Inr (map (\<lambda>(name, k). (name, stack (map (\<lambda>e. e ! k) batch)))
                      (zip names [0..<length names])))"

text \<open>Fetching one batch: index the dataset, then collate.\<close>

definition fetch_batch :: "dataset \<Rightarrow> string list \<Rightarrow> nat list \<Rightarrow> error + tensor pydict" where
  "fetch_batch ds names idxs = sbind (smap (ds_getitem ds) idxs) (collate names)"

text \<open>
  Building the loader checks the batch size (torch's BatchSampler); starting the
  iteration takes \<open>len(dataset)\<close>.  The result is the list of index batches the
  iteration visits, each fetched when the loop reaches it.
\<close>

definition data_loader_batches :: "dataset \<Rightarrow> int \<Rightarrow> error + nat list list" where
  "data_loader_batches ds batch_size =
     (if batch_size \<le> 0 then Inl (BatchSizeError batch_size)
      else sbind (ds_len ds)
             (\<lambda>n. Inr (batch_sampler_iter (nat batch_size) [] (sequential_sampler n))))"

section \<open>Lemmas on chunks\<close>

lemma chunks_Nil [simp]: "chunks n [] = []"
  by (simp add: chunks.simps)

lemma chunks_Cons:
  "0 < n \<Longrightarrow> xs \<noteq> [] \<Longrightarrow> chunks n xs = take n xs # chunks n (drop n xs)"
  by (simp add: chunks.simps)

lemma chunks_short:
  "0 < n \<Longrightarrow> xs \<noteq> [] \<Longrightarrow> length xs \<le> n \<Longrightarrow> chunks n xs = [xs]"
  by (simp add: chunks_Cons)

lemma chunks_append_full:
  "length ys = n \<Longrightarrow> 0 < n \<Longrightarrow> chunks n (ys @ zs) = ys # chunks n zs"
  by (subst chunks.simps) auto

lemma concat_chunks: "0 < n \<Longrightarrow> concat (chunks n xs) = xs"
  by (induction n xs rule: chunks.induct) (simp add: chunks.simps)

lemma chunks_bounds:
  "c \<in> set (chunks n xs) \<Longrightarrow> c \<noteq> [] \<and> length c \<le> n"
proof (induction n xs rule: chunks.induct)
  case (1 n xs)
  then show ?case
    by (cases "n = 0 \<or> xs = []") (auto simp: chunks.simps [of n xs])
qed

lemma length_chunks: "0 < n \<Longrightarrow> length (chunks n xs) = (length xs + n - 1) div n"
proof (induction n xs rule: chunks.induct)
  case (1 n xs)
  show ?case
  proof (cases "xs = []")
    case True
    with "1.prems" show ?thesis by simp
  next
    case False
    with "1.prems" "1.IH" have "length (chunks n xs) = Suc ((length xs - n + n - 1) div n)"
      by (simp add: chunks_Cons)
    also have "\<dots> = (length xs + n - 1) div n"
    proof (cases "length xs \<le> n")
      case True
      from False have pos: "0 < length xs" by simp
      then have e: "length xs + n - 1 = (length xs - 1) + n" by arith
      from pos True "1.prems" have "(length xs - 1) div n = 0" "(n - 1) div n = 0"
        by (simp_all add: div_less)
      moreover have "(length xs + n - 1) div n = (length xs - 1) div n + 1"
        using "1.prems" by (subst e, subst div_add_self2) simp_all
      ultimately show ?thesis
        using True by simp
    next
      case False
      then have e: "length xs + n - 1 = (length xs - n + n - 1) + n" by arith
      show ?thesis
        using "1.prems" by (subst e, subst div_add_self2) simp_all
    qed
    finally show ?thesis .
  qed
qed

lemma chunks_nth:
  "i < length (chunks n xs) \<Longrightarrow> chunks n xs ! i = py_slice xs (i * n) (Suc i * n)"
proof (induction n xs arbitrary: i rule: chunks.induct)
  case (1 n xs)
  from "1.prems" have ne: "\<not> (n = 0 \<or> xs = [])"
    by (auto simp: chunks.simps [of n xs] split: if_splits)
  show ?case
  proof (cases i)
    case 0
    with ne show ?thesis by (simp add: chunks.simps [of n xs] py_slice_def)
  next
    case (Suc j)
    with "1.prems" ne have "j < length (chunks n (drop n xs))"
      by (simp add: chunks.simps [of n xs])
    with ne "1.IH" Suc show ?thesis
      by (simp add: chunks.simps [of n xs] py_slice_def add.commute)
  qed
qed

lemma batch_sampler_iter_chunks:
  "0 < bs \<Longrightarrow> length batch < bs \<Longrightarrow> batch_sampler_iter bs batch xs = chunks bs (batch @ xs)"
proof (induction xs arbitrary: batch)
  case Nil
  then show ?case by (auto simp: chunks_short)
next
  case (Cons idx idxs)
  show ?case
  proof (cases "length (batch @ [idx]) = bs")
    case True
    with Cons.prems Cons.IH [of "[]"] show ?thesis
      using chunks_append_full [of "batch @ [idx]" bs idxs] by simp
  next
    case False
    with Cons.prems have "length (batch @ [idx]) < bs" by simp
    with Cons.IH False show ?thesis by simp
  qed
qed

lemma chunks_upt_nth:
  "i < length (chunks n [0..<m]) \<Longrightarrow> chunks n [0..<m] ! i = [i * n..<min (Suc i * n) m]"
  by (auto simp: chunks_nth py_slice_upto intro!: map_idI)

lemma data_loader_batches_Inr:
  "0 < batch_size \<Longrightarrow> ds_len ds = Inr n \<Longrightarrow>
     data_loader_batches ds batch_size = Inr (chunks (nat batch_size) [0..<n])"
  by (simp add: data_loader_batches_def sequential_sampler_def batch_sampler_iter_chunks)

lemma collate_columns:
  assumes "rows \<noteq> []" and "\<forall>r \<in> set rows. length r = length names"
  shows "collate names rows =
           Inr (map (\<lambda>(name, k). (name, stack (map (\<lambda>e. e ! k) rows)))
                  (zip names [0..<length names]))"
  using assms by (cases rows) (auto simp: collate_def)

lemma chunks_cover: "0 < n \<Longrightarrow> length xs \<le> length (chunks n xs) * n"
proof -
  assume n: "0 < n"
  have "(length xs + n - 1) div n * n + (length xs + n - 1) mod n = length xs + n - 1"
    by (rule div_mult_mod_eq)
  moreover have "(length xs + n - 1) mod n < n" using n by simp
  ultimately have "length xs \<le> (length xs + n - 1) div n * n" using n by linarith
  with n show ?thesis by (simp add: length_chunks)
qed

lemma chunks_as_slices:
  "chunks n xs = map (\<lambda>k. py_slice xs (k * n) (Suc k * n)) [0..<length (chunks n xs)]"
  by (rule nth_equalityI) (simp_all add: chunks_nth)

section \<open>Properties of the loader\<close>

text \<open>
  C5. The BatchSampler loop (accumulate indices, yield a full batch, yield the
  non-empty rest at the end) computes exactly the reference chunking of its input.
\<close>

theorem batch_sampler_iter_eq_chunks:
  "0 < bs \<Longrightarrow> batch_sampler_iter bs [] xs = chunks bs xs"
  by (simp add: batch_sampler_iter_chunks)

text \<open>
  C6. For a positive batch size, the loader visits every row index of the dataset exactly
  once, in order, in \<open>ceil(N / batch_size)\<close> non-empty batches of at most
  \<open>batch_size\<close> indices.
\<close>

theorem data_loader_batches_partition:
  assumes "0 < batch_size" and "ds_len ds = Inr n"
  shows "\<exists>bss. data_loader_batches ds batch_size = Inr bss \<and> concat bss = [0..<n] \<and>
           length bss = (n + nat batch_size - 1) div nat batch_size \<and>
           (\<forall>b \<in> set bss. b \<noteq> [] \<and> length b \<le> nat batch_size)"
proof -
  from assms(1) have pos: "0 < nat batch_size" by simp
  have "length (chunks (nat batch_size) [0..<n]) = (n + nat batch_size - 1) div nat batch_size"
    using length_chunks [OF pos, of "[0..<n]"] by simp
  moreover have "\<forall>b \<in> set (chunks (nat batch_size) [0..<n]). b \<noteq> [] \<and> length b \<le> nat batch_size"
    using chunks_bounds by blast
  ultimately show ?thesis
    using data_loader_batches_Inr [OF assms] concat_chunks [OF pos] by blast
qed

text \<open>
  C7. Batch \<open>i\<close> of the loader holds the row indices
  \<open>[i * batch_size, min((i + 1) * batch_size, N))\<close>: the window the inferencer
  slices from its sample list.
\<close>

theorem data_loader_batches_nth:
  assumes "data_loader_batches ds batch_size = Inr bss" and "ds_len ds = Inr n"
    and "i < length bss"
  shows "bss ! i = [i * nat batch_size..<min (Suc i * nat batch_size) n]"
proof -
  from assms(1) have "0 < batch_size"
    by (auto simp: data_loader_batches_def split: if_splits)
  with assms(1,2) have "bss = chunks (nat batch_size) [0..<n]"
    by (simp add: data_loader_batches_Inr)
  with assms(3) show ?thesis by (simp add: chunks_upt_nth)
qed



lemma fetch_batch_columns:
  assumes "\<forall>t \<in> set (ds_tensors ds). length (t_rows t) = n"
    and "length names = length (ds_tensors ds)" and "a < b" and "b \<le> n"
  shows "fetch_batch ds names [a..<b] =
           Inr (map (\<lambda>(name, t). (name, stack (py_slice (t_rows t) a b)))
                  (zip names (ds_tensors ds)))"
proof -
  let ?ts = "ds_tensors ds"
  let ?rows = "map (\<lambda>i. map (\<lambda>t. t_rows t ! i) ?ts) [a..<b]"
  have get: "smap (ds_getitem ds) [a..<b] = Inr ?rows"
    using assms(1,4) by (intro smap_eq_map) (auto simp: ds_getitem_in_range)
  have col: "collate names ?rows =
      Inr (map (\<lambda>(name, k). (name, stack (map (\<lambda>e. e ! k) ?rows)))
             (zip names [0..<length names]))"
    using assms(2,3) by (intro collate_columns) auto
  have "map (\<lambda>(name, k). (name, stack (map (\<lambda>e. e ! k) ?rows))) (zip names [0..<length names])
      = map (\<lambda>(name, t). (name, stack (py_slice (t_rows t) a b))) (zip names ?ts)"
  proof (rule nth_equalityI)
    fix k assume "k < length (map (\<lambda>(name, k). (name, stack (map (\<lambda>e. e ! k) ?rows)))
        (zip names [0..<length names]))"
    then have k: "k < length ?ts" using assms(2) by simp
    with assms(1,4) have "map (\<lambda>e. e ! k) ?rows = py_slice (t_rows (?ts ! k)) a b"
      by (simp add: py_slice_upto min_absorb1)
    with k assms(2) show "map (\<lambda>(name, k). (name, stack (map (\<lambda>e. e ! k) ?rows)))
        (zip names [0..<length names]) ! k =
      map (\<lambda>(name, t). (name, stack (py_slice (t_rows t) a b))) (zip names ?ts) ! k"
      by simp
  qed (simp add: assms(2))
  with get col show ?thesis by (simp add: fetch_batch_def)
qed

text \<open>
  C8. Fetching a batch of consecutive rows \<open>[a, b)\<close> of a rectangular dataset and
  collating them gives, under every tensor name, that tensor's row slice
  \<open>[a:b]\<close>: grouping rows per name equals slicing every column.
\<close>

theorem fetch_batch_slices:
  assumes "\<forall>t \<in> set (ds_tensors ds). length (t_rows t) = n"
    and "length names = length (ds_tensors ds)" and "a < b" and "b \<le> n"
  shows "fetch_batch ds names [a..<b] =
           Inr (map (\<lambda>(name, t). (name, stack (py_slice (t_rows t) a b)))
                  (zip names (ds_tensors ds)))"
  using assms by (rule fetch_batch_columns)

section \<open>Witnesses\<close>

theorem batch_sampler_iter_eq_chunks_witness:
  "0 < (2::nat) \<and> batch_sampler_iter 2 [] [0..<5::nat] = chunks 2 [0..<5] \<and>
   batch_sampler_iter 2 [] [0..<5::nat] = [[0, 1], [2, 3], [4]]"
proof -
  have "batch_sampler_iter 2 [] [0..<5::nat] = [[0, 1], [2, 3], [4]]"
    by code_simp
  then show ?thesis
    using batch_sampler_iter_eq_chunks [of 2 "[0..<5::nat]"] by simp
qed

theorem data_loader_batches_partition_witness:
  "0 < (2::int) \<and> ds_len \<lparr>ds_tensors = [stack [[1], [2], [3]], stack [[7, 8], [9, 10], [11, 12]]]\<rparr> = Inr 3 \<and>
   (\<exists>bss. data_loader_batches \<lparr>ds_tensors = [stack [[1], [2], [3]], stack [[7, 8], [9, 10], [11, 12]]]\<rparr> 2 = Inr bss \<and> concat bss = [0..<3] \<and>
      length bss = (3 + nat 2 - 1) div nat 2 \<and> list_all (\<lambda>b. b \<noteq> [] \<and> length b \<le> nat 2) bss)"
proof -
  have len: "ds_len \<lparr>ds_tensors = [stack [[1], [2], [3]], stack [[7, 8], [9, 10], [11, 12]]]\<rparr> = Inr 3" by (simp add: ds_len_def stack_def)
  show ?thesis
    using len data_loader_batches_partition [OF _ len, of 2] by (simp add: list_all_iff)
qed

theorem data_loader_batches_nth_witness:
  "data_loader_batches \<lparr>ds_tensors = [stack [[1], [2], [3]], stack [[7, 8], [9, 10], [11, 12]]]\<rparr> 2 = Inr [[0, 1], [2]] \<and> ds_len \<lparr>ds_tensors = [stack [[1], [2], [3]], stack [[7, 8], [9, 10], [11, 12]]]\<rparr> = Inr 3 \<and>
   1 < length [[0::nat, 1], [2]] \<and> [[0::nat, 1], [2]] ! 1 = [1 * nat 2..<min (Suc 1 * nat 2) 3]"
proof -
  have len: "ds_len \<lparr>ds_tensors = [stack [[1], [2], [3]], stack [[7, 8], [9, 10], [11, 12]]]\<rparr> = Inr 3" by (simp add: ds_len_def stack_def)
  have dl: "data_loader_batches \<lparr>ds_tensors = [stack [[1], [2], [3]], stack [[7, 8], [9, 10], [11, 12]]]\<rparr> 2 = Inr [[0, 1], [2]]"
    by (simp add: data_loader_batches_def len sequential_sampler_def upt_rec)
  show ?thesis
    using dl len data_loader_batches_nth [OF dl len, of 1] by simp
qed

theorem fetch_batch_slices_witness:
  "list_all (\<lambda>t. length (t_rows t) = 3)
     (ds_tensors \<lparr>ds_tensors = [stack [[1], [2], [3]], stack [[7, 8], [9, 10], [11, 12]]]\<rparr>) \<and>
   length [''a'', ''b''] = length (ds_tensors \<lparr>ds_tensors = [stack [[1], [2], [3]], stack [[7, 8], [9, 10], [11, 12]]]\<rparr>) \<and> (1::nat) < 3 \<and> (3::nat) \<le> 3 \<and>
   fetch_batch \<lparr>ds_tensors = [stack [[1], [2], [3]], stack [[7, 8], [9, 10], [11, 12]]]\<rparr> [''a'', ''b''] [1..<3] =
     Inr [(''a'', stack [[2], [3]]), (''b'', stack [[9, 10], [11, 12]])]"
proof -
  have h: "\<forall>t \<in> set (ds_tensors \<lparr>ds_tensors = [stack [[1], [2], [3]], stack [[7, 8], [9, 10], [11, 12]]]\<rparr>). length (t_rows t) = 3"
    by (simp add: stack_def)
  have l: "length [''a'', ''b''] = length (ds_tensors \<lparr>ds_tensors = [stack [[1], [2], [3]], stack [[7, 8], [9, 10], [11, 12]]]\<rparr>)" by simp
  show ?thesis
    using l fetch_batch_slices [OF h l, of 1 3]
    by (simp add: stack_def py_slice_def)
qed

end
