(* ===== verification/Collaborators.thy ===== *)
theory Collaborators
  imports Dataset
begin

text \<open>
  The collaborators the inferencer calls, none of which is under \<open>src/\<close>; each is
  modelled from the spec as the contract the inference core relies on.
  \<^item> The Processor (\<open>farm/data_handler/processor.py\<close>): a record of its operations.
    \<open>dataset_from_dicts\<close> turns every dict into samples, every sample into feature
    dicts, and converts the flattened features with \<open>convert_features_to_dataset\<close>
    (the modelled code of \<open>dataset.py\<close>); its label maps and tokenizer are data.
  \<^item> The AdaptiveModel (\<open>farm/modeling/adaptive_model.py\<close>): its training flag, the
    model type of each prediction head, the language of its language model, and its
    forward pass and two formatting routines as functions that may raise.
  \<^item> \<open>initialize_device_settings\<close> and \<open>set_all_seeds\<close> (\<open>farm/utils.py\<close>), over a
    \<open>world\<close> record holding the process-wide state they read and write: CUDA
    availability and the seeds of the random generators.
\<close>

record ('d, 's, 'tok) processor =
  p_dict_to_samples :: "'d \<Rightarrow> error + 's list"
  p_sample_to_features :: "'s \<Rightarrow> error + feature list"
  p_label_maps :: "string list list"
  p_tokenizer :: 'tok

record ('s, 'tok, 'lg, 'p) adaptive_model =
  am_training :: bool
  am_head_types :: "string list"
  am_language :: string
  am_forward :: "tensor pydict \<Rightarrow> error + 'lg"
  am_formatted_preds :: "'lg \<Rightarrow> string list list \<Rightarrow> 's list \<Rightarrow> 'tok \<Rightarrow> tensor pydict \<Rightarrow> error + 'p list"
  lm_formatted_preds :: "string \<Rightarrow> 's list \<Rightarrow> 'tok \<Rightarrow> tensor pydict \<Rightarrow> error + 'p list"

record world =
  w_cuda_available :: bool
  w_device_count :: nat
  w_seed :: "int option"
  w_cuda_seed :: "int option"

text \<open>\<open>Processor.dataset_from_dicts\<close>: samples per dict, features per sample, one dataset.\<close>

definition dataset_from_dicts :: "('d, 's, 'tok) processor \<Rightarrow> 'd list \<Rightarrow> error + dataset \<times> string list" where
  "dataset_from_dicts proc dicts =
     sbind (smap (p_dict_to_samples proc) dicts) (\<lambda>sss.
     sbind (smap (p_sample_to_features proc) (concat sss)) (\<lambda>fss.
     convert_features_to_dataset (concat fss)))"

text \<open>\<open>initialize_device_settings(use_cuda, local_rank=-1, fp16=False)\<close>.\<close>

definition initialize_device_settings :: "world \<Rightarrow> bool \<Rightarrow> device \<times> nat" where
  "initialize_device_settings w use_cuda =
     (if \<not> use_cuda then (Cpu, 0)
      else (if w_cuda_available w then Cuda else Cpu, w_device_count w))"

text \<open>\<open>set_all_seeds(seed, n_gpu)\<close>: Python, numpy and torch generators, CUDA when used.\<close>

definition set_all_seeds :: "int \<Rightarrow> nat \<Rightarrow> world \<Rightarrow> world" where
  "set_all_seeds seed n_gpu w =
     w\<lparr>w_seed := Some seed, w_cuda_seed := (if 0 < n_gpu then Some seed else w_cuda_seed w)\<rparr>"

end
