(* ===== verification/Inferencer.thy ===== *)
theory Inferencer
  imports Loader Collaborators
begin

text \<open>
  The \<open>Inferencer\<close> class of \<open>src/farm/infer.py\<close> (lines 16-179).  Its attributes
  are a record; \<open>prediction_type\<close> and \<open>label_map\<close> are options because
  \<open>__init__\<close> leaves them unset for a model with more than one prediction head, and
  reading an unset attribute raises AttributeError.  \<open>__init__\<close> and \<open>load\<close> pass the
  process-wide \<open>world\<close> (device discovery, random seeds) explicitly; the model's
  switch to evaluation mode is the \<open>am_training\<close> field of the model the inferencer
  keeps.  \<open>run_inference\<close> and \<open>extract_vectors\<close> share the batch loop
  \<open>predict_loop\<close> (lines 126-141 and 166-179): fetch the next batch, move every tensor
  to the inferencer's device, slice the batch's samples
  \<open>samples[i * batch_size : (i + 1) * batch_size]\<close>, run the step and append its
  predictions; the first exception aborts the call.
\<close>

record ('d, 's, 'tok, 'lg, 'p) inferencer =
  inf_processor :: "('d, 's, 'tok) processor"
  inf_model :: "('s, 'tok, 'lg, 'p) adaptive_model"
  inf_batch_size :: int
  inf_device :: device
  inf_language :: string
  inf_prediction_type :: "string option"
  inf_label_map :: "string list option"
  inf_name :: string

section \<open>Construction\<close>

text \<open>Lines 64-69: one head gives its type and the first label map, none gives
  \<open>embedder\<close>, several leave both attributes unset.\<close>

definition derive_prediction_type ::
  "('s, 'tok, 'lg, 'p) adaptive_model \<Rightarrow> ('d, 's, 'tok) processor \<Rightarrow>
     error + string option \<times> string list option" where
  "derive_prediction_type model processor =
     (if length (am_head_types model) = 1
      then sbind (py_nth (p_label_maps processor) 0)
             (\<lambda>lm. Inr (Some (am_head_types model ! 0), Some lm))
      else if length (am_head_types model) = 0 then Inr (Some ''embedder'', None)
      else Inr (None, None))"

text \<open>Line 70: the given name, else \<open>anonymous-<prediction_type>\<close>, which reads the
  attribute.\<close>

definition display_name :: "string option \<Rightarrow> string option \<Rightarrow> error + string" where
  "display_name name prediction_type =
     (case name of
        Some n \<Rightarrow> Inr n
      | None \<Rightarrow> (case prediction_type of
                  None \<Rightarrow> Inl (AttributeError ''prediction_type'')
                | Some pt \<Rightarrow> Inr (''anonymous-'' @ pt)))"

text \<open>\<open>Inferencer.__init__\<close> (lines 36-71).  The seeds are set last, so a failed
  construction leaves the world as it was.\<close>

definition inferencer_init ::
  "world \<Rightarrow> ('d, 's, 'tok) processor \<Rightarrow> ('s, 'tok, 'lg, 'p) adaptive_model \<Rightarrow> int \<Rightarrow>
     bool \<Rightarrow> string option \<Rightarrow> world \<times> (error + ('d, 's, 'tok, 'lg, 'p) inferencer)" where
  "inferencer_init w processor model batch_size gpu name =
     (let (device, n_gpu) = initialize_device_settings w gpu;
          model' = model\<lparr>am_training := False\<rparr>
      in case sbind (derive_prediction_type model' processor) (\<lambda>(pt, lm).
                sbind (display_name name pt) (\<lambda>nm.
                  Inr \<lparr>inf_processor = processor, inf_model = model',
                       inf_batch_size = batch_size, inf_device = device,
                       inf_language = am_language model', inf_prediction_type = pt,
                       inf_label_map = lm, inf_name = nm\<rparr>)) of
           Inl e \<Rightarrow> (w, Inl e)
         | Inr self \<Rightarrow> (set_all_seeds 42 n_gpu w, Inr self))"

text \<open>\<open>os.path.basename\<close>: the part after the last slash, \<open>p[p.rfind('/') + 1:]\<close>.\<close>

definition rfind :: "string \<Rightarrow> char \<Rightarrow> int" where
  "rfind p c = (case filter (\<lambda>i. p ! i = c) [0..<length p] of
                  [] \<Rightarrow> -1
                | is \<Rightarrow> int (last is))"

definition basename :: "string \<Rightarrow> string" where
  "basename p = drop (nat (rfind p (CHR ''/'') + 1)) p"

text \<open>\<open>Inferencer.load\<close> (lines 73-97), with the model and processor loaders as
  parameters (their failures propagate).\<close>

definition inferencer_load ::
  "world \<Rightarrow> (string \<Rightarrow> device \<Rightarrow> error + ('s, 'tok, 'lg, 'p) adaptive_model) \<Rightarrow>
     (string \<Rightarrow> error + ('d, 's, 'tok) processor) \<Rightarrow> (string \<Rightarrow> error + ('d, 's, 'tok) processor) \<Rightarrow>
     string \<Rightarrow> int \<Rightarrow> bool \<Rightarrow> bool \<Rightarrow> world \<times> (error + ('d, 's, 'tok, 'lg, 'p) inferencer)" where
  "inferencer_load w model_load processor_load inference_processor_load load_dir batch_size gpu
     embedder_only =
     (let (device, n_gpu) = initialize_device_settings w gpu
      in case sbind (model_load load_dir device) (\<lambda>model.
                sbind (if embedder_only then inference_processor_load load_dir
                       else processor_load load_dir) (\<lambda>processor. Inr (model, processor))) of
           Inl e \<Rightarrow> (w, Inl e)
         | Inr (model, processor) \<Rightarrow>
             inferencer_init w processor model batch_size gpu (Some (basename load_dir)))"

section \<open>The batch loop\<close>

text \<open>Lines 115-117: the samples, re-derived dict by dict.\<close>

definition dicts_to_samples :: "('d, 's, 'tok) processor \<Rightarrow> 'd list \<Rightarrow> error + 's list" where
  "dicts_to_samples processor dicts =
     sbind (smap (p_dict_to_samples processor) dicts) (\<lambda>sss. Inr (concat sss))"

text \<open>Line 128: \<open>{key: batch[key].to(self.device) for key in batch}\<close>.\<close>

definition batch_to_device :: "device \<Rightarrow> tensor pydict \<Rightarrow> tensor pydict" where
  "batch_to_device device batch = map (\<lambda>(key, t). (key, t\<lparr>t_device := device\<rparr>)) batch"

fun predict_loop ::
  "(tensor pydict \<Rightarrow> 's list \<Rightarrow> error + 'p list) \<Rightarrow> device \<Rightarrow> dataset \<Rightarrow> string list \<Rightarrow>
     's list \<Rightarrow> nat \<Rightarrow> nat \<Rightarrow> nat list list \<Rightarrow> 'p list \<Rightarrow> error + 'p list" where
  "predict_loop step device ds names samples bs i [] preds_all = Inr preds_all"
| "predict_loop step device ds names samples bs i (idxs # rest) preds_all =
     sbind (fetch_batch ds names idxs) (\<lambda>batch.
     sbind (step (batch_to_device device batch) (py_slice samples (i * bs) (Suc i * bs)))
       (\<lambda>preds. predict_loop step device ds names samples bs (Suc i) rest (preds_all @ preds)))"

text \<open>Lines 130-139: the no-grad forward pass, then the head's formatting.\<close>

definition inference_step ::
  "('d, 's, 'tok, 'lg, 'p) inferencer \<Rightarrow> tensor pydict \<Rightarrow> 's list \<Rightarrow> error + 'p list" where
  "inference_step self batch batch_samples =
     sbind (am_forward (inf_model self) batch) (\<lambda>logits.
       am_formatted_preds (inf_model self) logits (p_label_maps (inf_processor self)) batch_samples
         (p_tokenizer (inf_processor self)) batch)"

text \<open>Lines 170-176: the language model's own formatting, no head.\<close>

definition extraction_step ::
  "('d, 's, 'tok, 'lg, 'p) inferencer \<Rightarrow> string \<Rightarrow> tensor pydict \<Rightarrow> 's list \<Rightarrow> error + 'p list" where
  "extraction_step self extraction_strategy batch batch_samples =
     lm_formatted_preds (inf_model self) extraction_strategy batch_samples
       (p_tokenizer (inf_processor self)) batch"

text \<open>Lines 114-141 and 154-179 without the precondition: dataset, samples, loader,
  loop.\<close>

definition run_batches ::
  "('d, 's, 'tok, 'lg, 'p) inferencer \<Rightarrow> (tensor pydict \<Rightarrow> 's list \<Rightarrow> error + 'p list) \<Rightarrow>
     'd list \<Rightarrow> error + 'p list" where
  "run_batches self step dicts =
     sbind (dataset_from_dicts (inf_processor self) dicts) (\<lambda>(dataset, names).
     sbind (dicts_to_samples (inf_processor self) dicts) (\<lambda>samples.
     sbind (data_loader_batches dataset (inf_batch_size self)) (\<lambda>bss.
       predict_loop step (inf_device self) dataset names samples (nat (inf_batch_size self)) 0 bss [])))"

definition embedder_error_message :: "string \<Rightarrow> string" where
  "embedder_error_message name =
     ''You have called run_inference for a model without any prediction head! '' @
     ''If you want to: '' @
     ''a) ... extract vectors from the language model: call `Inferencer.extract_vectors(...)`'' @
     ''b) ... run inference on a downstream task: make sure your model path '' @ name @
     '' contains a saved prediction head''"

text \<open>\<open>Inferencer.run_inference\<close> (lines 99-141).\<close>

definition run_inference ::
  "('d, 's, 'tok, 'lg, 'p) inferencer \<Rightarrow> 'd list \<Rightarrow> error + 'p list" where
  "run_inference self dicts =
     (case inf_prediction_type self of
        None \<Rightarrow> Inl (AttributeError ''prediction_type'')
      | Some pt \<Rightarrow>
          if pt = ''embedder'' then Inl (TypeError (embedder_error_message (inf_name self)))
          else run_batches self (inference_step self) dicts)"

text \<open>\<open>Inferencer.extract_vectors\<close> (lines 143-179).\<close>

definition extract_vectors ::
  "('d, 's, 'tok, 'lg, 'p) inferencer \<Rightarrow> 'd list \<Rightarrow> string \<Rightarrow> error + 'p list" where
  "extract_vectors self dicts extraction_strategy =
     run_batches self (extraction_step self extraction_strategy) dicts"

section \<open>Batches as rows\<close>

text \<open>
  One loop iteration as a function of the batch number and its indices, so that the
  loop is a fallible map over \<open>enumerate(data_loader)\<close>.
\<close>

definition batch_step ::
  "(tensor pydict \<Rightarrow> 's list \<Rightarrow> error + 'p list) \<Rightarrow> device \<Rightarrow> dataset \<Rightarrow> string list \<Rightarrow>
     's list \<Rightarrow> nat \<Rightarrow> nat \<times> nat list \<Rightarrow> error + 'p list" where
  "batch_step step device ds names samples bs =
     (\<lambda>(i, idxs). sbind (fetch_batch ds names idxs) (\<lambda>batch.
        step (batch_to_device device batch) (py_slice samples (i * bs) (Suc i * bs))))"

text \<open>The rows of a named batch (the number of rows is that of its first tensor), and
  the named row \<open>j\<close> of a dataset.\<close>

definition batch_rows :: "tensor pydict \<Rightarrow> (string \<times> int64 list) list list" where
  "batch_rows batch =
     (case batch of
        [] \<Rightarrow> []
      | (_, t) # _ \<Rightarrow> map (\<lambda>k. map (\<lambda>(name, t). (name, t_rows t ! k)) batch)
                          [0..<length (t_rows t)])"

definition ds_named_row :: "dataset \<Rightarrow> string list \<Rightarrow> nat \<Rightarrow> (string \<times> int64 list) list" where
  "ds_named_row ds names j = map (\<lambda>(name, t). (name, t_rows t ! j)) (zip names (ds_tensors ds))"

text \<open>
  A step is row-wise with per-row function \<open>g\<close> when, given one sample per row, it
  predicts \<open>g row sample\<close> for each row in order.  This is the contract under which
  the batched loop is compared with the unbatched specification.
\<close>

definition rowwise ::
  "(tensor pydict \<Rightarrow> 's list \<Rightarrow> error + 'p list) \<Rightarrow>
     ((string \<times> int64 list) list \<Rightarrow> 's \<Rightarrow> 'p) \<Rightarrow> bool" where
  "rowwise step g \<longleftrightarrow>
     (\<forall>batch batch_samples. length batch_samples = length (batch_rows batch) \<longrightarrow>
        step batch batch_samples = Inr (map2 g (batch_rows batch) batch_samples))"

section \<open>Loop lemmas\<close>

lemma predict_loop_smap:
  "predict_loop step device ds names samples bs i bss acc =
     sbind (smap (batch_step step device ds names samples bs) (zip [i..<i + length bss] bss))
       (\<lambda>outs. Inr (acc @ concat outs))"
proof (induction bss arbitrary: i acc)
  case Nil
  then show ?case by simp
next
  case (Cons idxs rest)
  have "[i..<i + length (idxs # rest)] = i # [Suc i..<Suc i + length rest]"
    by (simp add: upt_rec)
  with Cons.IH show ?case
    by (simp add: batch_step_def sbind_def split: sum.split)
qed


lemma dataset_from_dicts_converted:
  "dataset_from_dicts processor dicts = Inr r \<Longrightarrow> \<exists>features. convert_features_to_dataset features = Inr r"
  by (auto simp: dataset_from_dicts_def sbind_eq_Inr_iff)

lemma batch_rows_fetched:
  assumes "\<forall>t \<in> set (ds_tensors ds). length (t_rows t) = n"
    and "length names = length (ds_tensors ds)" and "names \<noteq> []" and "a < c" and "c \<le> n"
  shows "batch_rows (batch_to_device device
           (map (\<lambda>(name, t). (name, stack (py_slice (t_rows t) a c))) (zip names (ds_tensors ds))))
         = map (ds_named_row ds names) [a..<c]"
proof -
  from assms(2,3) obtain nm ns t0 ts where
    nt: "names = nm # ns" "ds_tensors ds = t0 # ts"
    by (cases names; cases "ds_tensors ds") auto
  have len0: "length (py_slice (t_rows t0) a c) = c - a"
    using assms(1,5) nt by (simp add: py_slice_length)
  have row: "map (\<lambda>(name, t). (name, py_slice (t_rows t) a c ! k)) (zip names (ds_tensors ds)) =
      ds_named_row ds names (a + k)" if "k < c - a" for k
  proof -
    have "py_slice (t_rows t) a c ! k = t_rows t ! (a + k)" if "t \<in> set (ds_tensors ds)" for t
      using assms(1,5) \<open>k < c - a\<close> that by (intro py_slice_nth) (simp add: py_slice_length)
    then show ?thesis
      unfolding ds_named_row_def by (auto intro!: map_cong dest: set_zip_rightD)
  qed
  have "batch_rows (batch_to_device device
           (map (\<lambda>(name, t). (name, stack (py_slice (t_rows t) a c))) (zip names (ds_tensors ds)))) =
        map (\<lambda>k. map (\<lambda>(name, t). (name, py_slice (t_rows t) a c ! k)) (zip names (ds_tensors ds)))
          [0..<c - a]"
    using len0 nt by (simp add: batch_rows_def batch_to_device_def stack_def case_prod_beta)
  also have "\<dots> = map (\<lambda>k. ds_named_row ds names (a + k)) [0..<c - a]"
    using row by simp
  also have "\<dots> = map (ds_named_row ds names) [a..<c]"
  proof -
    have "[a..<c] = map (\<lambda>k. k + a) [0..<c - a]"
      using assms(4) by (simp add: map_add_upt)
    then show ?thesis by (simp add: add.commute)
  qed
  finally show ?thesis .
qed

text \<open>Batch \<open>k\<close> of \<open>N\<close> rows, fetched and moved to the device, has the rows
  \<open>[k*b, (k+1)*b)\<close> of the dataset and is run with the samples of the same window.\<close>

lemma batch_step_fetched:
  assumes shape: "\<forall>t \<in> set (ds_tensors ds). length (t_rows t) = N"
    and names: "length names = length (ds_tensors ds)" "names \<noteq> []"
    and b: "0 < b" and k: "k < length (chunks b [0..<N])"
  shows "\<exists>B. batch_rows B = py_slice (map (ds_named_row ds names) [0..<N]) (k * b) (Suc k * b) \<and>
           batch_step step device ds names samples b (k, chunks b [0..<N] ! k) =
             step B (py_slice samples (k * b) (Suc k * b))"
proof -
  let ?c = "min (Suc k * b) N"
  let ?B = "batch_to_device device
      (map (\<lambda>(name, t). (name, stack (py_slice (t_rows t) (k * b) ?c))) (zip names (ds_tensors ds)))"
  have chunk: "chunks b [0..<N] ! k = [k * b..<?c]"
    using k by (rule chunks_upt_nth)
  from k have "chunks b [0..<N] ! k \<noteq> []"
    using chunks_bounds nth_mem by blast
  with chunk have ac: "k * b < ?c" by (metis upt_eq_Nil_conv not_le)
  have fetch: "fetch_batch ds names [k * b..<?c] =
      Inr (map (\<lambda>(name, t). (name, stack (py_slice (t_rows t) (k * b) ?c))) (zip names (ds_tensors ds)))"
    using fetch_batch_columns [OF shape names(1) ac min.cobounded2] .
  have "batch_rows ?B = py_slice (map (ds_named_row ds names) [0..<N]) (k * b) (Suc k * b)"
    using batch_rows_fetched [OF shape names ac] by (simp add: py_slice_upto)
  moreover have "batch_step step device ds names samples b (k, chunks b [0..<N] ! k) =
      step ?B (py_slice samples (k * b) (Suc k * b))"
    using chunk fetch by (simp add: batch_step_def)
  ultimately show ?thesis by blast
qed

lemma batch_step_rowwise:
  assumes step: "rowwise step g"
    and shape: "\<forall>t \<in> set (ds_tensors ds). length (t_rows t) = length samples"
    and names: "length names = length (ds_tensors ds)" "names \<noteq> []"
    and b: "0 < b" and k: "k < length (chunks b [0..<length samples])"
  shows "batch_step step device ds names samples b (k, chunks b [0..<length samples] ! k) =
           Inr (py_slice (map2 g (map (ds_named_row ds names) [0..<length samples]) samples)
                  (k * b) (Suc k * b))"
proof -
  obtain B where B: "batch_rows B =
        py_slice (map (ds_named_row ds names) [0..<length samples]) (k * b) (Suc k * b)"
    and st: "batch_step step device ds names samples b (k, chunks b [0..<length samples] ! k) =
        step B (py_slice samples (k * b) (Suc k * b))"
    using batch_step_fetched [OF shape names b k] by blast
  have "length (py_slice samples (k * b) (Suc k * b)) = length (batch_rows B)"
    by (simp add: B py_slice_length)
  with step st B show ?thesis
    by (simp add: rowwise_def py_slice_map2)
qed

text \<open>The loop over the loader's batches of \<open>N\<close> rows, when batch \<open>k\<close> predicts
  \<open>F k\<close>, returns their concatenation.\<close>

lemma run_batches_batchwise:
  assumes bs: "0 < inf_batch_size self"
    and ds: "dataset_from_dicts (inf_processor self) dicts = Inr (ds, names)"
    and ss: "dicts_to_samples (inf_processor self) dicts = Inr samples"
    and len: "ds_len ds = Inr N"
    and steps: "\<And>k. k < length (chunks (nat (inf_batch_size self)) [0..<N]) \<Longrightarrow>
        batch_step step (inf_device self) ds names samples (nat (inf_batch_size self))
          (k, chunks (nat (inf_batch_size self)) [0..<N] ! k) = Inr (F k)"
  shows "run_batches self step dicts =
           Inr (concat (map F [0..<length (chunks (nat (inf_batch_size self)) [0..<N])]))"
proof -
  let ?b = "nat (inf_batch_size self)"
  let ?bss = "chunks ?b [0..<N]"
  have dl: "data_loader_batches ds (inf_batch_size self) = Inr ?bss"
    using bs len by (rule data_loader_batches_Inr)
  have "\<forall>x \<in> set (zip [0..<length ?bss] ?bss).
      batch_step step (inf_device self) ds names samples ?b x = Inr (F (fst x))"
    using steps by (auto simp: set_zip)
  then have "smap (batch_step step (inf_device self) ds names samples ?b) (zip [0..<length ?bss] ?bss)
      = Inr (map (\<lambda>x. F (fst x)) (zip [0..<length ?bss] ?bss))"
    by (rule smap_eq_map)
  also have "map (\<lambda>x. F (fst x)) (zip [0..<length ?bss] ?bss) = map F [0..<length ?bss]"
  proof -
    have "map (\<lambda>x. F (fst x)) (zip [0..<length ?bss] ?bss) = map F (map fst (zip [0..<length ?bss] ?bss))"
      by (simp only: map_map comp_def)
    also have "map fst (zip [0..<length ?bss] ?bss) = [0..<length ?bss]"
      by (simp add: map_fst_zip)
    finally show ?thesis .
  qed
  finally have "predict_loop step (inf_device self) ds names samples ?b 0 ?bss [] =
      Inr (concat (map F [0..<length ?bss]))"
    by (simp add: predict_loop_smap)
  with ds ss dl show ?thesis
    by (simp add: run_batches_def)
qed

lemma dataset_shape_len:
  assumes "dataset_from_dicts processor dicts = Inr (ds, names)" and "ds_len ds = Inr N"
  shows "(\<forall>t \<in> set (ds_tensors ds). length (t_rows t) = N) \<and> length names = length (ds_tensors ds)"
proof -
  from assms(1) obtain features where conv: "convert_features_to_dataset features = Inr (ds, names)"
    using dataset_from_dicts_converted by blast
  note sh = convert_features_to_dataset_shape [OF conv]
  with assms(2) show ?thesis
    by (cases "ds_tensors ds") (auto simp: ds_len_def)
qed

lemma run_batches_rowwise:
  assumes step: "rowwise step g"
    and bs: "0 < inf_batch_size self"
    and ds: "dataset_from_dicts (inf_processor self) dicts = Inr (ds, names)" and ne: "names \<noteq> []"
    and ss: "dicts_to_samples (inf_processor self) dicts = Inr samples"
    and len: "ds_len ds = Inr (length samples)"
  shows "run_batches self step dicts =
           Inr (map2 g (map (ds_named_row ds names) [0..<length samples]) samples)"
proof -
  let ?N = "length samples"
  let ?b = "nat (inf_batch_size self)"
  let ?Z = "map2 g (map (ds_named_row ds names) [0..<?N]) samples"
  from bs have b: "0 < ?b" by simp
  note sh = dataset_shape_len [OF ds len]
  have "run_batches self step dicts =
      Inr (concat (map (\<lambda>k. py_slice ?Z (k * ?b) (Suc k * ?b)) [0..<length (chunks ?b [0..<?N])]))"
    using bs ds ss len
    by (rule run_batches_batchwise) (rule batch_step_rowwise [OF step sh[THEN conjunct1] sh[THEN conjunct2] ne b])
  also have "concat (map (\<lambda>k. py_slice ?Z (k * ?b) (Suc k * ?b)) [0..<length (chunks ?b [0..<?N])]) = ?Z"
  proof -
    have "length ?Z \<le> length (chunks ?b [0..<?N]) * ?b"
      using chunks_cover [OF b, of "[0..<?N]"] by simp
    then show ?thesis by (simp only: concat_slices take_all)
  qed
  finally show ?thesis .
qed

lemma predict_loop_first_error:
  assumes "k < length bss"
    and "batch_step step device ds names samples bs (i + k, bss ! k) = Inl e"
    and "\<forall>j < k. \<exists>p. batch_step step device ds names samples bs (i + j, bss ! j) = Inr p"
  shows "predict_loop step device ds names samples bs i bss acc = Inl e"
proof -
  let ?xs = "zip [i..<i + length bss] bss"
  have xs_k: "?xs ! k = (i + k, bss ! k)" using assms(1) by simp
  have split: "?xs = take k ?xs @ ?xs ! k # drop (Suc k) ?xs"
    using assms(1) by (intro id_take_nth_drop) simp
  have "\<forall>z \<in> set (take k ?xs). \<exists>p. batch_step step device ds names samples bs z = Inr p"
    using assms(1,3) by (auto simp: in_set_conv_nth)
  with assms(2) xs_k have "smap (batch_step step device ds names samples bs) ?xs = Inl e"
    by (subst split) (rule smap_Inl, simp_all)
  then show ?thesis by (simp add: predict_loop_smap)
qed

lemma rfind_slash_last:
  "CHR ''/'' \<notin> set n \<Longrightarrow> rfind (d @ CHR ''/'' # n) (CHR ''/'') = int (length d)"
proof -
  assume n: "CHR ''/'' \<notin> set n"
  let ?p = "d @ CHR ''/'' # n"
  have e: "[0..<length ?p] = [0..<length d] @ length d # [Suc (length d)..<length ?p]"
  proof -
    have a: "[0..<length d + Suc (length n)] = [0..<length d] @ [length d..<length d + Suc (length n)]"
      by (rule upt_add_eq_append) simp
    have b: "[length d..<length d + Suc (length n)] =
        length d # [Suc (length d)..<length d + Suc (length n)]"
      by (rule upt_conv_Cons) simp
    have l: "length ?p = length d + Suc (length n)" by simp
    show ?thesis by (simp only: l a b)
  qed
  have none: "filter (\<lambda>i. ?p ! i = CHR ''/'') [Suc (length d)..<length ?p] = []"
  proof (rule filter_False, rule ballI)
    fix x assume "x \<in> set [Suc (length d)..<length ?p]"
    then have x: "Suc (length d) \<le> x" "x < length ?p" by (simp_all del: upt_Suc)
    then have "?p ! x = n ! (x - Suc (length d))"
      by (simp add: nth_append nth_Cons' )
    moreover from x have "x - Suc (length d) < length n" by simp
    ultimately show "\<not> ?p ! x = CHR ''/''" using n by (auto dest: nth_mem)
  qed
  have "filter (\<lambda>i. ?p ! i = CHR ''/'') [0..<length ?p] =
      filter (\<lambda>i. ?p ! i = CHR ''/'') [0..<length d] @ [length d]"
    by (simp only: e filter_append none filter.simps) (simp add: nth_append)
  then show ?thesis
    by (simp add: rfind_def list.case_eq_if del: upt_Suc)
qed
lemma rfind_none: "c \<notin> set p \<Longrightarrow> rfind p c = -1"
  by (auto simp: rfind_def filter_empty_conv in_set_conv_nth split: list.splits)

section \<open>Construction lemmas\<close>

lemma derive_prediction_type_cases:
  "derive_prediction_type model processor =
     (case am_head_types model of
        [] \<Rightarrow> Inr (Some ''embedder'', None)
      | [t] \<Rightarrow> (case p_label_maps processor of
                  [] \<Rightarrow> Inl IndexError
                | lm # _ \<Rightarrow> Inr (Some t, Some lm))
      | _ \<Rightarrow> Inr (None, None))"
  by (auto simp: derive_prediction_type_def py_nth_def split: list.splits)

lemma inferencer_init_cases:
  "inferencer_init w processor model batch_size gpu name =
     (case sbind (derive_prediction_type model processor) (\<lambda>(pt, lm).
              sbind (display_name name pt) (\<lambda>nm.
                Inr \<lparr>inf_processor = processor, inf_model = model\<lparr>am_training := False\<rparr>,
                     inf_batch_size = batch_size, inf_device = fst (initialize_device_settings w gpu),
                     inf_language = am_language model, inf_prediction_type = pt,
                     inf_label_map = lm, inf_name = nm\<rparr>)) of
        Inl e \<Rightarrow> (w, Inl e)
      | Inr self \<Rightarrow> (set_all_seeds 42 (snd (initialize_device_settings w gpu)) w, Inr self))"
proof -
  have "derive_prediction_type (model\<lparr>am_training := False\<rparr>) processor =
        derive_prediction_type model processor"
    by (simp add: derive_prediction_type_def)
  moreover obtain device n_gpu where dn: "initialize_device_settings w gpu = (device, n_gpu)"
    by fastforce
  ultimately show ?thesis
    by (simp add: inferencer_init_def dn split: sum.split)
qed

lemma inferencer_init_Inr:
  assumes "inferencer_init w processor model batch_size gpu name = (w', Inr self)"
  obtains pt lm where "derive_prediction_type model processor = Inr (pt, lm)"
    and "display_name name pt = Inr (inf_name self)"
    and "self = \<lparr>inf_processor = processor, inf_model = model\<lparr>am_training := False\<rparr>,
                inf_batch_size = batch_size, inf_device = fst (initialize_device_settings w gpu),
                inf_language = am_language model, inf_prediction_type = pt,
                inf_label_map = lm, inf_name = inf_name self\<rparr>"
    and "w' = set_all_seeds 42 (snd (initialize_device_settings w gpu)) w"
  using assms
  by (auto simp: inferencer_init_cases sbind_eq_Inr_iff split: sum.splits)

lemma set_all_seeds_initialized:
  "set_all_seeds 42 (snd (initialize_device_settings w gpu)) w =
     w\<lparr>w_seed := Some 42,
       w_cuda_seed := (if gpu \<and> 0 < w_device_count w then Some 42 else w_cuda_seed w)\<rparr>"
  by (simp add: set_all_seeds_def initialize_device_settings_def)

section \<open>Properties of construction\<close>

lemma inferencer_init_attrs:
  assumes "inferencer_init w processor model batch_size gpu name = (w', Inr self)"
  shows "inf_prediction_type self =
           (case am_head_types model of [] \<Rightarrow> Some ''embedder'' | [t] \<Rightarrow> Some t | _ \<Rightarrow> None) \<and>
         inf_label_map self =
           (case am_head_types model of [_] \<Rightarrow> Some (hd (p_label_maps processor)) | _ \<Rightarrow> None) \<and>
         \<not> am_training (inf_model self) \<and> inf_batch_size self = batch_size \<and>
         inf_name self = (case name of Some n \<Rightarrow> n
                          | None \<Rightarrow> ''anonymous-'' @ the (inf_prediction_type self))"
proof -
  obtain pt lm where d: "derive_prediction_type model processor = Inr (pt, lm)"
    and n: "display_name name pt = Inr (inf_name self)"
    and s: "self = \<lparr>inf_processor = processor, inf_model = model\<lparr>am_training := False\<rparr>,
                inf_batch_size = batch_size, inf_device = fst (initialize_device_settings w gpu),
                inf_language = am_language model, inf_prediction_type = pt,
                inf_label_map = lm, inf_name = inf_name self\<rparr>"
    using assms by (rule inferencer_init_Inr)
  have a: "inf_prediction_type self = pt" "inf_label_map self = lm"
    "\<not> am_training (inf_model self)" "inf_batch_size self = batch_size"
    using arg_cong [OF s, of inf_prediction_type] arg_cong [OF s, of inf_label_map]
      arg_cong [OF s, of inf_model] arg_cong [OF s, of inf_batch_size] by simp_all
  from d have "pt = (case am_head_types model of [] \<Rightarrow> Some ''embedder'' | [t] \<Rightarrow> Some t | _ \<Rightarrow> None)"
    "lm = (case am_head_types model of [_] \<Rightarrow> Some (hd (p_label_maps processor)) | _ \<Rightarrow> None)"
    by (auto simp: derive_prediction_type_cases split: list.splits)
  moreover from n a(1) have "inf_name self = (case name of Some n \<Rightarrow> n
      | None \<Rightarrow> ''anonymous-'' @ the (inf_prediction_type self))"
    by (auto simp: display_name_def split: option.splits)
  ultimately show ?thesis
    using a by simp
qed

text \<open>
  C9. A constructed inferencer has prediction type \<open>embedder\<close> for a model without
  prediction heads, the head's model type (and the processor's first label map) for
  one head, and no prediction type for several; the model is switched to evaluation
  mode, and the name is the given one, else \<open>anonymous-<prediction_type>\<close>.
\<close>

theorem inferencer_init_attributes:
  assumes "inferencer_init w processor model batch_size gpu name = (w', Inr self)"
  shows "inf_prediction_type self =
           (case am_head_types model of [] \<Rightarrow> Some ''embedder'' | [t] \<Rightarrow> Some t | _ \<Rightarrow> None) \<and>
         inf_label_map self =
           (case am_head_types model of [_] \<Rightarrow> Some (hd (p_label_maps processor)) | _ \<Rightarrow> None) \<and>
         \<not> am_training (inf_model self) \<and> inf_batch_size self = batch_size \<and>
         inf_name self = (case name of Some n \<Rightarrow> n
                          | None \<Rightarrow> ''anonymous-'' @ the (inf_prediction_type self))"
  using assms by (rule inferencer_init_attrs)

text \<open>
  C10. Construction fails exactly in two cases: one prediction head but no label map
  (IndexError on \<open>label_maps[0]\<close>), or several heads and no name (AttributeError:
  the default name reads the unset \<open>prediction_type\<close>).
\<close>

theorem inferencer_init_Inl_iff:
  "snd (inferencer_init w processor model batch_size gpu name) = Inl e \<longleftrightarrow>
     (length (am_head_types model) = 1 \<and> p_label_maps processor = [] \<and> e = IndexError) \<or>
     (2 \<le> length (am_head_types model) \<and> name = None \<and> e = AttributeError ''prediction_type'')"
  by (auto simp: inferencer_init_cases derive_prediction_type_cases display_name_def
      sbind_eq_Inl_iff split: list.splits sum.splits option.splits)

text \<open>
  C11. Construction touches the process-wide state only on success, and then seeds the
  random generators with 42 (the CUDA generators too when a GPU is requested and
  present); a failed construction leaves the world unchanged.
\<close>

theorem inferencer_init_world:
  assumes "inferencer_init w processor model batch_size gpu name = (w', r)"
  shows "w' = (case r of
                 Inl _ \<Rightarrow> w
               | Inr _ \<Rightarrow> w\<lparr>w_seed := Some 42,
                   w_cuda_seed := (if gpu \<and> 0 < w_device_count w then Some 42 else w_cuda_seed w)\<rparr>)"
  using assms
  by (auto simp: inferencer_init_cases set_all_seeds_initialized split: sum.splits)

text \<open>
  C12. An inferencer built from a model without prediction heads rejects
  \<open>run_inference\<close> with the TypeError that names both remedies, whatever the
  dicts, the processor and the model's forward pass: no batch is built or run.
\<close>

theorem run_inference_embedder:
  assumes "inferencer_init w processor model batch_size gpu name = (w', Inr self)"
    and "am_head_types model = []"
  shows "run_inference self dicts = Inl (TypeError (embedder_error_message (inf_name self)))"
  using inferencer_init_attrs [OF assms(1)] assms(2)
  by (simp add: run_inference_def)

text \<open>
  C13. An inferencer built (with a name, as \<open>load\<close> does) from a model with several
  prediction heads has no prediction type, so \<open>run_inference\<close> raises
  AttributeError before doing anything.
\<close>

theorem run_inference_multi_head:
  assumes "inferencer_init w processor model batch_size gpu name = (w', Inr self)"
    and "2 \<le> length (am_head_types model)"
  shows "run_inference self dicts = Inl (AttributeError ''prediction_type'')"
proof -
  from assms(2) have "(case am_head_types model of [] \<Rightarrow> Some ''embedder'' | [t] \<Rightarrow> Some t
      | _ \<Rightarrow> None) = None"
    by (auto split: list.splits)
  with inferencer_init_attrs [OF assms(1)] show ?thesis
    by (simp add: run_inference_def)
qed

text \<open>
  C19. A non-positive batch size, which \<open>__init__\<close> and \<open>load\<close> accept, surfaces
  only when \<open>run_inference\<close> builds its loader (line 119): the call first converts
  every dict through the Processor and re-derives the samples, raising their
  exception if they fail, and then raises torch's batch-size ValueError; the model
  is never called.
\<close>

theorem run_inference_nonpositive_batch_size:
  assumes "inf_prediction_type self = Some pt" and "pt \<noteq> ''embedder''"
    and "inf_batch_size self \<le> 0"
  shows "run_inference self dicts =
           sbind (dataset_from_dicts (inf_processor self) dicts) (\<lambda>_.
           sbind (dicts_to_samples (inf_processor self) dicts) (\<lambda>_.
             Inl (BatchSizeError (inf_batch_size self))))"
  using assms
  by (simp add: run_inference_def run_batches_def data_loader_batches_def sbind_def
      split: sum.split prod.split)

section \<open>Properties of the batch loop\<close>

text \<open>
  C14. Refinement of downstream inference: for an inferencer with a prediction head,
  a positive batch size, one feature per sample (the dataset has as many rows as
  there are samples) and a model whose forward pass and formatting act row by row with
  \<open>g\<close>, \<open>run_inference\<close> returns \<open>g row_j sample_j\<close> for every row \<open>j\<close>, in
  order: batching and the slicing \<open>samples[i*bs:(i+1)*bs]\<close> pair every row with
  its own sample.
\<close>

theorem run_inference_rowwise:
  assumes "inf_prediction_type self = Some pt" and "pt \<noteq> ''embedder''"
    and "rowwise (inference_step self) g" and "0 < inf_batch_size self"
    and "dataset_from_dicts (inf_processor self) dicts = Inr (ds, names)" and "names \<noteq> []"
    and "dicts_to_samples (inf_processor self) dicts = Inr samples"
    and "ds_len ds = Inr (length samples)"
  shows "run_inference self dicts =
           Inr (map2 g (map (ds_named_row ds names) [0..<length samples]) samples)"
  using assms run_batches_rowwise [OF assms(3-8)] by (simp add: run_inference_def)

text \<open>
  C15. Embedding extraction, whatever the prediction type: under the same conditions
  with a language model that formats row by row, \<open>extract_vectors\<close> returns exactly
  one record per sample, record \<open>j\<close> computed from row \<open>j\<close> and sample \<open>j\<close>.
\<close>

theorem extract_vectors_rowwise:
  assumes "rowwise (extraction_step self extraction_strategy) g" and "0 < inf_batch_size self"
    and "dataset_from_dicts (inf_processor self) dicts = Inr (ds, names)" and "names \<noteq> []"
    and "dicts_to_samples (inf_processor self) dicts = Inr samples"
    and "ds_len ds = Inr (length samples)"
  shows "\<exists>preds. extract_vectors self dicts extraction_strategy = Inr preds \<and>
           length preds = length samples \<and>
           (\<forall>j < length samples. preds ! j = g (ds_named_row ds names j) (samples ! j))"
  using run_batches_rowwise [OF assms] by (simp add: extract_vectors_def)

text \<open>
  C16. No partial results: when the step of batch \<open>k\<close> raises and all earlier batches
  succeeded, the whole loop raises that exception; the predictions of earlier batches
  are discarded and later batches are never run.
\<close>

theorem predict_loop_aborts:
  assumes "k < length bss"
    and "batch_step step device ds names samples bs (k, bss ! k) = Inl e"
    and "\<forall>j < k. \<exists>p. batch_step step device ds names samples bs (j, bss ! j) = Inr p"
  shows "predict_loop step device ds names samples bs 0 bss acc = Inl e"
  using predict_loop_first_error [of k bss step device ds names samples bs 0 e acc] assms
  by simp

section \<open>Properties of load\<close>

text \<open>
  C17. The display name \<open>load\<close> derives is \<open>os.path.basename\<close> of the directory: the
  component after the last slash, the whole path when it has no slash, and the empty
  string when the path ends in a slash.
\<close>

theorem basename_last_component:
  "CHR ''/'' \<notin> set n \<Longrightarrow>
     basename (d @ CHR ''/'' # n) = n \<and> basename n = n \<and> basename (d @ ''/'') = ''''"
proof -
  assume n: "CHR ''/'' \<notin> set n"
  have "nat (int (length d) + 1) - length d = Suc 0" by simp
  then have "basename (d @ CHR ''/'' # n) = n"
    using rfind_slash_last [OF n] by (simp add: basename_def)
  moreover have "basename n = n"
    using rfind_none [OF n] by (simp add: basename_def)
  moreover have "basename (d @ ''/'') = ''''"
    using rfind_slash_last [of "[]" d] by (simp add: basename_def)
  ultimately show ?thesis by simp
qed

text \<open>
  C18. A successful \<open>load\<close> loads the model for the device it resolved, takes the
  InferenceProcessor exactly when \<open>embedder_only\<close> is set (the Processor otherwise),
  and names the inferencer after the directory's base name.
\<close>

theorem inferencer_load_result:
  assumes "inferencer_load w model_load processor_load inference_processor_load load_dir
             batch_size gpu embedder_only = (w', Inr self)"
  shows "inf_name self = basename load_dir \<and>
         (\<exists>model. model_load load_dir (fst (initialize_device_settings w gpu)) = Inr model \<and>
            inf_model self = model\<lparr>am_training := False\<rparr>) \<and>
         (if embedder_only then inference_processor_load load_dir else processor_load load_dir)
            = Inr (inf_processor self)"
proof -
  obtain device n_gpu where dn: "initialize_device_settings w gpu = (device, n_gpu)"
    by fastforce
  from assms dn obtain model processor where
    m: "model_load load_dir device = Inr model" and
    p: "(if embedder_only then inference_processor_load load_dir else processor_load load_dir)
          = Inr processor" and
    i: "inferencer_init w processor model batch_size gpu (Some (basename load_dir)) = (w', Inr self)"
    by (auto simp: inferencer_load_def sbind_eq_Inr_iff split: sum.splits if_splits)
  obtain pt lm where "display_name (Some (basename load_dir)) pt = Inr (inf_name self)"
    and s: "self = \<lparr>inf_processor = processor, inf_model = model\<lparr>am_training := False\<rparr>,
                inf_batch_size = batch_size, inf_device = fst (initialize_device_settings w gpu),
                inf_language = am_language model, inf_prediction_type = pt,
                inf_label_map = lm, inf_name = inf_name self\<rparr>"
    using i by (rule inferencer_init_Inr)
  then have "inf_name self = basename load_dir" by (simp add: display_name_def)
  moreover have "inf_model self = model\<lparr>am_training := False\<rparr>" "inf_processor self = processor"
    using arg_cong [OF s, of inf_model] arg_cong [OF s, of inf_processor] by simp_all
  ultimately show ?thesis
    using m p dn by simp
qed

end
