(* ===== verification/Loop.thy ===== *)
theory Loop
  imports Inferencer
begin

text \<open>
  The batch loop of \<open>run_inference\<close> and \<open>extract_vectors\<close> (\<open>infer.py\<close> lines
  126-141 and 166-179) as a small-step machine, one transition per turn of
  \<open>for i, batch in enumerate(data_loader)\<close>.  The state holds the enumerate counter
  \<open>i\<close>, the batches the loader has still to yield and the accumulator
  \<open>preds_all\<close>; the loop ends by returning \<open>preds_all\<close> when the loader is exhausted
  (StopIteration) or by raising the exception of the batch that failed.  The machine
  is deterministic, always reaches a final configuration, computes what
  \<open>predict_loop\<close> computes, keeps the invariant that \<open>preds_all\<close> holds exactly
  the predictions of the batches already run, and runs the step once per batch.
\<close>

text \<open>The locals the loop reads: the step of one batch (forward pass and formatting,
  or the language model's formatting), the device, the dataset, the tensor names, the
  samples and the batch size (lines 114-124).\<close>

record ('s, 'p) loop_env =
  le_step :: "tensor pydict \<Rightarrow> 's list \<Rightarrow> error + 'p list"
  le_device :: device
  le_dataset :: dataset
  le_names :: "string list"
  le_samples :: "'s list"
  le_bs :: nat

record 'p loop_state =
  ls_i :: nat
  ls_batches :: "nat list list"
  ls_preds :: "'p list"

datatype 'p loop_cfg = Running "'p loop_state" | Returned "'p list" | Raised error

definition loop_init :: "nat list list \<Rightarrow> 'p loop_state" where
  "loop_init bss = \<lparr>ls_i = 0, ls_batches = bss, ls_preds = []\<rparr>"

definition loop_final :: "'p loop_cfg \<Rightarrow> bool" where
  "loop_final c = (case c of Running _ \<Rightarrow> False | _ \<Rightarrow> True)"

definition env_batch :: "('s, 'p) loop_env \<Rightarrow> nat \<times> nat list \<Rightarrow> error + 'p list" where
  "env_batch env =
     batch_step (le_step env) (le_device env) (le_dataset env) (le_names env) (le_samples env)
       (le_bs env)"

text \<open>One turn of the loop: StopIteration returns \<open>preds_all\<close>; otherwise the next
  batch is fetched, moved to the device and run with its samples, and its predictions
  are appended (\<open>preds_all += preds\<close>), or its exception ends the call.\<close>

inductive loop_step :: "('s, 'p) loop_env \<Rightarrow> 'p loop_cfg \<Rightarrow> 'p loop_cfg \<Rightarrow> bool"
  for env where
  exhausted: "ls_batches s = [] \<Longrightarrow> loop_step env (Running s) (Returned (ls_preds s))"
| iteration: "ls_batches s = idxs # rest \<Longrightarrow> env_batch env (ls_i s, idxs) = Inr preds \<Longrightarrow>
     loop_step env (Running s)
       (Running \<lparr>ls_i = Suc (ls_i s), ls_batches = rest, ls_preds = ls_preds s @ preds\<rparr>)"
| raised: "ls_batches s = idxs # rest \<Longrightarrow> env_batch env (ls_i s, idxs) = Inl e \<Longrightarrow>
     loop_step env (Running s) (Raised e)"

text \<open>The configuration a result of the loop ends in.\<close>

definition cfg_of :: "error + 'p list \<Rightarrow> 'p loop_cfg" where
  "cfg_of r = (case r of Inl e \<Rightarrow> Raised e | Inr p \<Rightarrow> Returned p)"

definition loop_result :: "('s, 'p) loop_env \<Rightarrow> 'p loop_state \<Rightarrow> error + 'p list" where
  "loop_result env s =
     predict_loop (le_step env) (le_device env) (le_dataset env) (le_names env) (le_samples env)
       (le_bs env) (ls_i s) (ls_batches s) (ls_preds s)"

text \<open>The loop of one call of \<open>run_inference\<close> or \<open>extract_vectors\<close>.\<close>

definition run_env ::
  "('d, 's, 'tok, 'lg, 'p) inferencer \<Rightarrow> (tensor pydict \<Rightarrow> 's list \<Rightarrow> error + 'p list) \<Rightarrow>
     dataset \<Rightarrow> string list \<Rightarrow> 's list \<Rightarrow> ('s, 'p) loop_env" where
  "run_env self step ds names samples =
     \<lparr>le_step = step, le_device = inf_device self, le_dataset = ds, le_names = names,
      le_samples = samples, le_bs = nat (inf_batch_size self)\<rparr>"

inductive_cases loop_step_RunningE: "loop_step env (Running s) c"
inductive_cases loop_step_ReturnedE: "loop_step env (Returned p) c"
inductive_cases loop_step_RaisedE: "loop_step env (Raised e) c"

section \<open>The step relation\<close>

lemma loop_step_final: "loop_final c \<Longrightarrow> \<not> loop_step env c c'"
  by (cases c) (auto simp: loop_final_def elim: loop_step_ReturnedE loop_step_RaisedE)

lemma loop_step_det: "loop_step env c c1 \<Longrightarrow> loop_step env c c2 \<Longrightarrow> c1 = c2"
  by (induction rule: loop_step.induct) (erule loop_step_RunningE; simp)+

lemma loop_result_Nil: "ls_batches s = [] \<Longrightarrow> loop_result env s = Inr (ls_preds s)"
  by (simp add: loop_result_def)

lemma loop_result_Cons:
  "ls_batches s = idxs # rest \<Longrightarrow>
     loop_result env s = sbind (env_batch env (ls_i s, idxs)) (\<lambda>preds.
       loop_result env \<lparr>ls_i = Suc (ls_i s), ls_batches = rest, ls_preds = ls_preds s @ preds\<rparr>)"
  by (simp add: loop_result_def env_batch_def batch_step_def sbind_def split: sum.split)

text \<open>The loop reaches the configuration of its result, in at most one step per
  batch plus the final one.\<close>

lemma loop_reaches_result:
  "\<exists>n \<le> Suc (length (ls_batches s)). (loop_step env ^^ n) (Running s) (cfg_of (loop_result env s))"
proof (induction "ls_batches s" arbitrary: s)
  case Nil
  then have "loop_step env (Running s) (cfg_of (loop_result env s))"
    by (simp add: loop_result_Nil cfg_of_def exhausted)
  then show ?case by (intro exI [of _ 1]) (simp add: OO_def)
next
  case (Cons idxs rest)
  then have bs: "ls_batches s = idxs # rest" by simp
  show ?case
  proof (cases "env_batch env (ls_i s, idxs)")
    case (Inl e)
    with bs have "loop_step env (Running s) (cfg_of (loop_result env s))"
      by (simp add: loop_result_Cons cfg_of_def raised)
    then show ?thesis by (intro exI [of _ 1]) (simp add: OO_def)
  next
    case (Inr preds)
    let ?s' = "\<lparr>ls_i = Suc (ls_i s), ls_batches = rest, ls_preds = ls_preds s @ preds\<rparr>"
    from Cons.hyps(1) [of ?s'] obtain n where
      n: "n \<le> Suc (length rest)" "(loop_step env ^^ n) (Running ?s') (cfg_of (loop_result env ?s'))"
      by auto
    have "loop_step env (Running s) (Running ?s')"
      using bs Inr by (rule iteration)
    from this n(2) have "(loop_step env ^^ Suc n) (Running s) (cfg_of (loop_result env ?s'))"
      by (rule relpowp_Suc_I2)
    moreover have "loop_result env s = loop_result env ?s'"
      using bs Inr by (simp add: loop_result_Cons)
    ultimately show ?thesis
      using n(1) bs by (intro exI [of _ "Suc n"]) simp
  qed
qed

lemma cfg_of_final: "loop_final (cfg_of r)"
  by (simp add: cfg_of_def loop_final_def split: sum.split)

lemma loop_reaches_result_rtranclp:
  "(loop_step env)\<^sup>*\<^sup>* (Running s) (cfg_of (loop_result env s))"
proof -
  obtain n where "(loop_step env ^^ n) (Running s) (cfg_of (loop_result env s))"
    using loop_reaches_result by blast
  then show ?thesis by (rule relpowp_imp_rtranclp)
qed

lemma loop_run_unique:
  "(loop_step env)\<^sup>*\<^sup>* (Running s) c \<Longrightarrow> loop_final c \<Longrightarrow> c = cfg_of (loop_result env s)"
proof -
  assume run: "(loop_step env)\<^sup>*\<^sup>* (Running s) c" and fin: "loop_final c"
  note reach = loop_reaches_result_rtranclp [of env s]
  have det: "\<And>a b c. loop_step env a b \<Longrightarrow> loop_step env a c \<Longrightarrow> b = c"
    by (rule loop_step_det)
  show ?thesis
    by (rule rtranclp_deterministic_final [OF det run reach loop_step_final [OF fin]
        loop_step_final [OF cfg_of_final]])
qed

text \<open>A run that returns has one iteration per batch: it ends in the state with the
  loader exhausted, the counter advanced by the number of batches and the result in
  \<open>preds_all\<close>.\<close>

lemma loop_iterations:
  "loop_result env s = Inr p \<Longrightarrow>
     (loop_step env ^^ length (ls_batches s)) (Running s)
       (Running \<lparr>ls_i = ls_i s + length (ls_batches s), ls_batches = [], ls_preds = p\<rparr>)"
proof (induction "ls_batches s" arbitrary: s)
  case Nil
  then have "s = \<lparr>ls_i = ls_i s + length (ls_batches s), ls_batches = [], ls_preds = p\<rparr>"
    by (simp add: loop_result_Nil)
  with Nil show ?case by (metis list.size(3) relpowp_0_I)
next
  case (Cons idxs rest)
  then have bs: "ls_batches s = idxs # rest" by simp
  with Cons.prems obtain preds where
    b: "env_batch env (ls_i s, idxs) = Inr preds" and
    r: "loop_result env \<lparr>ls_i = Suc (ls_i s), ls_batches = rest, ls_preds = ls_preds s @ preds\<rparr> = Inr p"
    by (auto simp: loop_result_Cons sbind_eq_Inr_iff)
  let ?s' = "\<lparr>ls_i = Suc (ls_i s), ls_batches = rest, ls_preds = ls_preds s @ preds\<rparr>"
  have "loop_step env (Running s) (Running ?s')"
    using bs b by (rule iteration)
  moreover have "(loop_step env ^^ length rest) (Running ?s')
      (Running \<lparr>ls_i = ls_i s + length (ls_batches s), ls_batches = [], ls_preds = p\<rparr>)"
    using Cons.hyps(1) [of ?s'] r bs by simp
  ultimately have "(loop_step env ^^ Suc (length rest)) (Running s)
      (Running \<lparr>ls_i = ls_i s + length (ls_batches s), ls_batches = [], ls_preds = p\<rparr>)"
    by (rule relpowp_Suc_I2)
  then show ?case by (simp only: bs length_Cons)
qed

section \<open>The loop invariant\<close>

text \<open>After \<open>i\<close> turns, the loader has still to yield the batches from \<open>i\<close> on,
  and \<open>preds_all\<close> is the concatenation of the predictions of batches \<open>0\<close> to
  \<open>i - 1\<close>, each run on its own samples.\<close>

definition loop_inv :: "('s, 'p) loop_env \<Rightarrow> nat list list \<Rightarrow> 'p loop_state \<Rightarrow> bool" where
  "loop_inv env bss s \<longleftrightarrow>
     ls_i s \<le> length bss \<and> ls_batches s = drop (ls_i s) bss \<and>
     sbind (smap (env_batch env) (zip [0..<ls_i s] (take (ls_i s) bss))) (\<lambda>outs. Inr (concat outs))
       = Inr (ls_preds s)"

lemma loop_inv_init: "loop_inv env bss (loop_init bss)"
  by (simp add: loop_inv_def loop_init_def)

lemma zip_upt_take_Suc:
  "i < length xs \<Longrightarrow> zip [0..<Suc i] (take (Suc i) xs) = zip [0..<i] (take i xs) @ [(i, xs ! i)]"
  by (simp add: take_Suc_conv_app_nth)

lemma loop_inv_step:
  assumes inv: "loop_inv env bss s" and st: "loop_step env (Running s) (Running s')"
  shows "loop_inv env bss s'"
proof -
  from st obtain idxs rest preds where
    b: "ls_batches s = idxs # rest" and e: "env_batch env (ls_i s, idxs) = Inr preds"
    and s': "s' = \<lparr>ls_i = Suc (ls_i s), ls_batches = rest, ls_preds = ls_preds s @ preds\<rparr>"
    by (auto elim: loop_step_RunningE)
  let ?i = "ls_i s"
  from inv b have "drop ?i bss = idxs # rest" by (simp add: loop_inv_def)
  then have i: "?i < length bss" and nth: "bss ! ?i = idxs" and rest: "rest = drop (Suc ?i) bss"
    by (simp_all add: drop_eq_Cons)
  from inv obtain outs where
    outs: "smap (env_batch env) (zip [0..<?i] (take ?i bss)) = Inr outs" "ls_preds s = concat outs"
    by (auto simp: loop_inv_def sbind_eq_Inr_iff)
  have "smap (env_batch env) (zip [0..<Suc ?i] (take (Suc ?i) bss)) = Inr (outs @ [preds])"
    using i nth outs(1) e by (simp add: zip_upt_take_Suc smap_append del: upt_Suc)
  then show ?thesis
    using i rest outs(2) s' by (simp add: loop_inv_def)
qed

lemma loop_inv_reachable:
  "(loop_step env)\<^sup>*\<^sup>* (Running (loop_init bss)) c \<Longrightarrow> c = Running s \<Longrightarrow> loop_inv env bss s"
proof (induction arbitrary: s rule: rtranclp_induct)
  case base
  then show ?case using loop_inv_init [of env bss] by simp
next
  case (step y z)
  from step.hyps(2) step.prems obtain s0 where y: "y = Running s0"
    by (cases y) (auto elim: loop_step_ReturnedE loop_step_RaisedE)
  with step.IH have "loop_inv env bss s0" by simp
  with step.hyps(2) step.prems y show ?case
    by (auto intro: loop_inv_step)
qed

lemma run_batches_loop:
  "run_batches self step dicts =
     sbind (dataset_from_dicts (inf_processor self) dicts) (\<lambda>(ds, names).
     sbind (dicts_to_samples (inf_processor self) dicts) (\<lambda>samples.
     sbind (data_loader_batches ds (inf_batch_size self)) (\<lambda>bss.
       loop_result (run_env self step ds names samples) (loop_init bss))))"
  by (simp add: run_batches_def loop_result_def run_env_def loop_init_def)

section \<open>Properties of the loop\<close>




text \<open>
  C25. Loop invariant: in every state reachable from the start, after \<open>i\<close> turns
  the loader has still to yield exactly the batches from \<open>i\<close> on, and
  \<open>preds_all\<close> is the concatenation of the predictions of batches \<open>0\<close> to
  \<open>i - 1\<close>, each batch run with its own batch number.
\<close>

theorem loop_invariant:
  assumes "(loop_step env)\<^sup>*\<^sup>* (Running (loop_init bss)) (Running s)"
  shows "ls_i s \<le> length bss \<and> ls_batches s = drop (ls_i s) bss \<and>
         (\<exists>outs. smap (env_batch env) (zip [0..<ls_i s] (take (ls_i s) bss)) = Inr outs \<and>
            ls_preds s = concat outs)"
proof -
  have "loop_inv env bss s"
    using assms by (rule loop_inv_reachable) (rule refl)
  then show ?thesis
    by (auto simp: loop_inv_def sbind_eq_Inr_iff)
qed

text \<open>
  C26. One model call per batch: a call of \<open>run_inference\<close> or \<open>extract_vectors\<close>
  that returns runs the loop for exactly \<open>ceil(N / batch_size)\<close> turns, each of
  which runs the step (forward pass and formatting) once, and then stops on the
  exhausted loader with the returned predictions.
\<close>

theorem run_loop_turns:
  assumes "dataset_from_dicts (inf_processor self) dicts = Inr (ds, names)"
    and "dicts_to_samples (inf_processor self) dicts = Inr samples"
    and "data_loader_batches ds (inf_batch_size self) = Inr bss" and "ds_len ds = Inr N"
    and "run_batches self step dicts = Inr p"
  shows "(loop_step (run_env self step ds names samples) ^^
            ((N + nat (inf_batch_size self) - 1) div nat (inf_batch_size self)))
           (Running (loop_init bss))
           (Running \<lparr>ls_i = (N + nat (inf_batch_size self) - 1) div nat (inf_batch_size self),
                     ls_batches = [], ls_preds = p\<rparr>) \<and>
         loop_step (run_env self step ds names samples)
           (Running \<lparr>ls_i = (N + nat (inf_batch_size self) - 1) div nat (inf_batch_size self),
                     ls_batches = [], ls_preds = p\<rparr>) (Returned p)"
proof -
  let ?b = "nat (inf_batch_size self)"
  have b: "0 < inf_batch_size self"
    using assms(3) by (simp add: data_loader_batches_def split: if_splits)
  with assms(3,4) have bss: "bss = chunks ?b [0..<N]"
    by (simp add: data_loader_batches_Inr)
  from b have len: "length bss = (N + ?b - 1) div ?b"
    by (simp add: bss length_chunks)
  from assms have r: "loop_result (run_env self step ds names samples) (loop_init bss) = Inr p"
    by (simp add: run_batches_loop)
  let ?s = "\<lparr>ls_i = (N + ?b - 1) div ?b, ls_batches = [], ls_preds = p\<rparr>"
  have "loop_step (run_env self step ds names samples) (Running ?s) (Returned p)"
    using exhausted [of ?s] by simp
  then show ?thesis
    using loop_iterations [OF r] len by (simp add: loop_init_def)
qed

end
