(* ===== verification/Store.thy ===== *)
theory Store
  imports Inferencer
begin

text \<open>
  Python objects are shared by reference: the AdaptiveModel an \<open>Inferencer\<close> keeps is
  the object its caller passed, and \<open>self.model.eval()\<close> (\<open>infer.py\<close> line 60)
  mutates that object, which every other holder of it sees.  This theory models the
  models as a store of objects addressed by references, allocated by
  \<open>AdaptiveModel.load\<close>, and the inferencer as an object that holds a reference to its
  model.  \<open>inferencer_init_heap\<close> and \<open>inferencer_load_heap\<close> are \<open>__init__\<close> and
  \<open>load\<close> over that store; they refine the value-level \<open>inferencer_init\<close> and
  \<open>inferencer_load\<close> of \<open>Inferencer\<close> through \<open>abs_inferencer\<close>, which reads the
  model behind the reference.  The store shows what the value model cannot: the
  switch to evaluation mode happens before the checks that can make \<open>__init__\<close>
  fail, and it reaches every inferencer that shares the model.
\<close>

type_synonym model_ref = nat

text \<open>The objects, and the next free address (allocation never reuses one).\<close>

record ('s, 'tok, 'lg, 'p) model_heap =
  h_store :: "model_ref \<Rightarrow> ('s, 'tok, 'lg, 'p) adaptive_model"
  h_next :: model_ref

text \<open>An \<open>Inferencer\<close> object: the attributes of lines 58-70, the model by reference.\<close>

record ('d, 's, 'tok) inferencer_obj =
  io_processor :: "('d, 's, 'tok) processor"
  io_model :: model_ref
  io_batch_size :: int
  io_device :: device
  io_language :: string
  io_prediction_type :: "string option"
  io_label_map :: "string list option"
  io_name :: string

text \<open>A new object (the model \<open>AdaptiveModel.load\<close> returns).\<close>

definition alloc ::
  "('s, 'tok, 'lg, 'p) model_heap \<Rightarrow> ('s, 'tok, 'lg, 'p) adaptive_model \<Rightarrow>
     model_ref \<times> ('s, 'tok, 'lg, 'p) model_heap" where
  "alloc h m = (h_next h, h\<lparr>h_store := (h_store h)(h_next h := m), h_next := Suc (h_next h)\<rparr>)"

text \<open>\<open>model.eval()\<close> and \<open>model.train()\<close> of \<open>torch.nn.Module\<close>: set the training
  flag of the object in place.\<close>

definition model_eval :: "('s, 'tok, 'lg, 'p) model_heap \<Rightarrow> model_ref \<Rightarrow> ('s, 'tok, 'lg, 'p) model_heap" where
  "model_eval h r = h\<lparr>h_store := (h_store h)(r := (h_store h r)\<lparr>am_training := False\<rparr>)\<rparr>"

definition model_train :: "('s, 'tok, 'lg, 'p) model_heap \<Rightarrow> model_ref \<Rightarrow> ('s, 'tok, 'lg, 'p) model_heap" where
  "model_train h r = h\<lparr>h_store := (h_store h)(r := (h_store h r)\<lparr>am_training := True\<rparr>)\<rparr>"

text \<open>\<open>Inferencer.__init__\<close> (lines 36-71) over the store: the model is switched to
  evaluation mode (line 60) before the prediction type and the name are derived
  (lines 63-70), which can raise; the seeds are set last (line 71).\<close>

definition inferencer_init_heap ::
  "world \<Rightarrow> ('s, 'tok, 'lg, 'p) model_heap \<Rightarrow> ('d, 's, 'tok) processor \<Rightarrow> model_ref \<Rightarrow> int \<Rightarrow>
     bool \<Rightarrow> string option \<Rightarrow>
     (world \<times> ('s, 'tok, 'lg, 'p) model_heap) \<times> (error + ('d, 's, 'tok) inferencer_obj)" where
  "inferencer_init_heap w h processor r batch_size gpu name =
     (let (device, n_gpu) = initialize_device_settings w gpu;
          h1 = model_eval h r;
          model = h_store h1 r
      in case sbind (derive_prediction_type model processor) (\<lambda>(pt, lm).
                sbind (display_name name pt) (\<lambda>nm.
                  Inr \<lparr>io_processor = processor, io_model = r, io_batch_size = batch_size,
                       io_device = device, io_language = am_language model,
                       io_prediction_type = pt, io_label_map = lm, io_name = nm\<rparr>)) of
           Inl e \<Rightarrow> ((w, h1), Inl e)
         | Inr self \<Rightarrow> ((set_all_seeds 42 n_gpu w, h1), Inr self))"

text \<open>\<open>Inferencer.load\<close> (lines 73-97) over the store: the loaded model is a new
  object (line 90), allocated before the processor is loaded (lines 91-94).\<close>

definition inferencer_load_heap ::
  "world \<Rightarrow> ('s, 'tok, 'lg, 'p) model_heap \<Rightarrow>
     (string \<Rightarrow> device \<Rightarrow> error + ('s, 'tok, 'lg, 'p) adaptive_model) \<Rightarrow>
     (string \<Rightarrow> error + ('d, 's, 'tok) processor) \<Rightarrow> (string \<Rightarrow> error + ('d, 's, 'tok) processor) \<Rightarrow>
     string \<Rightarrow> int \<Rightarrow> bool \<Rightarrow> bool \<Rightarrow>
     (world \<times> ('s, 'tok, 'lg, 'p) model_heap) \<times> (error + ('d, 's, 'tok) inferencer_obj)" where
  "inferencer_load_heap w h model_load processor_load inference_processor_load load_dir batch_size
     gpu embedder_only =
     (let (device, n_gpu) = initialize_device_settings w gpu
      in case model_load load_dir device of
           Inl e \<Rightarrow> ((w, h), Inl e)
         | Inr model \<Rightarrow>
             (let (r, h1) = alloc h model
              in case (if embedder_only then inference_processor_load load_dir
                       else processor_load load_dir) of
                   Inl e \<Rightarrow> ((w, h1), Inl e)
                 | Inr processor \<Rightarrow>
                     inferencer_init_heap w h1 processor r batch_size gpu (Some (basename load_dir))))"

text \<open>The inferencer an object stands for in a store: its model read through the
  reference.\<close>

definition abs_inferencer ::
  "('s, 'tok, 'lg, 'p) model_heap \<Rightarrow> ('d, 's, 'tok) inferencer_obj \<Rightarrow> ('d, 's, 'tok, 'lg, 'p) inferencer" where
  "abs_inferencer h obj =
     \<lparr>inf_processor = io_processor obj, inf_model = h_store h (io_model obj),
      inf_batch_size = io_batch_size obj, inf_device = io_device obj,
      inf_language = io_language obj, inf_prediction_type = io_prediction_type obj,
      inf_label_map = io_label_map obj, inf_name = io_name obj\<rparr>"

section \<open>Lemmas\<close>

lemma model_eval_next [simp]: "h_next (model_eval h r) = h_next h"
  by (simp add: model_eval_def)

lemma inferencer_init_Inl_world:
  "snd (inferencer_init w processor model batch_size gpu name) = Inl e \<Longrightarrow>
     fst (inferencer_init w processor model batch_size gpu name) = w"
  by (auto simp: inferencer_init_cases split: sum.splits)

lemma model_eval_store: "h_store (model_eval h r) = (h_store h)(r := (h_store h r)\<lparr>am_training := False\<rparr>)"
  by (simp add: model_eval_def)

lemma model_train_store: "h_store (model_train h r) = (h_store h)(r := (h_store h r)\<lparr>am_training := True\<rparr>)"
  by (simp add: model_train_def)

lemma derive_prediction_type_training:
  "derive_prediction_type (m\<lparr>am_training := b\<rparr>) processor = derive_prediction_type m processor"
  by (simp add: derive_prediction_type_def)

text \<open>The store-level construction, read through \<open>abs_inferencer\<close>, is the value-level
  one on the model behind the reference; the store changes by \<open>model_eval\<close> alone.\<close>

lemma inferencer_init_heap_abs:
  "inferencer_init_heap w h processor r batch_size gpu name =
     ((fst (inferencer_init w processor (h_store h r) batch_size gpu name), model_eval h r),
      map_sum id (\<lambda>self. \<lparr>io_processor = inf_processor self, io_model = r,
                         io_batch_size = inf_batch_size self, io_device = inf_device self,
                         io_language = inf_language self,
                         io_prediction_type = inf_prediction_type self,
                         io_label_map = inf_label_map self, io_name = inf_name self\<rparr>)
        (snd (inferencer_init w processor (h_store h r) batch_size gpu name)))"
proof -
  obtain device n_gpu where dn: "initialize_device_settings w gpu = (device, n_gpu)"
    by fastforce
  note defs = inferencer_init_heap_def inferencer_init_def dn model_eval_store
    derive_prediction_type_training Let_def
  show ?thesis
  proof (cases "derive_prediction_type (h_store h r) processor")
    case (Inl e)
    then show ?thesis by (simp add: defs)
  next
    case (Inr ptlm)
    obtain pt lm where p: "ptlm = (pt, lm)" by fastforce
    show ?thesis
      by (cases "display_name name pt") (simp_all add: defs Inr p)
  qed
qed

lemma abs_inferencer_obj:
  assumes "inferencer_init w processor (h_store h r) batch_size gpu name = (w', Inr self)"
  shows "abs_inferencer (model_eval h r)
           \<lparr>io_processor = inf_processor self, io_model = r, io_batch_size = inf_batch_size self,
            io_device = inf_device self, io_language = inf_language self,
            io_prediction_type = inf_prediction_type self, io_label_map = inf_label_map self,
            io_name = inf_name self\<rparr> = self"
proof -
  obtain pt lm where "derive_prediction_type (h_store h r) processor = Inr (pt, lm)"
    and "display_name name pt = Inr (inf_name self)"
    and s: "self = \<lparr>inf_processor = processor, inf_model = (h_store h r)\<lparr>am_training := False\<rparr>,
                inf_batch_size = batch_size, inf_device = fst (initialize_device_settings w gpu),
                inf_language = am_language (h_store h r), inf_prediction_type = pt,
                inf_label_map = lm, inf_name = inf_name self\<rparr>"
    and "w' = set_all_seeds 42 (snd (initialize_device_settings w gpu)) w"
    using assms by (rule inferencer_init_Inr)
  then have m: "inf_model self = (h_store h r)\<lparr>am_training := False\<rparr>"
    by (metis inferencer.select_convs(2))
  have "abs_inferencer (model_eval h r)
           \<lparr>io_processor = inf_processor self, io_model = r, io_batch_size = inf_batch_size self,
            io_device = inf_device self, io_language = inf_language self,
            io_prediction_type = inf_prediction_type self, io_label_map = inf_label_map self,
            io_name = inf_name self\<rparr> =
        \<lparr>inf_processor = inf_processor self, inf_model = inf_model self,
         inf_batch_size = inf_batch_size self, inf_device = inf_device self,
         inf_language = inf_language self, inf_prediction_type = inf_prediction_type self,
         inf_label_map = inf_label_map self, inf_name = inf_name self\<rparr>"
    by (simp add: abs_inferencer_def model_eval_store m)
  also have "\<dots> = self" by (cases self) simp
  finally show ?thesis .
qed

lemma init_heap_refines:
  "(case inferencer_init_heap w h processor r batch_size gpu name of
      ((w', h'), res) \<Rightarrow> (w', map_sum id (abs_inferencer h') res)) =
   inferencer_init w processor (h_store h r) batch_size gpu name"
proof -
  obtain w1 res where i: "inferencer_init w processor (h_store h r) batch_size gpu name = (w1, res)"
    by fastforce
  show ?thesis
  proof (cases res)
    case (Inl e)
    then show ?thesis using i by (simp add: inferencer_init_heap_abs)
  next
    case (Inr self)
    with i have "inferencer_init w processor (h_store h r) batch_size gpu name = (w1, Inr self)"
      by simp
    then show ?thesis
      using i Inr by (simp add: inferencer_init_heap_abs abs_inferencer_obj)
  qed
qed

lemma load_heap_refines:
  "(case inferencer_load_heap w h model_load processor_load inference_processor_load load_dir
           batch_size gpu embedder_only of
      ((w', h'), res) \<Rightarrow> (w', map_sum id (abs_inferencer h') res)) =
   inferencer_load w model_load processor_load inference_processor_load load_dir batch_size gpu
     embedder_only"
proof -
  obtain device n_gpu where dn: "initialize_device_settings w gpu = (device, n_gpu)"
    by fastforce
  obtain r h1 where a: "alloc h (projr (model_load load_dir device)) = (r, h1)"
    by fastforce
  show ?thesis
  proof (cases "model_load load_dir device")
    case (Inl e)
    then show ?thesis by (simp add: inferencer_load_heap_def inferencer_load_def dn)
  next
    case (Inr model)
    with a have a': "alloc h model = (r, h1)" by simp
    then have m: "h_store h1 r = model" by (auto simp: alloc_def)
    show ?thesis
      using init_heap_refines [of w h1 _ r batch_size gpu "Some (basename load_dir)"]
      by (cases "if embedder_only then inference_processor_load load_dir else processor_load load_dir")
        (simp_all add: inferencer_load_heap_def inferencer_load_def dn Inr a' m)
  qed
qed

section \<open>Properties of the store\<close>



text \<open>
  C27. A failed construction is not free of effects: \<open>__init__\<close> switches the model
  to evaluation mode (line 60) before the lines that raise (the label map at line 67,
  the default name at line 70), so when it raises the world is unchanged but the
  caller's model object has been switched to evaluation mode.
\<close>

theorem inferencer_init_heap_failure_evals:
  assumes "inferencer_init_heap w h processor r batch_size gpu name = ((w', h'), Inl e)"
  shows "w' = w \<and> h' = model_eval h r \<and> \<not> am_training (h_store h' r)"
proof -
  obtain w1 res where i: "inferencer_init w processor (h_store h r) batch_size gpu name = (w1, res)"
    by fastforce
  with assms have h': "h' = model_eval h r" and w1: "w' = w1"
    and "map_sum id (\<lambda>self. \<lparr>io_processor = inf_processor self, io_model = r,
                         io_batch_size = inf_batch_size self, io_device = inf_device self,
                         io_language = inf_language self,
                         io_prediction_type = inf_prediction_type self,
                         io_label_map = inf_label_map self, io_name = inf_name self\<rparr>) res = Inl e"
    by (simp_all add: inferencer_init_heap_abs)
  then have "res = Inl e" by (cases res) auto
  with i have "w1 = w"
    using inferencer_init_Inl_world [of w processor "h_store h r" batch_size gpu name e] by simp
  with h' w1 show ?thesis by (simp add: model_eval_store)
qed

text \<open>
  C28. Aliasing: after \<open>__init__\<close>, every inferencer object that holds the same model
  sees it in evaluation mode, whether or not the construction succeeded; a later
  \<open>model.train()\<close> on the shared object (by a trainer, say) puts all of them back in
  training mode; no other object of the store changes.
\<close>

theorem inferencer_init_heap_aliasing:
  assumes "inferencer_init_heap w h processor r batch_size gpu name = ((w', h'), res)"
    and "io_model other = r"
  shows "\<not> am_training (inf_model (abs_inferencer h' other)) \<and>
         am_training (inf_model (abs_inferencer (model_train h' r) other)) \<and>
         (\<forall>r'. r' \<noteq> r \<longrightarrow> h_store h' r' = h_store h r')"
  using assms
  by (auto simp: inferencer_init_heap_abs abs_inferencer_def model_eval_store model_train_store)



end
