(* ===== verification/Scenarios.thy ===== *)
theory Scenarios
  imports Loop Store
begin

text \<open>
  Concrete collaborators for exercising the inferencer's theorems: a CPU-only world,
  a processor that makes one sample per dict and one feature (\<open>input_ids\<close>) per
  sample, and a model whose forward pass and formatting pair every sample with the
  row it was given, so that a misaligned batch would show in the output, and a
  processor that makes two features per sample (used by the root theory).  The
  witnesses below apply the theorems of \<open>Inferencer\<close> and \<open>Loop\<close> to them; the
  loop witnesses run the spec's scenario of two dicts with batch size 4, which takes
  one batch.
\<close>

type_synonym toy_pred = "nat \<times> (string \<times> int64 list) list"

definition world0 :: world where
  "world0 = \<lparr>w_cuda_available = False, w_device_count = 0, w_seed = None, w_cuda_seed = None\<rparr>"

definition toy_processor :: "(nat, nat, unit) processor" where
  "toy_processor =
     \<lparr>p_dict_to_samples = (\<lambda>d. Inr [d]),
      p_sample_to_features = (\<lambda>s. Inr [[(''input_ids'', [int s, 0])]]),
      p_label_maps = [[''neg'', ''pos'']], p_tokenizer = ()\<rparr>"

definition toy_model :: "string list \<Rightarrow> (nat, unit, nat, toy_pred) adaptive_model" where
  "toy_model heads =
     \<lparr>am_training = True, am_head_types = heads, am_language = ''english'',
      am_forward = (\<lambda>batch. Inr (length batch)),
      am_formatted_preds = (\<lambda>logits label_maps samples tokenizer batch.
         Inr (map2 (\<lambda>row s. (s, row)) (batch_rows batch) samples)),
      lm_formatted_preds = (\<lambda>strategy samples tokenizer batch.
         Inr (map2 (\<lambda>row s. (s, row)) (batch_rows batch) samples))\<rparr>"

definition toy_inferencer ::
  "string list \<Rightarrow> string option \<Rightarrow> string list option \<Rightarrow> string \<Rightarrow>
     (nat, nat, unit, nat, toy_pred) inferencer" where
  "toy_inferencer heads pt lm name =
     \<lparr>inf_processor = toy_processor, inf_model = (toy_model heads)\<lparr>am_training := False\<rparr>,
      inf_batch_size = 4, inf_device = Cpu, inf_language = ''english'',
      inf_prediction_type = pt, inf_label_map = lm, inf_name = name\<rparr>"

definition toy_dataset :: dataset where
  "toy_dataset = \<lparr>ds_tensors = [\<lparr>t_rows = [[5, 0], [7, 0]], t_device = Cpu\<rparr>]\<rparr>"

text \<open>A processor that, like a document-stride tokenisation, makes two features per sample.\<close>

definition stride_processor :: "(nat, nat, unit) processor" where
  "stride_processor =
     \<lparr>p_dict_to_samples = (\<lambda>d. Inr [d]),
      p_sample_to_features = (\<lambda>s. Inr [[(''input_ids'', [int s, 0])], [(''input_ids'', [int s, 1])]]),
      p_label_maps = [[''O'', ''PER'']], p_tokenizer = ()\<rparr>"

lemmas toy_defs = world0_def toy_processor_def toy_model_def toy_inferencer_def

section \<open>Evaluations\<close>

lemma init_toy_classifier:
  "inferencer_init world0 toy_processor (toy_model [''text_classification'']) 4 False None =
     (world0\<lparr>w_seed := Some 42\<rparr>,
      Inr (toy_inferencer [''text_classification''] (Some ''text_classification'')
             (Some [''neg'', ''pos'']) ''anonymous-text_classification''))"
  by (simp add: inferencer_init_def derive_prediction_type_def py_nth_def display_name_def
      initialize_device_settings_def set_all_seeds_def toy_defs)

lemma init_toy_embedder:
  "inferencer_init world0 toy_processor (toy_model []) 4 False None =
     (world0\<lparr>w_seed := Some 42\<rparr>,
      Inr (toy_inferencer [] (Some ''embedder'') None ''anonymous-embedder''))"
  by (simp add: inferencer_init_def derive_prediction_type_def display_name_def
      initialize_device_settings_def set_all_seeds_def toy_defs)

lemma init_toy_two_heads:
  "inferencer_init world0 toy_processor (toy_model [''ner'', ''text_classification'']) 4 False
     (Some ''bert'') =
     (world0\<lparr>w_seed := Some 42\<rparr>,
      Inr (toy_inferencer [''ner'', ''text_classification''] None None ''bert''))"
  by (simp add: inferencer_init_def derive_prediction_type_def display_name_def
      initialize_device_settings_def set_all_seeds_def toy_defs)

lemma toy_dataset_from_dicts:
  "dataset_from_dicts toy_processor [5, 7] = Inr (toy_dataset, [''input_ids''])"
  by (simp add: dataset_from_dicts_def toy_processor_def convert_features_to_dataset_def
      tensor_names_def feature_column_def dict_get_def torch_tensor_long_def store_row_def
      to_long_def in_int64_def tensor_dataset_def toy_dataset_def)

lemma toy_samples: "dicts_to_samples toy_processor [5, 7] = Inr [5, 7]"
  by (simp add: dicts_to_samples_def toy_processor_def)

lemma toy_len: "ds_len toy_dataset = Inr 2"
  by (simp add: ds_len_def toy_dataset_def)

lemma toy_rowwise_inference:
  "rowwise (inference_step (toy_inferencer heads pt lm name)) (\<lambda>row s. (s, row))"
  by (simp add: rowwise_def inference_step_def toy_defs)

lemma toy_rowwise_extraction:
  "rowwise (extraction_step (toy_inferencer heads pt lm name) strategy) (\<lambda>row s. (s, row))"
  by (simp add: rowwise_def extraction_step_def toy_defs)

lemma toy_named_rows:
  "map (ds_named_row toy_dataset [''input_ids'']) [0..<2] =
     [[(''input_ids'', [5, 0])], [(''input_ids'', [7, 0])]]"
  by (simp add: ds_named_row_def toy_dataset_def upt_rec)

section \<open>Witnesses\<close>

theorem inferencer_init_attributes_witness:
  "inferencer_init world0 toy_processor (toy_model [''text_classification'']) 4 False None =
     (world0\<lparr>w_seed := Some 42\<rparr>,
      Inr (toy_inferencer [''text_classification''] (Some ''text_classification'')
             (Some [''neg'', ''pos'']) ''anonymous-text_classification'')) \<and>
   inf_prediction_type (toy_inferencer [''text_classification''] (Some ''text_classification'')
      (Some [''neg'', ''pos'']) ''anonymous-text_classification'') = Some ''text_classification'' \<and>
   inf_name (toy_inferencer [''text_classification''] (Some ''text_classification'')
      (Some [''neg'', ''pos'']) ''anonymous-text_classification'') = ''anonymous-text_classification''"
  using init_toy_classifier inferencer_init_attributes [OF init_toy_classifier]
  by (simp add: toy_defs)

theorem inferencer_init_world_witness:
  "inferencer_init world0 toy_processor (toy_model [''text_classification'']) 4 False None =
     (world0\<lparr>w_seed := Some 42\<rparr>,
      Inr (toy_inferencer [''text_classification''] (Some ''text_classification'')
             (Some [''neg'', ''pos'']) ''anonymous-text_classification'')) \<and>
   w_seed (world0\<lparr>w_seed := Some 42\<rparr>) = Some 42 \<and> w_cuda_seed (world0\<lparr>w_seed := Some 42\<rparr>) = None"
  using init_toy_classifier inferencer_init_world [OF init_toy_classifier]
  by (simp add: toy_defs)

theorem run_inference_embedder_witness:
  "inferencer_init world0 toy_processor (toy_model []) 4 False None =
     (world0\<lparr>w_seed := Some 42\<rparr>,
      Inr (toy_inferencer [] (Some ''embedder'') None ''anonymous-embedder'')) \<and>
   am_head_types (toy_model []) = [] \<and>
   run_inference (toy_inferencer [] (Some ''embedder'') None ''anonymous-embedder'') [5, 7] =
     Inl (TypeError (embedder_error_message ''anonymous-embedder''))"
  using init_toy_embedder run_inference_embedder [OF init_toy_embedder, of "[5, 7]"]
  by (simp add: toy_defs)

theorem run_inference_multi_head_witness:
  "inferencer_init world0 toy_processor (toy_model [''ner'', ''text_classification'']) 4 False
     (Some ''bert'') =
     (world0\<lparr>w_seed := Some 42\<rparr>,
      Inr (toy_inferencer [''ner'', ''text_classification''] None None ''bert'')) \<and>
   2 \<le> length (am_head_types (toy_model [''ner'', ''text_classification''])) \<and>
   run_inference (toy_inferencer [''ner'', ''text_classification''] None None ''bert'') [5, 7] =
     Inl (AttributeError ''prediction_type'')"
  using init_toy_two_heads run_inference_multi_head [OF init_toy_two_heads, of "[5, 7]"]
  by (simp add: toy_defs)

theorem run_inference_nonpositive_batch_size_witness:
  "inf_prediction_type ((toy_inferencer [''ner''] (Some ''ner'') (Some [''O'', ''PER'']) ''ner-model'')
       \<lparr>inf_batch_size := 0\<rparr>) = Some ''ner'' \<and> ''ner'' \<noteq> ''embedder'' \<and>
   inf_batch_size ((toy_inferencer [''ner''] (Some ''ner'') (Some [''O'', ''PER'']) ''ner-model'')
       \<lparr>inf_batch_size := 0\<rparr>) \<le> 0 \<and>
   run_inference ((toy_inferencer [''ner''] (Some ''ner'') (Some [''O'', ''PER'']) ''ner-model'')
       \<lparr>inf_batch_size := 0\<rparr>) [5, 7] = Inl (BatchSizeError 0)"
proof -
  let ?self = "(toy_inferencer [''ner''] (Some ''ner'') (Some [''O'', ''PER'']) ''ner-model'')
       \<lparr>inf_batch_size := 0\<rparr>"
  have pt: "inf_prediction_type ?self = Some ''ner''" and bs: "inf_batch_size ?self \<le> 0"
    and p: "inf_processor ?self = toy_processor"
    by (simp_all add: toy_inferencer_def)
  have ne: "''ner'' \<noteq> ''embedder''" by simp
  show ?thesis
    using pt bs ne run_inference_nonpositive_batch_size [OF pt ne bs, of "[5, 7]"]
    by (simp add: p toy_dataset_from_dicts toy_samples toy_inferencer_def)
qed

theorem run_inference_rowwise_witness:
  "inf_prediction_type (toy_inferencer [''text_classification''] (Some ''text_classification'')
      (Some [''neg'', ''pos'']) ''anonymous-text_classification'') = Some ''text_classification'' \<and>
   ''text_classification'' \<noteq> ''embedder'' \<and>
   rowwise (inference_step (toy_inferencer [''text_classification''] (Some ''text_classification'')
      (Some [''neg'', ''pos'']) ''anonymous-text_classification'')) (\<lambda>row s. (s, row)) \<and>
   0 < inf_batch_size (toy_inferencer [''text_classification''] (Some ''text_classification'')
      (Some [''neg'', ''pos'']) ''anonymous-text_classification'') \<and>
   run_inference (toy_inferencer [''text_classification''] (Some ''text_classification'')
      (Some [''neg'', ''pos'']) ''anonymous-text_classification'') [5, 7] =
     Inr [(5, [(''input_ids'', [5, 0])]), (7, [(''input_ids'', [7, 0])])]"
proof -
  let ?self = "toy_inferencer [''text_classification''] (Some ''text_classification'')
      (Some [''neg'', ''pos'']) ''anonymous-text_classification''"
  have p: "inf_processor ?self = toy_processor" "inf_batch_size ?self = 4"
    "inf_prediction_type ?self = Some ''text_classification''"
    by (simp_all add: toy_inferencer_def)
  have "run_inference ?self [5, 7] =
      Inr (map2 (\<lambda>row s. (s, row)) (map (ds_named_row toy_dataset [''input_ids'']) [0..<length [5::nat, 7]])
        [5, 7])"
    using run_inference_rowwise [OF p(3) _ toy_rowwise_inference, of "[5, 7]" toy_dataset
        "[''input_ids'']" "[5, 7]"] toy_dataset_from_dicts toy_samples toy_len p
    by simp
  then show ?thesis
    using toy_rowwise_inference p by (simp add: ds_named_row_def toy_dataset_def)
qed

theorem extract_vectors_rowwise_witness:
  "rowwise (extraction_step (toy_inferencer [] (Some ''embedder'') None ''anonymous-embedder'')
      ''cls_token'') (\<lambda>row s. (s, row)) \<and>
   0 < inf_batch_size (toy_inferencer [] (Some ''embedder'') None ''anonymous-embedder'') \<and>
   length (chunks (nat (inf_batch_size (toy_inferencer [] (Some ''embedder'') None
      ''anonymous-embedder''))) [0..<2]) = 1 \<and>
   extract_vectors (toy_inferencer [] (Some ''embedder'') None ''anonymous-embedder'') [5, 7]
      ''cls_token'' = Inr [(5, [(''input_ids'', [5, 0])]), (7, [(''input_ids'', [7, 0])])]"
proof -
  let ?self = "toy_inferencer [] (Some ''embedder'') None ''anonymous-embedder''"
  have p: "inf_processor ?self = toy_processor" "inf_batch_size ?self = 4"
    by (simp_all add: toy_inferencer_def)
  obtain preds where e: "extract_vectors ?self [5, 7] ''cls_token'' = Inr preds"
    and l: "length preds = 2"
    and n: "\<forall>j < 2. preds ! j = (\<lambda>row s. (s, row)) (ds_named_row toy_dataset [''input_ids''] j)
                                  ([5, 7] ! j)"
    using extract_vectors_rowwise [OF toy_rowwise_extraction [of "[]" "Some ''embedder''" None
        "''anonymous-embedder''" "''cls_token''"], where dicts = "[5, 7]" and ds = toy_dataset
        and names = "[''input_ids'']" and samples = "[5, 7]"] toy_dataset_from_dicts toy_samples toy_len p
    by auto
  from l obtain a b where ab: "preds = [a, b]"
    by (auto simp: length_Suc_conv numeral_2_eq_2)
  have "a = (5, [(''input_ids'', [5, 0])])" "b = (7, [(''input_ids'', [7, 0])])"
    using n [rule_format, of 0] n [rule_format, of 1] ab
    by (simp_all add: ds_named_row_def toy_dataset_def)
  with ab have "preds = [(5, [(''input_ids'', [5, 0])]), (7, [(''input_ids'', [7, 0])])]"
    by simp
  moreover have "length (chunks 4 [0..<2::nat]) = 1"
    by (simp add: chunks_short)
  ultimately show ?thesis
    using e toy_rowwise_extraction p by simp
qed

theorem predict_loop_aborts_witness:
  "(1::nat) < length [[0, 1], [2]] \<and>
   batch_step (\<lambda>batch ss. if length ss = 1 then Inl (RuntimeError ''CUDA out of memory'') else Inr ss)
      Cpu \<lparr>ds_tensors = [stack [[1], [2], [3]]]\<rparr> [''input_ids''] [10, 11, 12::nat] 2 (1, [[0, 1], [2]] ! 1)
      = Inl (RuntimeError ''CUDA out of memory'') \<and>
   batch_step (\<lambda>batch ss. if length ss = 1 then Inl (RuntimeError ''CUDA out of memory'') else Inr ss)
      Cpu \<lparr>ds_tensors = [stack [[1], [2], [3]]]\<rparr> [''input_ids''] [10, 11, 12::nat] 2 (0, [[0, 1], [2]] ! 0)
      = Inr [10, 11] \<and>
   predict_loop (\<lambda>batch ss. if length ss = 1 then Inl (RuntimeError ''CUDA out of memory'') else Inr ss)
      Cpu \<lparr>ds_tensors = [stack [[1], [2], [3]]]\<rparr> [''input_ids''] [10, 11, 12::nat] 2 0 [[0, 1], [2]] []
      = Inl (RuntimeError ''CUDA out of memory'')"
proof -
  let ?step = "\<lambda>batch (ss :: nat list). if length ss = 1 then Inl (RuntimeError ''CUDA out of memory'') else Inr ss"
  let ?ds = "\<lparr>ds_tensors = [stack [[1], [2], [3]]]\<rparr>"
  have b1: "batch_step ?step Cpu ?ds [''input_ids''] [10, 11, 12] 2 (1, [[0, 1], [2]] ! 1) =
      Inl (RuntimeError ''CUDA out of memory'')"
    by (simp add: batch_step_def fetch_batch_def ds_getitem_def collate_def stack_def py_slice_def)
  have b0: "batch_step ?step Cpu ?ds [''input_ids''] [10, 11, 12] 2 (0, [[0, 1], [2]] ! 0) = Inr [10, 11]"
    by (simp add: batch_step_def fetch_batch_def ds_getitem_def collate_def stack_def py_slice_def)
  have "\<forall>j < 1. \<exists>p. batch_step ?step Cpu ?ds [''input_ids''] [10, 11, 12] 2 (j, [[0, 1], [2]] ! j) = Inr p"
    using b0 by auto
  then show ?thesis
    using b0 b1 predict_loop_aborts [of 1 "[[0, 1], [2]]" ?step Cpu ?ds "[''input_ids'']" "[10, 11, 12]" 2
        "RuntimeError ''CUDA out of memory''" "[]"] by simp
qed

theorem basename_last_component_witness:
  "CHR ''/'' \<notin> set ''bert'' \<and> basename (''saved_models'' @ CHR ''/'' # ''bert'') = ''bert'' \<and>
   basename ''bert'' = ''bert'' \<and> basename (''saved_models'' @ ''/'') = ''''"
  using basename_last_component [of "''bert''" "''saved_models''"] by simp

theorem inferencer_load_result_witness:
  "inferencer_load world0 (\<lambda>dir device. Inr (toy_model [''text_classification'']))
     (\<lambda>dir. Inr toy_processor) (\<lambda>dir. Inl (RuntimeError ''no processor'')) ''saved_models/bert'' 4 False False
   = (world0\<lparr>w_seed := Some 42\<rparr>,
      Inr (toy_inferencer [''text_classification''] (Some ''text_classification'')
             (Some [''neg'', ''pos'']) ''bert'')) \<and>
   inf_name (toy_inferencer [''text_classification''] (Some ''text_classification'')
             (Some [''neg'', ''pos'']) ''bert'') = basename ''saved_models/bert''"
proof -
  have b: "basename ''saved_models/bert'' = ''bert''"
    by (simp add: basename_def rfind_def upt_rec)
  have l: "inferencer_load world0 (\<lambda>dir device. Inr (toy_model [''text_classification'']))
     (\<lambda>dir. Inr toy_processor) (\<lambda>dir. Inl (RuntimeError ''no processor'')) ''saved_models/bert'' 4 False False
   = (world0\<lparr>w_seed := Some 42\<rparr>,
      Inr (toy_inferencer [''text_classification''] (Some ''text_classification'')
             (Some [''neg'', ''pos'']) ''bert''))"
    by (simp add: inferencer_load_def b inferencer_init_def derive_prediction_type_def py_nth_def
        display_name_def initialize_device_settings_def set_all_seeds_def toy_defs)
  show ?thesis
    using l inferencer_load_result [OF l] by simp
qed

section \<open>Witnesses for the loop\<close>

lemma toy_loop_batch:
  "env_batch (run_env (toy_inferencer [] (Some ''embedder'') None ''anonymous-embedder'')
       (extraction_step (toy_inferencer [] (Some ''embedder'') None ''anonymous-embedder'') ''cls_token'')
       toy_dataset [''input_ids''] [5, 7]) (0, [0, 1]) =
     Inr [(5, [(''input_ids'', [5, 0])]), (7, [(''input_ids'', [7, 0])])]"
  by (simp add: env_batch_def run_env_def batch_step_def fetch_batch_def ds_getitem_def collate_def
      stack_def batch_to_device_def py_slice_def extraction_step_def toy_defs toy_dataset_def
      batch_rows_def)

lemma toy_loader: "data_loader_batches toy_dataset 4 = Inr [[0, 1]]"
  by (simp add: data_loader_batches_def toy_len sequential_sampler_def upt_rec)

lemma toy_run_batches:
  "run_batches (toy_inferencer [] (Some ''embedder'') None ''anonymous-embedder'')
     (extraction_step (toy_inferencer [] (Some ''embedder'') None ''anonymous-embedder'') ''cls_token'')
     [5, 7] = Inr [(5, [(''input_ids'', [5, 0])]), (7, [(''input_ids'', [7, 0])])]"
proof -
  have "inf_processor (toy_inferencer [] (Some ''embedder'') None ''anonymous-embedder'') = toy_processor"
    "inf_batch_size (toy_inferencer [] (Some ''embedder'') None ''anonymous-embedder'') = 4"
    by (simp_all add: toy_inferencer_def)
  then show ?thesis
    using toy_loop_batch
    by (simp add: run_batches_loop toy_dataset_from_dicts toy_samples toy_loader loop_result_Cons
        loop_result_Nil loop_init_def)
qed

theorem loop_invariant_witness:
  "ls_i \<lparr>ls_i = 1, ls_batches = [],
          ls_preds = [(5, [(''input_ids'', [5, 0])]), (7, [(''input_ids'', [7, 0])])]\<rparr> = 1 \<and>
   (loop_step (run_env (toy_inferencer [] (Some ''embedder'') None ''anonymous-embedder'')
       (extraction_step (toy_inferencer [] (Some ''embedder'') None ''anonymous-embedder'') ''cls_token'')
       toy_dataset [''input_ids''] [5, 7]))\<^sup>*\<^sup>*
     (Running (loop_init [[0, 1]]))
     (Running \<lparr>ls_i = 1, ls_batches = [],
                ls_preds = [(5, [(''input_ids'', [5, 0])]), (7, [(''input_ids'', [7, 0])])]\<rparr>) \<and>
   1 \<le> length [[0, 1::nat]] \<and> [] = drop 1 [[0, 1::nat]] \<and>
   (\<exists>outs. smap (env_batch (run_env (toy_inferencer [] (Some ''embedder'') None ''anonymous-embedder'')
       (extraction_step (toy_inferencer [] (Some ''embedder'') None ''anonymous-embedder'') ''cls_token'')
       toy_dataset [''input_ids''] [5, 7])) (zip [0..<1] (take 1 [[0, 1]])) = Inr outs \<and>
     [(5, [(''input_ids'', [5, 0])]), (7, [(''input_ids'', [7, 0])])] = concat outs)"
proof -
  let ?env = "run_env (toy_inferencer [] (Some ''embedder'') None ''anonymous-embedder'')
       (extraction_step (toy_inferencer [] (Some ''embedder'') None ''anonymous-embedder'') ''cls_token'')
       toy_dataset [''input_ids''] [5, 7]"
  let ?s = "\<lparr>ls_i = 1, ls_batches = [],
            ls_preds = [(5, [(''input_ids'', [5, 0])]), (7, [(''input_ids'', [7, 0])])]\<rparr>"
  have "loop_step ?env (Running (loop_init [[0, 1]])) (Running ?s)"
    using iteration [of "loop_init [[0, 1]]" "[0, 1]" "[]" ?env] toy_loop_batch
    by (simp add: loop_init_def)
  then have r: "(loop_step ?env)\<^sup>*\<^sup>* (Running (loop_init [[0, 1]])) (Running ?s)"
    by (rule r_into_rtranclp)
  show ?thesis
    using r loop_invariant [OF r] by simp
qed

theorem run_loop_turns_witness:
  "dataset_from_dicts toy_processor [5, 7] = Inr (toy_dataset, [''input_ids'']) \<and>
   dicts_to_samples toy_processor [5, 7] = Inr [5, 7] \<and>
   data_loader_batches toy_dataset 4 = Inr [[0, 1]] \<and> ds_len toy_dataset = Inr 2 \<and>
   run_batches (toy_inferencer [] (Some ''embedder'') None ''anonymous-embedder'')
     (extraction_step (toy_inferencer [] (Some ''embedder'') None ''anonymous-embedder'') ''cls_token'')
     [5, 7] = Inr [(5, [(''input_ids'', [5, 0])]), (7, [(''input_ids'', [7, 0])])] \<and>
   (loop_step (run_env (toy_inferencer [] (Some ''embedder'') None ''anonymous-embedder'')
       (extraction_step (toy_inferencer [] (Some ''embedder'') None ''anonymous-embedder'') ''cls_token'')
       toy_dataset [''input_ids''] [5, 7]) ^^ 1)
     (Running (loop_init [[0, 1]]))
     (Running \<lparr>ls_i = 1, ls_batches = [],
                ls_preds = [(5, [(''input_ids'', [5, 0])]), (7, [(''input_ids'', [7, 0])])]\<rparr>)"
proof -
  let ?self = "toy_inferencer [] (Some ''embedder'') None ''anonymous-embedder''"
  have p: "inf_processor ?self = toy_processor" and b: "inf_batch_size ?self = 4"
    by (simp_all add: toy_inferencer_def)
  show ?thesis
    using run_loop_turns [where self = ?self and dicts = "[5, 7]" and ds = toy_dataset
        and names = "[''input_ids'']" and samples = "[5, 7]" and bss = "[[0, 1]]" and N = 2
        and step = "extraction_step ?self ''cls_token''"
        and p = "[(5, [(''input_ids'', [5, 0])]), (7, [(''input_ids'', [7, 0])])]"]
      toy_dataset_from_dicts toy_samples toy_loader toy_len toy_run_batches p b
    by simp
qed

section \<open>Witnesses for the store\<close>

text \<open>A store whose object 0 is a model with two prediction heads, and an inferencer
  object built on it earlier.\<close>

definition heap0 :: "(nat, unit, nat, toy_pred) model_heap" where
  "heap0 = \<lparr>h_store = (\<lambda>_. toy_model [''ner'', ''text_classification'']), h_next = 1\<rparr>"

definition first_obj :: "(nat, nat, unit) inferencer_obj" where
  "first_obj =
     \<lparr>io_processor = toy_processor, io_model = 0, io_batch_size = 4, io_device = Cpu,
      io_language = ''english'', io_prediction_type = None, io_label_map = None,
      io_name = ''first''\<rparr>"

theorem inferencer_init_heap_failure_evals_witness:
  "inferencer_init_heap world0 heap0 toy_processor 0 4 False None =
     ((world0, model_eval heap0 0), Inl (AttributeError ''prediction_type'')) \<and>
   world0 = world0 \<and> model_eval heap0 0 = model_eval heap0 0 \<and>
   \<not> am_training (h_store (model_eval heap0 0) 0)"
proof -
  have i: "inferencer_init_heap world0 heap0 toy_processor 0 4 False None =
     ((world0, model_eval heap0 0), Inl (AttributeError ''prediction_type''))"
    by (simp add: inferencer_init_heap_def derive_prediction_type_def display_name_def
        initialize_device_settings_def model_eval_def heap0_def toy_defs)
  show ?thesis
    using i inferencer_init_heap_failure_evals [OF i] by simp
qed

theorem inferencer_init_heap_aliasing_witness:
  "inferencer_init_heap world0 heap0 toy_processor 0 4 False (Some ''second'') =
     ((world0\<lparr>w_seed := Some 42\<rparr>, model_eval heap0 0),
      Inr (first_obj\<lparr>io_name := ''second''\<rparr>)) \<and>
   io_model first_obj = 0 \<and>
   \<not> am_training (inf_model (abs_inferencer (model_eval heap0 0) first_obj)) \<and>
   am_training (inf_model (abs_inferencer (model_train (model_eval heap0 0) 0) first_obj)) \<and>
   h_store (model_eval heap0 0) 1 = h_store heap0 1"
proof -
  have i: "inferencer_init_heap world0 heap0 toy_processor 0 4 False (Some ''second'') =
     ((world0\<lparr>w_seed := Some 42\<rparr>, model_eval heap0 0),
      Inr (first_obj\<lparr>io_name := ''second''\<rparr>))"
    by (simp add: inferencer_init_heap_def derive_prediction_type_def display_name_def
        initialize_device_settings_def set_all_seeds_def model_eval_def heap0_def first_obj_def
        toy_defs)
  have o: "io_model first_obj = 0" by (simp add: first_obj_def)
  show ?thesis
    using i o inferencer_init_heap_aliasing [OF i o] by simp
qed


end
