(* ===== verification/Alignment.thy ===== *)
theory Alignment
  imports Scenarios
begin

text \<open>
  How \<open>run_inference\<close> pairs the rows of the dataset with the samples when the
  Processor makes any number of features per sample.  The Processor flattens the
  features of all samples into one dataset (\<open>dataset_from_dicts\<close>), while the
  inferencer re-derives the flat list of samples and hands batch \<open>i\<close> the slice
  \<open>samples[i*bs:(i+1)*bs]\<close> (infer.py 126-141).  A prediction head's formatting
  zips the predictions of a batch with the samples it is given, as FARM's heads do
  (\<open>zip(preds, probs, contexts)\<close>): \<open>positional\<close> is that contract, under which
  surplus rows or samples are dropped.  \<open>owners\<close> is the alignment the spec asks
  for (one entry per feature, the sample the feature came from).  The theorems show
  that the inferencer pairs row \<open>j\<close> with sample \<open>j\<close> for every shape of basket,
  and that it meets the owner alignment exactly when every sample has one feature.
\<close>

definition positional ::
  "(tensor pydict \<Rightarrow> 's list \<Rightarrow> error + 'p list) \<Rightarrow>
     ((string \<times> int64 list) list \<Rightarrow> 's \<Rightarrow> 'p) \<Rightarrow> bool" where
  "positional step g \<longleftrightarrow>
     (\<forall>batch batch_samples. step batch batch_samples = Inr (map2 g (batch_rows batch) batch_samples))"

text \<open>The sample each feature of the flattened feature list belongs to.\<close>

fun owners :: "'s list \<Rightarrow> 'f list list \<Rightarrow> 's list" where
  "owners (s # ss) (fs # fss) = replicate (length fs) s @ owners ss fss"
| "owners _ _ = []"

text \<open>A scenario: an inferencer with a NER head, batch size 1 and the
  two-features-per-sample processor, and the dataset it builds from the dicts 5 and 7.\<close>

definition stride_inferencer :: "(nat, nat, unit, nat, toy_pred) inferencer" where
  "stride_inferencer =
     (toy_inferencer [''ner''] (Some ''ner'') (Some [''O'', ''PER'']) ''ner-model'')
       \<lparr>inf_processor := stride_processor, inf_batch_size := 1\<rparr>"

definition stride_dataset :: dataset where
  "stride_dataset = \<lparr>ds_tensors = [\<lparr>t_rows = [[5, 0], [5, 1], [7, 0], [7, 1]], t_device = Cpu\<rparr>]\<rparr>"

section \<open>Lemmas\<close>

lemma length_owners:
  "length fss = length ss \<Longrightarrow> length (owners ss fss) = length (concat fss)"
  by (induction ss fss rule: list_induct2') auto

lemma map2_inj_eq:
  assumes "length rs = length os" and "\<forall>r s s'. g r s = g r s' \<longrightarrow> s = s'"
  shows "map2 g rs ss = map2 g rs os \<longleftrightarrow> take (length os) ss = os"
  using assms(1)
proof (induction rs arbitrary: ss os)
  case Nil
  then show ?case by simp
next
  case (Cons r rs)
  then obtain x os' where os: "os = x # os'" by (cases os) auto
  with Cons show ?case using assms(2) by (cases ss) auto
qed

lemma owners_prefix_iff:
  assumes "length fss = length ss" and "distinct ss" and "list_all (\<lambda>fs. fs \<noteq> []) fss"
  shows "take (length (owners ss fss)) ss = owners ss fss \<longleftrightarrow> list_all (\<lambda>fs. length fs = 1) fss"
  using assms
proof (induction ss fss rule: list_induct2')
  case (4 s ss fs fss)
  then obtain n where n: "length fs = Suc n" by (cases fs) auto
  show ?case
  proof (cases n)
    case 0
    with n 4 show ?thesis by simp
  next
    case (Suc m)
    have "take (length (owners (s # ss) (fs # fss))) (s # ss) \<noteq> owners (s # ss) (fs # fss)"
    proof (cases ss)
      case Nil
      with n Suc show ?thesis by simp
    next
      case (Cons s' ss')
      with 4(3) have "s' \<noteq> s" by auto
      with Cons n Suc show ?thesis by simp
    qed
    with n Suc show ?thesis by simp
  qed
qed auto

lemma dataset_from_dicts_features:
  assumes "dataset_from_dicts proc dicts = Inr r"
    and "dicts_to_samples proc dicts = Inr samples"
    and "smap (p_sample_to_features proc) samples = Inr fss"
  shows "convert_features_to_dataset (concat fss) = Inr r"
  using assms by (auto simp: dataset_from_dicts_def dicts_to_samples_def sbind_eq_Inr_iff)

text \<open>Under the zip contract each batch predicts the pairs of its window of rows and
  its window of samples, and the loop returns the pairs of all rows and samples.\<close>

lemma run_batches_positional:
  assumes step: "positional step g"
    and bs: "0 < inf_batch_size self"
    and ds: "dataset_from_dicts (inf_processor self) dicts = Inr (ds, names)" and ne: "names \<noteq> []"
    and ss: "dicts_to_samples (inf_processor self) dicts = Inr samples"
    and len: "ds_len ds = Inr N"
  shows "run_batches self step dicts = Inr (map2 g (map (ds_named_row ds names) [0..<N]) samples)"
proof -
  let ?b = "nat (inf_batch_size self)"
  let ?Z = "map2 g (map (ds_named_row ds names) [0..<N]) samples"
  from bs have b: "0 < ?b" by simp
  note sh = dataset_shape_len [OF ds len]
  have batch: "batch_step step (inf_device self) ds names samples ?b (k, chunks ?b [0..<N] ! k) =
      Inr (py_slice ?Z (k * ?b) (Suc k * ?b))" if k: "k < length (chunks ?b [0..<N])" for k
  proof -
    obtain B where B: "batch_rows B = py_slice (map (ds_named_row ds names) [0..<N]) (k * ?b) (Suc k * ?b)"
      and st: "batch_step step (inf_device self) ds names samples ?b (k, chunks ?b [0..<N] ! k) =
        step B (py_slice samples (k * ?b) (Suc k * ?b))"
      using batch_step_fetched [OF sh[THEN conjunct1] sh[THEN conjunct2] ne b k] by blast
    from step st B show ?thesis
      by (simp add: positional_def py_slice_map2)
  qed
  have "run_batches self step dicts =
      Inr (concat (map (\<lambda>k. py_slice ?Z (k * ?b) (Suc k * ?b)) [0..<length (chunks ?b [0..<N])]))"
    using bs ds ss len by (rule run_batches_batchwise) (rule batch)
  also have "concat (map (\<lambda>k. py_slice ?Z (k * ?b) (Suc k * ?b)) [0..<length (chunks ?b [0..<N])]) = ?Z"
  proof -
    have "length ?Z \<le> length (chunks ?b [0..<N]) * ?b"
      using chunks_cover [OF b, of "[0..<N]"] by simp
    then show ?thesis by (simp only: concat_slices take_all)
  qed
  finally show ?thesis .
qed

lemma run_inference_positional_pairs:
  assumes "inf_prediction_type self = Some pt" and "pt \<noteq> ''embedder''"
    and "positional (inference_step self) g" and "0 < inf_batch_size self"
    and "dataset_from_dicts (inf_processor self) dicts = Inr (ds, names)" and "names \<noteq> []"
    and "dicts_to_samples (inf_processor self) dicts = Inr samples"
    and "ds_len ds = Inr N"
  shows "run_inference self dicts = Inr (map2 g (map (ds_named_row ds names) [0..<N]) samples)"
  using assms run_batches_positional [OF assms(3-8)] by (simp add: run_inference_def)

lemma stride_dataset_from_dicts:
  "dataset_from_dicts stride_processor [5, 7] = Inr (stride_dataset, [''input_ids''])"
  by (simp add: dataset_from_dicts_def stride_processor_def convert_features_to_dataset_def
      tensor_names_def feature_column_def dict_get_def torch_tensor_long_def store_row_def
      to_long_def in_int64_def tensor_dataset_def stride_dataset_def)

lemma stride_features:
  "smap (p_sample_to_features stride_processor) [5, 7] =
     Inr [[[(''input_ids'', [5, 0])], [(''input_ids'', [5, 1])]],
          [[(''input_ids'', [7, 0])], [(''input_ids'', [7, 1])]]]"
  by (simp add: stride_processor_def)

lemma stride_positional:
  "positional (inference_step stride_inferencer) (\<lambda>row s. (s, row))"
  by (simp add: positional_def inference_step_def stride_inferencer_def toy_defs)

lemma stride_inferencer_fields:
  "inf_prediction_type stride_inferencer = Some ''ner''" "inf_batch_size stride_inferencer = 1"
  "inf_processor stride_inferencer = stride_processor"
  by (simp_all add: stride_inferencer_def toy_defs)

lemma stride_samples: "dicts_to_samples stride_processor [5, 7] = Inr [5, 7]"
  by (simp add: dicts_to_samples_def stride_processor_def)

lemmas stride_facts = stride_inferencer_fields stride_dataset_from_dicts stride_features
  stride_positional stride_samples

section \<open>Theorems\<close>

text \<open>
  C31. Positional pairing, whatever the baskets: for an inferencer with a prediction
  head, a positive batch size and a model whose formatting zips predictions with the
  samples it is given, \<open>run_inference\<close> on a dataset of \<open>N\<close> feature rows returns
  \<open>g row_j sample_j\<close> for \<open>j < min N (number of samples)\<close>: row \<open>j\<close> is always
  paired with the \<open>j\<close>-th sample, not with the sample it was made from, and the rows
  or samples beyond the shorter list are dropped.
\<close>

theorem run_inference_pairs_by_position:
  assumes "inf_prediction_type self = Some pt" and "pt \<noteq> ''embedder''"
    and "positional (inference_step self) g" and "0 < inf_batch_size self"
    and "dataset_from_dicts (inf_processor self) dicts = Inr (ds, names)" and "names \<noteq> []"
    and "dicts_to_samples (inf_processor self) dicts = Inr samples"
    and "ds_len ds = Inr N"
  shows "run_inference self dicts =
           Inr (map (\<lambda>j. g (ds_named_row ds names j) (samples ! j)) [0..<min N (length samples)])"
proof -
  have "map2 g (map (ds_named_row ds names) [0..<N]) samples =
      map (\<lambda>j. g (ds_named_row ds names j) (samples ! j)) [0..<min N (length samples)]"
    by (rule nth_equalityI) auto
  with run_inference_positional_pairs [OF assms] show ?thesis by simp
qed

text \<open>
  C32. Refinement of the owner alignment: when every sample has at least one feature,
  the samples are distinct and the formatting tells samples apart, \<open>run_inference\<close>
  pairs every feature row with the sample it was made from (the alignment
  \<open>owners\<close> the spec asks for) if and only if every sample has exactly one feature.
\<close>

theorem run_inference_owner_aligned_iff:
  assumes "inf_prediction_type self = Some pt" and "pt \<noteq> ''embedder''"
    and "positional (inference_step self) g" and "0 < inf_batch_size self"
    and "dataset_from_dicts (inf_processor self) dicts = Inr (ds, names)" and "names \<noteq> []"
    and "dicts_to_samples (inf_processor self) dicts = Inr samples"
    and fss: "smap (p_sample_to_features (inf_processor self)) samples = Inr fss"
    and "list_all (\<lambda>fs. fs \<noteq> []) fss" and "distinct samples"
    and "\<forall>r s s'. g r s = g r s' \<longrightarrow> s = s'"
  shows "run_inference self dicts =
           Inr (map2 g (map (ds_named_row ds names) [0..<length (concat fss)]) (owners samples fss))
         \<longleftrightarrow> list_all (\<lambda>fs. length fs = 1) fss"
proof -
  let ?R = "map (ds_named_row ds names) [0..<length (concat fss)]"
  have lf: "length fss = length samples"
    using fss by (rule smap_length)
  have "convert_features_to_dataset (concat fss) = Inr (ds, names)"
    using assms(5,7) fss by (rule dataset_from_dicts_features)
  then have "ds_len ds = Inr (length (concat fss))"
    using assms(6) by (simp add: convert_features_to_dataset_len)
  then have run: "run_inference self dicts = Inr (map2 g ?R samples)"
    by (rule run_inference_positional_pairs [OF assms(1-7)])
  have "length ?R = length (owners samples fss)"
    using lf by (simp add: length_owners)
  then have "map2 g ?R samples = map2 g ?R (owners samples fss) \<longleftrightarrow>
      take (length (owners samples fss)) samples = owners samples fss"
    using assms(11) by (rule map2_inj_eq)
  with run owners_prefix_iff [OF lf assms(10,9)] show ?thesis by simp
qed

section \<open>Witnesses\<close>

theorem run_inference_pairs_by_position_witness:
  "inf_prediction_type stride_inferencer = Some ''ner'' \<and> ''ner'' \<noteq> ''embedder'' \<and>
   positional (inference_step stride_inferencer) (\<lambda>row s. (s, row)) \<and>
   0 < inf_batch_size stride_inferencer \<and>
   dataset_from_dicts (inf_processor stride_inferencer) [5, 7] =
     Inr (stride_dataset, [''input_ids'']) \<and>
   dicts_to_samples (inf_processor stride_inferencer) [5, 7] = Inr [5, 7] \<and>
   ds_len stride_dataset = Inr 4 \<and>
   run_inference stride_inferencer [5, 7] =
     Inr [(5, [(''input_ids'', [5, 0])]), (7, [(''input_ids'', [5, 1])])]"
proof -
  have hyps: "inf_prediction_type stride_inferencer = Some ''ner''"
    "positional (inference_step stride_inferencer) (\<lambda>row s. (s, row))"
    "0 < inf_batch_size stride_inferencer"
    "dataset_from_dicts (inf_processor stride_inferencer) [5, 7] = Inr (stride_dataset, [''input_ids''])"
    "dicts_to_samples (inf_processor stride_inferencer) [5, 7] = Inr [5, 7]"
    "ds_len stride_dataset = Inr 4"
    by (simp_all add: stride_facts ds_len_def stride_dataset_def)
  note inst = run_inference_pairs_by_position [OF hyps(1) _ hyps(2,3,4) _ hyps(5,6)]
  have "run_inference stride_inferencer [5, 7] =
      Inr [(5, [(''input_ids'', [5, 0])]), (7, [(''input_ids'', [5, 1])])]"
    using inst by (simp add: stride_dataset_def ds_named_row_def upt_rec)
  with hyps show ?thesis by simp
qed

theorem run_inference_owner_aligned_iff_witness:
  "inf_prediction_type stride_inferencer = Some ''ner'' \<and> ''ner'' \<noteq> ''embedder'' \<and>
   positional (inference_step stride_inferencer) (\<lambda>row s. (s, row)) \<and>
   0 < inf_batch_size stride_inferencer \<and>
   dataset_from_dicts (inf_processor stride_inferencer) [5, 7] =
     Inr (stride_dataset, [''input_ids'']) \<and>
   dicts_to_samples (inf_processor stride_inferencer) [5, 7] = Inr [5, 7] \<and>
   smap (p_sample_to_features (inf_processor stride_inferencer)) [5, 7] =
     Inr [[[(''input_ids'', [5, 0])], [(''input_ids'', [5, 1])]],
          [[(''input_ids'', [7, 0])], [(''input_ids'', [7, 1])]]] \<and>
   distinct [5, 7 :: nat] \<and>
   run_inference stride_inferencer [5, 7] \<noteq>
     Inr [(5, [(''input_ids'', [5, 0])]), (5, [(''input_ids'', [5, 1])]),
          (7, [(''input_ids'', [7, 0])]), (7, [(''input_ids'', [7, 1])])]"
proof -
  have hyps: "inf_prediction_type stride_inferencer = Some ''ner''"
    "positional (inference_step stride_inferencer) (\<lambda>row s. (s, row))"
    "0 < inf_batch_size stride_inferencer"
    "dataset_from_dicts (inf_processor stride_inferencer) [5, 7] = Inr (stride_dataset, [''input_ids''])"
    "dicts_to_samples (inf_processor stride_inferencer) [5, 7] = Inr [5, 7]"
    "smap (p_sample_to_features (inf_processor stride_inferencer)) [5, 7] =
       Inr [[[(''input_ids'', [5, 0])], [(''input_ids'', [5, 1])]],
            [[(''input_ids'', [7, 0])], [(''input_ids'', [7, 1])]]]"
    by (simp_all only: stride_facts zero_less_one)
  note inst = run_inference_owner_aligned_iff [OF hyps(1) _ hyps(2,3,4) _ hyps(5,6)]
  have "run_inference stride_inferencer [5, 7] \<noteq>
      Inr [(5, [(''input_ids'', [5, 0])]), (5, [(''input_ids'', [5, 1])]),
           (7, [(''input_ids'', [7, 0])]), (7, [(''input_ids'', [7, 1])])]"
    using inst by (simp add: stride_dataset_def ds_named_row_def upt_rec)
  with hyps show ?thesis by simp
qed

end
