(* ===== verification/Fasttext.thy ===== *)
theory Fasttext
  imports Prelude
begin

text \<open>
  The \<open>FasttextInferencer\<close> of \<open>src/farm/infer.py\<close> (lines 182-212): a tensor-free
  embedding backend over a fastText model.  The model is a record of its embedding
  dimension and the native sentence-vector computation; \<open>get_sentence_vector\<close> is
  the method of fastText's Python wrapper the code calls, which raises ValueError for
  a text containing a newline before computing anything.  \<open>load\<close> takes the library's
  loader as a parameter.  \<open>extract_vectors\<close> is the per-dict loop as the code writes
  it: read \<open>d["text"]\<close> (KeyError), then test the strategy (NotImplementedError), then
  compute the vector (ValueError) and append \<open>{"context": text, "vec": vector}\<close>; an
  exception discards the predictions made so far.  The results: the \<open>reduce_mean\<close>
  output, its vector dimension, and exactly when and with which exception the loop
  fails (an empty input never fails, whatever the strategy).
\<close>

record 'a ft_model =
  ft_dim :: nat
  ft_sentence_vector :: "string \<Rightarrow> 'a list"

text \<open>\<open>FastText.get_sentence_vector\<close> of the \<open>fasttext\<close> package:
  \<open>if text.find('\n') != -1: raise ValueError("predict processes one line at a time
  (remove '\n')")\<close>, then the native computation on the text.\<close>

definition newline_error :: error where
  "newline_error =
     ValueErrorMsg (''predict processes one line at a time (remove '' @
                    [CHR 0x27, CHR 0x5C, CHR ''n'', CHR 0x27] @ '')'')"

definition get_sentence_vector :: "'a ft_model \<Rightarrow> string \<Rightarrow> error + 'a list" where
  "get_sentence_vector m text =
     (if CHR 0x0A \<in> set text then Inl newline_error else Inr (ft_sentence_vector m text))"

record 'a fasttext_inferencer =
  fti_model :: "'a ft_model"
  fti_name :: string
  fti_prediction_type :: string

text \<open>The prediction dict \<open>{"context": ..., "vec": ...}\<close>.\<close>

record 'a ft_pred =
  pred_context :: string
  pred_vec :: "'a list"

definition fasttext_init :: "'a ft_model \<Rightarrow> string option \<Rightarrow> 'a fasttext_inferencer" where
  "fasttext_init model name =
     \<lparr>fti_model = model,
      fti_name = (case name of Some n \<Rightarrow> n | None \<Rightarrow> ''anonymous-fasttext''),
      fti_prediction_type = ''embedder''\<rparr>"

text \<open>\<open>load\<close> ignores \<open>batch_size\<close>, \<open>gpu\<close> and \<open>embedder_only\<close>, and passes no name.\<close>

definition fasttext_load ::
  "(string \<Rightarrow> error + 'a ft_model) \<Rightarrow> string \<Rightarrow> int \<Rightarrow> bool \<Rightarrow> bool \<Rightarrow>
     error + 'a fasttext_inferencer" where
  "fasttext_load load_model load_dir batch_size gpu embedder_only =
     sbind (load_model load_dir) (\<lambda>model. Inr (fasttext_init model None))"

fun ft_extract_loop ::
  "'a fasttext_inferencer \<Rightarrow> string \<Rightarrow> string pydict list \<Rightarrow> 'a ft_pred list \<Rightarrow>
     error + 'a ft_pred list" where
  "ft_extract_loop self extraction_strategy [] preds_all = Inr preds_all"
| "ft_extract_loop self extraction_strategy (d # dicts) preds_all =
     sbind (dict_get d ''text'') (\<lambda>text.
       if extraction_strategy = ''reduce_mean''
       then sbind (get_sentence_vector (fti_model self) text) (\<lambda>vec.
              ft_extract_loop self extraction_strategy dicts
                (preds_all @ [\<lparr>pred_context = text, pred_vec = vec\<rparr>]))
       else Inl NotImplementedError)"

definition fasttext_extract_vectors ::
  "'a fasttext_inferencer \<Rightarrow> string pydict list \<Rightarrow> string \<Rightarrow> error + 'a ft_pred list" where
  "fasttext_extract_vectors self dicts extraction_strategy =
     ft_extract_loop self extraction_strategy dicts []"

text \<open>The contract of a loaded fastText model: every sentence vector has its dimension.\<close>

definition ft_model_ok :: "'a ft_model \<Rightarrow> bool" where
  "ft_model_ok m \<longleftrightarrow> (\<forall>s. length (ft_sentence_vector m s) = ft_dim m)"

text \<open>A dict the \<open>reduce_mean\<close> loop accepts: it has a text without a newline; and
  the exception the loop raises at a dict it does not accept.\<close>

definition ft_text_ok :: "string pydict \<Rightarrow> bool" where
  "ft_text_ok d \<longleftrightarrow> (case map_of d ''text'' of None \<Rightarrow> False | Some t \<Rightarrow> CHR 0x0A \<notin> set t)"

definition ft_text_error :: "string pydict \<Rightarrow> error" where
  "ft_text_error d = (case map_of d ''text'' of None \<Rightarrow> KeyError ''text'' | Some _ \<Rightarrow> newline_error)"

section \<open>Lemmas\<close>

definition ft_record :: "'a fasttext_inferencer \<Rightarrow> string pydict \<Rightarrow> 'a ft_pred" where
  "ft_record self d =
     \<lparr>pred_context = the (map_of d ''text''), pred_vec = ft_sentence_vector (fti_model self) (the (map_of d ''text''))\<rparr>"

lemma find_Some_split:
  "find P xs = Some x \<longleftrightarrow> (\<exists>pre post. xs = pre @ x # post \<and> list_all (\<lambda>y. \<not> P y) pre \<and> P x)"
proof (induction xs)
  case Nil
  then show ?case by simp
next
  case (Cons y ys)
  show ?case
  proof (cases "P y")
    case True
    then show ?thesis by (auto simp: Cons_eq_append_conv)
  next
    case False
    with Cons.IH show ?thesis
      by (auto simp: Cons_eq_append_conv) (metis list.pred_inject(2))
  qed
qed

lemma ft_extract_loop_reduce_mean:
  "ft_extract_loop self ''reduce_mean'' dicts acc =
     (case find (\<lambda>d. \<not> ft_text_ok d) dicts of
        None \<Rightarrow> Inr (acc @ map (ft_record self) dicts)
      | Some d \<Rightarrow> Inl (ft_text_error d))"
  by (induction dicts arbitrary: acc)
    (auto simp: dict_get_def get_sentence_vector_def ft_text_ok_def ft_text_error_def ft_record_def
      split: option.splits)

lemma ft_extract_loop_other:
  "extraction_strategy \<noteq> ''reduce_mean'' \<Longrightarrow>
     ft_extract_loop self extraction_strategy dicts acc =
       (case dicts of
          [] \<Rightarrow> Inr acc
        | d # _ \<Rightarrow> (case map_of d ''text'' of
                     None \<Rightarrow> Inl (KeyError ''text'')
                   | Some _ \<Rightarrow> Inl NotImplementedError))"
  by (cases dicts) (auto simp: dict_get_def split: option.splits)

section \<open>Properties\<close>

text \<open>
  C20. With \<open>reduce_mean\<close> and every dict carrying a \<open>text\<close> without a newline,
  \<open>extract_vectors\<close> returns, for each dict in order, its text under \<open>context\<close> and
  the model's sentence vector of that text under \<open>vec\<close>.
\<close>

theorem fasttext_extract_vectors_reduce_mean:
  assumes "list_all ft_text_ok dicts"
  shows "fasttext_extract_vectors self dicts ''reduce_mean'' =
           Inr (map (\<lambda>d. \<lparr>pred_context = the (map_of d ''text''),
                          pred_vec = ft_sentence_vector (fti_model self) (the (map_of d ''text''))\<rparr>)
                  dicts)"
proof -
  from assms have "find (\<lambda>d. \<not> ft_text_ok d) dicts = None"
    by (simp add: find_None_iff list_all_iff)
  then show ?thesis
    by (simp add: fasttext_extract_vectors_def ft_extract_loop_reduce_mean ft_record_def)
qed

text \<open>
  C21. Every vector \<open>extract_vectors\<close> returns has the loaded model's dimension, and
  there is one record per input dict.
\<close>

theorem fasttext_extract_vectors_dim:
  assumes "ft_model_ok (fti_model self)"
    and "fasttext_extract_vectors self dicts extraction_strategy = Inr preds"
  shows "length preds = length dicts \<and>
         (\<forall>p \<in> set preds. length (pred_vec p) = ft_dim (fti_model self))"
proof (cases "extraction_strategy = ''reduce_mean''")
  case True
  with assms(2) have "preds = map (ft_record self) dicts"
    by (simp add: fasttext_extract_vectors_def ft_extract_loop_reduce_mean split: option.splits)
  with assms(1) show ?thesis
    by (auto simp: ft_record_def ft_model_ok_def)
next
  case False
  with assms(2) have "dicts = [] \<and> preds = []"
    by (auto simp: fasttext_extract_vectors_def ft_extract_loop_other
        split: list.splits option.splits)
  then show ?thesis by simp
qed

text \<open>
  C22. Any strategy other than \<open>reduce_mean\<close> fails with NotImplementedError on the
  first dict, after reading its \<open>text\<close> (so a first dict without one raises KeyError
  instead); on an empty list it returns an empty result and raises nothing.  This
  includes \<open>reduce_max\<close> and \<open>CLS\<close>, which the method's docstring lists as choices.
\<close>

theorem fasttext_extract_vectors_other_strategy:
  assumes "extraction_strategy \<noteq> ''reduce_mean''"
  shows "fasttext_extract_vectors self dicts extraction_strategy =
           (case dicts of
              [] \<Rightarrow> Inr []
            | d # _ \<Rightarrow> (case map_of d ''text'' of
                         None \<Rightarrow> Inl (KeyError ''text'')
                       | Some _ \<Rightarrow> Inl NotImplementedError))"
  using assms by (simp add: fasttext_extract_vectors_def ft_extract_loop_other)

text \<open>
  C23. With \<open>reduce_mean\<close>, the call fails exactly when some dict has no \<open>text\<close> or
  a text containing a newline; the exception is the one of the first such dict
  (KeyError, or fastText's ValueError), and no partial output is returned.
\<close>

theorem fasttext_extract_vectors_Inl_iff:
  "fasttext_extract_vectors self dicts ''reduce_mean'' = Inl e \<longleftrightarrow>
     (\<exists>pre d post. dicts = pre @ d # post \<and> list_all ft_text_ok pre \<and> \<not> ft_text_ok d \<and>
        e = ft_text_error d)"
proof -
  let ?P = "\<lambda>d. \<not> ft_text_ok d"
  have "fasttext_extract_vectors self dicts ''reduce_mean'' = Inl e \<longleftrightarrow>
      (\<exists>d. find ?P dicts = Some d \<and> e = ft_text_error d)"
    by (auto simp: fasttext_extract_vectors_def ft_extract_loop_reduce_mean split: option.splits)
  also have "\<dots> \<longleftrightarrow> (\<exists>pre d post. dicts = pre @ d # post \<and> list_all ft_text_ok pre \<and>
      \<not> ft_text_ok d \<and> e = ft_text_error d)"
  proof
    assume "\<exists>d. find ?P dicts = Some d \<and> e = ft_text_error d"
    then obtain d where f: "find ?P dicts = Some d" and e: "e = ft_text_error d" by blast
    from f obtain pre post where "dicts = pre @ d # post" "list_all ft_text_ok pre" "\<not> ft_text_ok d"
      by (auto simp: find_Some_split)
    with e show "\<exists>pre d post. dicts = pre @ d # post \<and> list_all ft_text_ok pre \<and>
        \<not> ft_text_ok d \<and> e = ft_text_error d" by blast
  next
    assume "\<exists>pre d post. dicts = pre @ d # post \<and> list_all ft_text_ok pre \<and>
        \<not> ft_text_ok d \<and> e = ft_text_error d"
    then obtain pre d post where split: "dicts = pre @ d # post" "list_all ft_text_ok pre"
      "\<not> ft_text_ok d" and e: "e = ft_text_error d" by blast
    then have "find ?P dicts = Some d"
      by (subst find_Some_split) auto
    with e show "\<exists>d. find ?P dicts = Some d \<and> e = ft_text_error d" by blast
  qed
  finally show ?thesis .
qed

section \<open>Witnesses\<close>

theorem fasttext_extract_vectors_reduce_mean_witness:
  "list_all ft_text_ok [[(''text'', ''hello world'')]] \<and>
   fasttext_extract_vectors
     (fasttext_init \<lparr>ft_dim = 2, ft_sentence_vector = (\<lambda>s. [int (length s), 1])\<rparr> None)
     [[(''text'', ''hello world'')]] ''reduce_mean'' =
     Inr [\<lparr>pred_context = ''hello world'', pred_vec = [11, 1]\<rparr>]"
proof -
  have ok: "list_all ft_text_ok [[(''text'', ''hello world'')]]"
    by (simp add: ft_text_ok_def)
  show ?thesis
    using ok fasttext_extract_vectors_reduce_mean [OF ok,
        of "fasttext_init \<lparr>ft_dim = 2, ft_sentence_vector = (\<lambda>s. [int (length s), 1])\<rparr> None"]
    by (simp add: fasttext_init_def get_sentence_vector_def)
qed

theorem fasttext_extract_vectors_dim_witness:
  "ft_model_ok (fti_model (fasttext_init \<lparr>ft_dim = 2, ft_sentence_vector = (\<lambda>s. [int (length s), 1])\<rparr> None)) \<and>
   fasttext_extract_vectors
     (fasttext_init \<lparr>ft_dim = 2, ft_sentence_vector = (\<lambda>s. [int (length s), 1])\<rparr> None)
     [[(''text'', ''hello world'')]] ''reduce_mean'' =
     Inr [\<lparr>pred_context = ''hello world'', pred_vec = [11, 1]\<rparr>] \<and>
   length (pred_vec \<lparr>pred_context = ''hello world'', pred_vec = [11::int, 1]\<rparr>) = 2"
proof -
  let ?self = "fasttext_init \<lparr>ft_dim = 2, ft_sentence_vector = (\<lambda>s. [int (length s), 1])\<rparr> None"
  have ok: "ft_model_ok (fti_model ?self)"
    by (simp add: ft_model_ok_def fasttext_init_def)
  have e: "fasttext_extract_vectors ?self [[(''text'', ''hello world'')]] ''reduce_mean'' =
      Inr [\<lparr>pred_context = ''hello world'', pred_vec = [11, 1]\<rparr>]"
    by (simp add: fasttext_extract_vectors_def dict_get_def fasttext_init_def get_sentence_vector_def)
  show ?thesis
    using ok e fasttext_extract_vectors_dim [OF ok e] by simp
qed

theorem fasttext_extract_vectors_other_strategy_witness:
  "''max'' \<noteq> ''reduce_mean'' \<and>
   fasttext_extract_vectors
     (fasttext_init \<lparr>ft_dim = 2, ft_sentence_vector = (\<lambda>s. [int (length s), 1])\<rparr> None)
     [[(''text'', ''hello world'')]] ''max'' = Inl NotImplementedError \<and>
   fasttext_extract_vectors
     (fasttext_init \<lparr>ft_dim = 2, ft_sentence_vector = (\<lambda>s. [int (length s), 1])\<rparr> None)
     [] ''max'' = Inr []"
proof -
  let ?self = "fasttext_init \<lparr>ft_dim = 2, ft_sentence_vector = (\<lambda>s. [int (length s), 1])\<rparr> None"
  have "''max'' \<noteq> ''reduce_mean''" by simp
  then show ?thesis
    using fasttext_extract_vectors_other_strategy [of "''max''" ?self "[[(''text'', ''hello world'')]]"]
      fasttext_extract_vectors_other_strategy [of "''max''" ?self "[]"]
    by simp
qed

theorem fasttext_extract_vectors_Inl_iff_witness:
  "fasttext_extract_vectors
     (fasttext_init \<lparr>ft_dim = 2, ft_sentence_vector = (\<lambda>s. [int (length s), 1])\<rparr> None)
     [[(''text'', ''hello'')], [(''text'', ''two'' @ [CHR 0x0A] @ ''lines'')], [(''label'', ''x'')]]
     ''reduce_mean'' = Inl newline_error"
proof -
  let ?self = "fasttext_init \<lparr>ft_dim = 2, ft_sentence_vector = (\<lambda>s. [int (length s), 1])\<rparr> None"
  let ?d1 = "[(''text'', ''hello'')]" and ?d2 = "[(''text'', ''two'' @ [CHR 0x0A] @ ''lines'')]"
    and ?d3 = "[(''label'', ''x'')]"
  have "\<exists>pre d post. [?d1, ?d2, ?d3] = pre @ d # post \<and> list_all ft_text_ok pre \<and>
      \<not> ft_text_ok d \<and> newline_error = ft_text_error d"
    by (rule exI [of _ "[?d1]"], rule exI [of _ ?d2], rule exI [of _ "[?d3]"])
      (simp add: ft_text_ok_def ft_text_error_def)
  then show ?thesis
    using fasttext_extract_vectors_Inl_iff [of ?self "[?d1, ?d2, ?d3]" newline_error] by blast
qed

end
