(* ===== verification/Banners.thy ===== *)
theory Banners
  imports Prelude
begin

text \<open>
  \<open>src/farm/ascii/text.py\<close>: six module-level string constants, ASCII-art banners
  written as triple-quoted (non-raw) string literals.  The value of such a constant is
  what the Python compiler makes of the characters between the quotes: escape
  sequences are decoded, a backslash followed by any other character is kept with
  that character (an invalid escape sequence, reported with a DeprecationWarning since
  Python 3.6 and a SyntaxWarning since Python 3.12), and a malformed
  \<open>\x\<close>, \<open>\u\<close>, \<open>\U\<close> or \<open>\N\<close> escape is a SyntaxError that makes the import fail.
  \<open>py_decode\<close> is that decoding (Python language reference, section 2.4.1), from
  characters to code points, with the invalid sequences it kept as warnings; the
  Unicode character names of \<open>\N{...}\<close> are a parameter.  Each literal is written
  line by line as in the source, \<open>backslash\<close> standing for the backslash character
  and \<open>apostrophe\<close> for a quote that ends a piece.
\<close>

section \<open>String literals\<close>

abbreviation backslash :: string where
  "backslash \<equiv> [CHR 0x5C]"

abbreviation apostrophe :: string where
  "apostrophe \<equiv> [CHR 0x27]"

text \<open>The characters of consecutive source lines.\<close>

fun source_lines :: "string list \<Rightarrow> string" where
  "source_lines [] = []"
| "source_lines [l] = l"
| "source_lines (l # ls) = l @ CHR 0x0A # source_lines ls"

text \<open>The escapes of one character after the backslash: \<open>\\ \' \" \a \b \f \n \r \t \v\<close>.\<close>

definition simple_escape :: "char \<Rightarrow> nat option" where
  "simple_escape d =
     map_of [(CHR 0x5C, 92), (CHR 0x27, 39), (CHR 0x22, 34), (CHR ''a'', 7), (CHR ''b'', 8),
             (CHR ''f'', 12), (CHR ''n'', 10), (CHR ''r'', 13), (CHR ''t'', 9), (CHR ''v'', 11)] d"

definition oct_digit :: "char \<Rightarrow> bool" where
  "oct_digit c \<longleftrightarrow> 48 \<le> (of_char c :: nat) \<and> (of_char c :: nat) \<le> 55"

definition hex_digit_value :: "char \<Rightarrow> nat option" where
  "hex_digit_value c =
     (let n = (of_char c :: nat)
      in if 48 \<le> n \<and> n \<le> 57 then Some (n - 48)
         else if 97 \<le> n \<and> n \<le> 102 then Some (n - 87)
         else if 65 \<le> n \<and> n \<le> 70 then Some (n - 55) else None)"

definition digits_value :: "nat \<Rightarrow> nat list \<Rightarrow> nat" where
  "digits_value base ds = foldl (\<lambda>acc d. acc * base + d) 0 ds"

text \<open>Exactly \<open>n\<close> hex digits, as \<open>\x\<close> (2), \<open>\u\<close> (4) and \<open>\U\<close> (8) require.\<close>

definition hex_escape :: "nat \<Rightarrow> string \<Rightarrow> nat option" where
  "hex_escape n ds =
     (if length ds < n then None
      else map_option (digits_value 16) (those (map hex_digit_value (take n ds))))"

definition add_cp :: "nat \<Rightarrow> error + nat list \<times> string list \<Rightarrow> error + nat list \<times> string list" where
  "add_cp v r = sbind r (\<lambda>(cps, ws). Inr (v # cps, ws))"

definition add_warning :: "string \<Rightarrow> error + nat list \<times> string list \<Rightarrow> error + nat list \<times> string list" where
  "add_warning w r = sbind r (\<lambda>(cps, ws). Inr (cps, w # ws))"

text \<open>
  Decoding the body of a non-raw \<open>str\<close> literal: code points and the warnings
  (invalid escape sequences, octal escapes above \<open>0o377\<close>), or the SyntaxError of
  a malformed escape.  A backslash-newline is a line continuation.
\<close>

function py_decode :: "(string \<Rightarrow> nat option) \<Rightarrow> string \<Rightarrow> error + nat list \<times> string list" where
  "py_decode names s =
     (case s of
        [] \<Rightarrow> Inr ([], [])
      | c # cs \<Rightarrow>
          if c \<noteq> CHR 0x5C then add_cp (of_char c) (py_decode names cs)
          else (case cs of
            [] \<Rightarrow> Inl (SyntaxError ''unterminated string literal'')
          | d # ds \<Rightarrow>
              if d = CHR 0x0A then py_decode names ds
              else (case simple_escape d of
                Some v \<Rightarrow> add_cp v (py_decode names ds)
              | None \<Rightarrow>
                  if oct_digit d then
                    (let k = length (takeWhile oct_digit (take 2 ds));
                         v = digits_value 8 (map (\<lambda>c. of_char c - 48) (d # take k ds));
                         r = add_cp v (py_decode names (drop k ds))
                     in if 255 < v then add_warning (c # d # take k ds) r else r)
                  else if d = CHR ''x'' \<or> d = CHR ''u'' \<or> d = CHR ''U'' then
                    (let n = (if d = CHR ''x'' then 2 else if d = CHR ''u'' then 4 else 8)
                     in case hex_escape n ds of
                          None \<Rightarrow> Inl (SyntaxError (''truncated '' @ backslash @ [d] @ replicate n (CHR ''X'') @ '' escape''))
                        | Some v \<Rightarrow>
                            if 1114111 < v then Inl (SyntaxError ''illegal Unicode character'')
                            else add_cp v (py_decode names (drop n ds)))
                  else if d = CHR ''N'' then
                    (case ds of
                       CHR ''{'' # rest \<Rightarrow>
                         if CHR ''}'' \<notin> set rest
                         then Inl (SyntaxError (''malformed '' @ backslash @ ''N character escape''))
                         else (case names (takeWhile (\<lambda>x. x \<noteq> CHR ''}'') rest) of
                                 None \<Rightarrow> Inl (SyntaxError (''unknown Unicode character name''))
                               | Some v \<Rightarrow> add_cp v (py_decode names
                                   (drop (Suc (length (takeWhile (\<lambda>x. x \<noteq> CHR ''}'') rest))) rest)))
                     | _ \<Rightarrow> Inl (SyntaxError (''malformed '' @ backslash @ ''N character escape'')))
                  else add_warning [c, d] (add_cp 92 (add_cp (of_char d) (py_decode names ds))))))"
  by pat_completeness auto
termination
  by (relation "measure (\<lambda>(names, s). length s)") auto

declare py_decode.simps [simp del]

text \<open>\<open>FARM_BLOCKS\<close> (lines 2-14): the characters between the quotes.\<close>
definition FARM_BLOCKS_literal :: string where
  \<open>FARM_BLOCKS_literal = source_lines
     ['''',
      '' .----------------.  .----------------.  .----------------.  .----------------. '',
      ''| .--------------. || .--------------. || .--------------. || .--------------. |'',
      ''| |  _________   | || |      __      | || |  _______     | || | ____    ____ | |'',
      ''| | |_   ___  |  | || |     /  '' @ backslash @ ''     | || | |_   __ '' @ backslash @ ''    | || ||_   '' @ backslash @ ''  /   _|| |'',
      ''| |   | |_  '' @ backslash @ ''_|  | || |    / /'' @ backslash @ '' '' @ backslash @ ''    | || |   | |__) |   | || |  |   '' @ backslash @ ''/   |  | |'',
      ''| |   |  _|      | || |   / ____ '' @ backslash @ ''   | || |   |  __ /    | || |  | |'' @ backslash @ ''  /| |  | |'',
      ''| |  _| |_       | || | _/ /    '' @ backslash @ '' '' @ backslash @ ''_ | || |  _| |  '' @ backslash @ '' '' @ backslash @ ''_  | || | _| |_'' @ backslash @ ''/_| |_ | |'',
      ''| | |_____|      | || ||____|  |____|| || | |____| |___| | || ||_____||_____|| |'',
      ''| |              | || |              | || |              | || |              | |'',
      ''| \'--------------\' || \'--------------\' || \'--------------\' || \'--------------\' |'',
      '' \'----------------\'  \'----------------\'  \'----------------\'  \'----------------\' '',
      '''']\<close>

text \<open>\<open>FARM_DOOM\<close> (lines 16-23): the characters between the quotes.\<close>
definition FARM_DOOM_literal :: string where
  \<open>FARM_DOOM_literal = source_lines
     ['''',
      ''  __'',
      '' / _|                    '',
      ''| |_ __ _ _ __ _ __ ___  '',
      ''|  _/ _` | \'__| \'_ ` _ '' @ backslash @ '' '',
      ''| || (_| | |  | | | | | |'',
      ''|_| '' @ backslash @ ''__,_|_|  |_| |_| |_|'',
      '''']\<close>

text \<open>\<open>FARM_MODULAR\<close> (lines 25-33): the characters between the quotes.\<close>
definition FARM_MODULAR_literal :: string where
  \<open>FARM_MODULAR_literal = source_lines
     ['''',
      '' _______  _______  ______    __   __ '',
      ''|       ||   _   ||    _ |  |  |_|  |'',
      ''|    ___||  |_|  ||   | ||  |       |'',
      ''|   |___ |       ||   |_||_ |       |'',
      ''|    ___||       ||    __  ||       |'',
      ''|   |    |   _   ||   |  | || ||_|| |'',
      ''|___|    |__| |__||___|  |_||_|   |_|'',
      '''']\<close>

text \<open>\<open>FARM_COLOSSAL\<close> (lines 35-44): the characters between the quotes.\<close>
definition FARM_COLOSSAL_literal :: string where
  \<open>FARM_COLOSSAL_literal = source_lines
     ['''',
      '' .d888                               '',
      ''d88P"                                '',
      ''888                                  '',
      ''888888 8888b.  888d888 88888b.d88b.  '',
      ''888       "88b 888P"   888 "888 "88b '',
      ''888   .d888888 888     888  888  888 '',
      ''888   888  888 888     888  888  888 '',
      ''888   "Y888888 888     888  888  888'',
      '''']\<close>

text \<open>\<open>FARM_DIET_COLA\<close> (lines 46-53): the characters between the quotes.\<close>
definition FARM_DIET_COLA_literal :: string where
  \<open>FARM_DIET_COLA_literal = source_lines
     ['''',
      ''   .-._.---\'                      '',
      ''  (_) /                           '',
      ''     /--..-.    ).--..  .-. .-.   '',
      ''    /   (  |   /      )/   )   )  '',
      '' .-/     `-\'-\'/      \'/   /   (   '',
      ''(_/                            `-'' @ apostrophe,
      ''                               '']\<close>

text \<open>\<open>WELCOME\<close> (lines 55-61): the characters between the quotes.\<close>
definition WELCOME_literal :: string where
  \<open>WELCOME_literal = source_lines
     ['''',
      ''                   .                                        '',
      ''                  /                                /        '',
      '' `)    (   .-.   / .-.  .-._..  .-. .-.   .-.  ---/---.-._. '',
      '' /  .   )./.-\'_ / (    (   )  )/   )   )./.-\'_   /   (   )  '',
      ''(_.\' `-\' (__.\'_/_.-`---\'`-\'  \'/   /   ( (__.\'   /     `-\'   '',
      ''                                       `-\'                  '']\<close>

text \<open>The module: the six assignments in source order.  Every literal is compiled
  before the module runs, so one malformed escape fails the import.\<close>

definition banner_literals :: "(string \<times> string) list" where
  "banner_literals =
     [(''FARM_BLOCKS'', FARM_BLOCKS_literal), (''FARM_DOOM'', FARM_DOOM_literal),
      (''FARM_MODULAR'', FARM_MODULAR_literal), (''FARM_COLOSSAL'', FARM_COLOSSAL_literal),
      (''FARM_DIET_COLA'', FARM_DIET_COLA_literal), (''WELCOME'', WELCOME_literal)]"

definition text_module ::
  "(string \<Rightarrow> nat option) \<Rightarrow> error + (string \<times> nat list) list \<times> string list" where
  "text_module names =
     sbind (smap (\<lambda>(n, lit). sbind (py_decode names lit) (\<lambda>(cps, ws). Inr ((n, cps), ws)))
              banner_literals)
       (\<lambda>rs. Inr (map fst rs, concat (map snd rs)))"

section \<open>Literals without escapes\<close>

text \<open>A character that does not start an escape sequence after a backslash.\<close>

definition invalid_escape_char :: "char \<Rightarrow> bool" where
  "invalid_escape_char d \<longleftrightarrow>
     d \<noteq> CHR 0x0A \<and> simple_escape d = None \<and> \<not> oct_digit d \<and> d \<notin> set ''xuUN''"

text \<open>The invalid escape sequences of a text, in order, when every backslash of it
  starts one (\<open>None\<close> otherwise).\<close>

fun invalid_escapes :: "string \<Rightarrow> string list option" where
  "invalid_escapes [] = Some []"
| "invalid_escapes [c] = (if c = CHR 0x5C then None else Some [])"
| "invalid_escapes (c # d # ds) =
     (if c = CHR 0x5C
      then (if invalid_escape_char d then map_option (Cons [c, d]) (invalid_escapes ds) else None)
      else invalid_escapes (d # ds))"

lemma py_decode_invalid_escapes_Some:
  "invalid_escapes s = Some ws \<Longrightarrow> py_decode names s = Inr (map of_char s, ws)"
proof (induction s arbitrary: ws rule: invalid_escapes.induct)
  case 1
  then show ?case by (simp add: py_decode.simps)
next
  case (2 c)
  then show ?case
    by (subst py_decode.simps) (simp add: py_decode.simps [of names "[]"] add_cp_def split: if_splits)
next
  case (3 c d ds)
  show ?case
  proof (cases "c = CHR 0x5C")
    case True
    with 3(3) obtain ws' where d: "invalid_escape_char d" and ds: "invalid_escapes ds = Some ws'"
      and ws: "ws = [c, d] # ws'"
      by (auto split: if_splits)
    from d have "d \<noteq> CHR 0x0A" "simple_escape d = None" "\<not> oct_digit d"
      "d \<noteq> CHR ''x''" "d \<noteq> CHR ''u''" "d \<noteq> CHR ''U''" "d \<noteq> CHR ''N''"
      by (simp_all add: invalid_escape_char_def)
    with True 3(1) [OF True d ds] ws show ?thesis
      by (subst py_decode.simps) (simp add: add_cp_def add_warning_def)
  next
    case False
    with 3 show ?thesis
      by (subst py_decode.simps) (simp add: add_cp_def)
  qed
qed

lemma py_decode_invalid_escapes:
  "invalid_escapes s \<noteq> None \<Longrightarrow> py_decode names s = Inr (map of_char s, the (invalid_escapes s))"
  using py_decode_invalid_escapes_Some by fastforce

lemma invalid_escapes_Cons_char:
  "c \<noteq> CHR 0x5C \<Longrightarrow> invalid_escapes (c # cs) = invalid_escapes cs"
  by (cases cs) simp_all

lemma py_decode_char:
  "c \<noteq> CHR 0x5C \<Longrightarrow> py_decode names (c # cs) = add_cp (of_char c) (py_decode names cs)"
  by (subst py_decode.simps) simp

lemma py_decode_invalid:
  "invalid_escape_char d \<Longrightarrow>
     py_decode names (CHR 0x5C # d # ds) =
       add_warning [CHR 0x5C, d] (add_cp 92 (add_cp (of_char d) (py_decode names ds)))"
  by (subst py_decode.simps) (simp add: invalid_escape_char_def)

lemma add_cp_Inr: "add_cp v r = Inr (cps, ws) \<longleftrightarrow> (\<exists>cps'. r = Inr (cps', ws) \<and> cps = v # cps')"
  by (cases r) (auto simp: add_cp_def)

lemma add_warning_Inr:
  "add_warning w r = Inr (cps, ws) \<longleftrightarrow> (\<exists>ws'. r = Inr (cps, ws') \<and> ws = w # ws')"
  by (cases r) (auto simp: add_warning_def)

lemma case_brace:
  "(case ds of CHR ''{'' # rest \<Rightarrow> f rest | _ \<Rightarrow> g) =
     (if ds \<noteq> [] \<and> hd ds = CHR ''{'' then f (tl ds) else g)"
  by (cases ds) (auto split: char.split bool.split)

text \<open>A valid escape sequence (a line continuation included) consumes at least two
  characters and yields at most one code point.\<close>

lemma py_decode_valid_escape:
  assumes "\<not> invalid_escape_char d" and "py_decode names (CHR 0x5C # d # ds) = Inr (cps, ws)"
  shows "\<exists>t cps' ws'. length t \<le> length ds \<and> py_decode names t = Inr (cps', ws') \<and>
           length cps \<le> Suc (length cps')"
proof -
  note dec = assms(2) [unfolded py_decode.simps [of names "CHR 0x5C # d # ds"]]
  consider (nl) "d = CHR 0x0A" | (simple) v where "d \<noteq> CHR 0x0A" "simple_escape d = Some v"
    | (oct) "d \<noteq> CHR 0x0A" "simple_escape d = None" "oct_digit d"
    | (hex) "d \<noteq> CHR 0x0A" "simple_escape d = None" "\<not> oct_digit d" "d \<in> set ''xuU''"
    | (named) "d \<noteq> CHR 0x0A" "simple_escape d = None" "\<not> oct_digit d" "d = CHR ''N''"
    using assms(1) by (cases "simple_escape d") (auto simp: invalid_escape_char_def)
  then show ?thesis
  proof cases
    case nl
    with dec show ?thesis by fastforce
  next
    case (simple v)
    with dec show ?thesis by (fastforce simp: add_cp_Inr)
  next
    case oct
    let ?k = "length (takeWhile oct_digit (take 2 ds))"
    from oct dec obtain cps' ws' v where
      "py_decode names (drop ?k ds) = Inr (cps', ws')" "cps = v # cps'"
      by (auto simp: Let_def add_cp_Inr add_warning_Inr split: if_splits)
    then show ?thesis by (intro exI [of _ "drop ?k ds"]) auto
  next
    case hex
    from hex dec obtain n cps' v where
      "py_decode names (drop n ds) = Inr (cps', ws)" "cps = v # cps'"
      by (auto simp: Let_def add_cp_Inr split: option.splits if_splits)
    then show ?thesis by (intro exI [of _ "drop n ds"]) auto
  next
    case named
    let ?t = "drop (Suc (length (takeWhile (\<lambda>x. x \<noteq> CHR ''}'') (tl ds)))) (tl ds)"
    from named dec obtain cps' v where "py_decode names ?t = Inr (cps', ws)" "cps = v # cps'"
      by (auto simp: case_brace add_cp_Inr split: if_splits option.splits)
    then show ?thesis by (intro exI [of _ ?t]) auto
  qed
qed

text \<open>Decoding never lengthens a literal, and keeps its length only when every
  backslash starts an invalid escape sequence, which are then the warnings.\<close>

lemma py_decode_shrinks:
  "py_decode names s = Inr (cps, ws) \<Longrightarrow>
     length cps \<le> length s \<and> (length cps = length s \<longrightarrow> invalid_escapes s = Some ws)"
proof (induction "length s" arbitrary: s cps ws rule: less_induct)
  case less
  show ?case
  proof (cases s)
    case Nil
    with less.prems show ?thesis by (simp add: py_decode.simps)
  next
    case (Cons c cs)
    note s = this
    show ?thesis
    proof (cases "c = CHR 0x5C")
      case False
      with less.prems s obtain cps' where dec: "py_decode names cs = Inr (cps', ws)"
        and cps: "cps = of_char c # cps'"
        by (auto simp: py_decode_char add_cp_Inr)
      from less.hyps [of cs] s dec have "length cps' \<le> length cs \<and>
          (length cps' = length cs \<longrightarrow> invalid_escapes cs = Some ws)" by simp
      with False s cps show ?thesis by (simp add: invalid_escapes_Cons_char)
    next
      case True
      show ?thesis
      proof (cases cs)
        case Nil
        with less.prems s True show ?thesis by (simp add: py_decode.simps)
      next
        case (Cons d ds)
        note cs = this
        show ?thesis
        proof (cases "invalid_escape_char d")
          case inv: True
          with less.prems s cs True obtain cps' ws' where
            dec: "py_decode names ds = Inr (cps', ws')"
            and cps: "cps = 92 # of_char d # cps'" and ws: "ws = [CHR 0x5C, d] # ws'"
            by (auto simp: py_decode_invalid add_cp_Inr add_warning_Inr)
          from less.hyps [of ds] s cs dec have "length cps' \<le> length ds \<and>
              (length cps' = length ds \<longrightarrow> invalid_escapes ds = Some ws')" by simp
          with inv s cs True cps ws show ?thesis by auto
        next
          case valid: False
          with less.prems s cs True obtain t cps' ws' where
            t: "length t \<le> length ds" and dec: "py_decode names t = Inr (cps', ws')"
            and cps: "length cps \<le> Suc (length cps')"
            using py_decode_valid_escape by blast
          from less.hyps [of t] t s cs dec have "length cps' \<le> length t" by simp
          with t cps s cs show ?thesis by simp
        qed
      qed
    qed
  qed
qed

lemma py_decode_verbatim_iff:
  "py_decode names s = Inr (map of_char s, ws) \<longleftrightarrow> invalid_escapes s = Some ws"
proof
  assume "py_decode names s = Inr (map of_char s, ws)"
  from py_decode_shrinks [OF this] show "invalid_escapes s = Some ws" by simp
next
  assume "invalid_escapes s = Some ws"
  then show "py_decode names s = Inr (map of_char s, ws)" by (rule py_decode_invalid_escapes_Some)
qed

text \<open>Scanning the six literals (by evaluation).\<close>

lemma banner_invalid_escapes:
  "invalid_escapes FARM_BLOCKS_literal = Some (map (\<lambda>c. backslash @ [c]) ''   _  /   _ _/'') \<and>
   invalid_escapes FARM_DOOM_literal = Some (map (\<lambda>c. backslash @ [c]) '' _'') \<and>
   invalid_escapes FARM_MODULAR_literal = Some [] \<and>
   invalid_escapes FARM_COLOSSAL_literal = Some [] \<and>
   invalid_escapes FARM_DIET_COLA_literal = Some [] \<and>
   invalid_escapes WELCOME_literal = Some []"
  by code_simp

text \<open>Importing the module binds every banner to exactly its source text, with
  sixteen invalid escape sequences (fourteen in \<open>FARM_BLOCKS\<close>, two in
  \<open>FARM_DOOM\<close>), whatever Unicode name table the interpreter has.\<close>

lemma text_module_result:
  "text_module names =
     Inr (map (\<lambda>(n, lit). (n, map of_char lit)) banner_literals,
          map (\<lambda>c. backslash @ [c]) ''   _  /   _ _/'' @ map (\<lambda>c. backslash @ [c]) '' _'')"
  using banner_invalid_escapes
  by (simp add: text_module_def banner_literals_def py_decode_invalid_escapes)

end
