(* ===== verification/Torch.thy ===== *)
theory Torch
  imports Dataset
begin

text \<open>
  \<open>torch.tensor(data, dtype=torch.long)\<close> on arbitrarily nested Python lists, as
  torch implements it (\<open>torch/csrc/utils/tensor_new.cpp\<close>): \<open>compute_sizes\<close> infers
  the shape by following the first element of every level, and \<open>recursive_store\<close>
  walks the data in row-major order, checking every list against the inferred length
  of its dimension and converting every leaf with \<open>THPUtils_unpackLong\<close>, into a flat
  storage.  A feature value may be a list (a 2-D column, as \<open>Dataset\<close> models it)
  or a Python int (a scalar feature, giving a 1-D column).  \<open>TensorDataset\<close> over
  such tensors compares \<open>size(0)\<close>, which raises IndexError on a 0-dimensional
  tensor.  The theory proves the storage invariant, that \<open>Dataset\<close>'s 2-D model is
  this one restricted to lists of int lists, and what the converter does with scalar
  features.  None of this code is under \<open>src/\<close>: it is modelled from torch's sources.
\<close>

datatype pyval = PyInt int | PyList "pyval list"

record nd_tensor =
  nd_shape :: "nat list"
  nd_data :: "int64 list"
  nd_device :: device

fun compute_sizes :: "pyval \<Rightarrow> nat list" where
  "compute_sizes (PyInt x) = []"
| "compute_sizes (PyList []) = [0]"
| "compute_sizes (PyList (v # vs)) = Suc (length vs) # compute_sizes v"

text \<open>\<open>recursive_store\<close> from dimension \<open>dim\<close>, with the sizes of the remaining
  dimensions: a leaf where a list is expected raises TypeError (\<open>PySequence_Fast\<close>:
  not a sequence), a list where a number is expected raises TypeError, a list of the
  wrong length raises ValueError.\<close>

fun recursive_store :: "nat list \<Rightarrow> nat \<Rightarrow> pyval \<Rightarrow> error + int64 list" where
  "recursive_store [] dim (PyInt x) = sbind (to_long x) (\<lambda>w. Inr [w])"
| "recursive_store [] dim (PyList vs) =
     Inl (TypeError ''list object cannot be interpreted as an integer'')"
| "recursive_store (n # ns) dim (PyInt x) = Inl (TypeError ''not a sequence'')"
| "recursive_store (n # ns) dim (PyList vs) =
     (if length vs \<noteq> n then Inl (ValueError n dim (length vs))
      else sbind (smap (recursive_store ns (Suc dim)) vs) (\<lambda>chunks. Inr (concat chunks)))"

definition torch_tensor :: "pyval \<Rightarrow> error + nd_tensor" where
  "torch_tensor v =
     sbind (recursive_store (compute_sizes v) 0 v)
       (\<lambda>data. Inr \<lparr>nd_shape = compute_sizes v, nd_data = data, nd_device = Cpu\<rparr>)"

section \<open>TensorDataset and the converter over nested values\<close>

record nd_dataset =
  nd_tensors :: "nd_tensor list"

text \<open>\<open>tensor.size(0)\<close>: IndexError on a 0-dimensional tensor.\<close>

definition nd_size0 :: "nd_tensor \<Rightarrow> error + nat" where
  "nd_size0 t = (case nd_shape t of [] \<Rightarrow> Inl IndexError | n # _ \<Rightarrow> Inr n)"

text \<open>\<open>all(tensors[0].size(0) == tensor.size(0) for tensor in tensors)\<close>, which stops at
  the first mismatch.\<close>

fun all_same_size0 :: "nd_tensor \<Rightarrow> nd_tensor list \<Rightarrow> error + bool" where
  "all_same_size0 t0 [] = Inr True"
| "all_same_size0 t0 (t # ts) =
     sbind (nd_size0 t0) (\<lambda>a. sbind (nd_size0 t) (\<lambda>b.
       if a = b then all_same_size0 t0 ts else Inr False))"

definition tensor_dataset_nd :: "nd_tensor list \<Rightarrow> error + nd_dataset" where
  "tensor_dataset_nd ts =
     sbind (all_same_size0 (hd ts) ts) (\<lambda>ok.
       if ok then Inr \<lparr>nd_tensors = ts\<rparr>
       else Inl (AssertionError ''Size mismatch between tensors''))"

definition nd_len :: "nd_dataset \<Rightarrow> error + nat" where
  "nd_len ds = (case nd_tensors ds of [] \<Rightarrow> Inl IndexError | t # _ \<Rightarrow> nd_size0 t)"

type_synonym nd_feature = "pyval pydict"

text \<open>\<open>convert_features_to_dataset\<close> (\<open>dataset.py\<close> lines 6-23) with feature values of
  any nesting: the column \<open>[sample[t_name] for sample in features]\<close> is a Python list.\<close>

definition convert_features_to_dataset_nd ::
  "nd_feature list \<Rightarrow> error + nd_dataset \<times> string list" where
  "convert_features_to_dataset_nd features =
     sbind (tensor_names features) (\<lambda>names.
     sbind (smap (\<lambda>t_name. sbind (feature_column features t_name) (\<lambda>col. torch_tensor (PyList col)))
              names) (\<lambda>all_tensors.
     sbind (tensor_dataset_nd all_tensors) (\<lambda>dataset. Inr (dataset, names))))"

section \<open>The 2-D model as nested values\<close>

definition nd_of_int_rows :: "int list list \<Rightarrow> pyval" where
  "nd_of_int_rows rows = PyList (map (\<lambda>r. PyList (map PyInt r)) rows)"

text \<open>A tensor of \<open>Dataset\<close> (rows of a common width) as shape and flat storage.\<close>

definition nd_of_tensor :: "tensor \<Rightarrow> nd_tensor" where
  "nd_of_tensor t =
     \<lparr>nd_shape = (case t_rows t of [] \<Rightarrow> [0] | r # _ \<Rightarrow> [length (t_rows t), length r]),
      nd_data = concat (t_rows t), nd_device = t_device t\<rparr>"

text \<open>A scalar feature value (the int of a leaf).\<close>

definition scalar_value :: "pyval \<Rightarrow> int" where
  "scalar_value v = (case v of PyInt x \<Rightarrow> x | PyList _ \<Rightarrow> 0)"

definition scalar_column_ok :: "nd_feature list \<Rightarrow> string \<Rightarrow> bool" where
  "scalar_column_ok features n \<longleftrightarrow>
     list_all (\<lambda>s. case map_of s n of Some (PyInt x) \<Rightarrow> in_int64 x | _ \<Rightarrow> False) features"

text \<open>The 1-D tensor of the scalar feature \<open>n\<close>.\<close>

definition scalar_tensor :: "nd_feature list \<Rightarrow> string \<Rightarrow> nd_tensor" where
  "scalar_tensor features n =
     \<lparr>nd_shape = [length features],
      nd_data = map (\<lambda>s. word_of_int (scalar_value (the (map_of s n)))) features,
      nd_device = Cpu\<rparr>"

section \<open>Lemmas\<close>

lemma recursive_store_length:
  "recursive_store ns dim v = Inr data \<Longrightarrow> length data = prod_list ns"
proof (induction ns dim v arbitrary: data rule: recursive_store.induct)
  case (1 dim x)
  then show ?case by (auto simp: sbind_eq_Inr_iff)
next
  case (4 n ns dim vs)
  from "4.prems" obtain chunks where
    len: "length vs = n" and st: "smap (recursive_store ns (Suc dim)) vs = Inr chunks"
    and data: "data = concat chunks"
    by (auto simp: sbind_eq_Inr_iff split: if_splits)
  from st have all2: "list_all2 (\<lambda>v c. recursive_store ns (Suc dim) v = Inr c) vs chunks"
    by (simp add: smap_Inr_iff)
  have each: "length c = prod_list ns" if "c \<in> set chunks" for c
  proof -
    from that obtain i where i: "i < length chunks" "c = chunks ! i"
      by (auto simp: in_set_conv_nth)
    with all2 have "recursive_store ns (Suc dim) (vs ! i) = Inr c"
      by (simp add: list_all2_conv_all_nth)
    then show ?thesis
      using "4.IH" [of "vs ! i" c] len by simp
  qed
  from st len have "length chunks = n" by (simp add: smap_length)
  with sum_list_map_const [of chunks length "prod_list ns"] each show ?case
    by (simp add: data length_concat)
qed auto


lemma compute_sizes_int_row: "compute_sizes (PyList (map PyInt r)) = [length r]"
  by (cases r) simp_all

lemma recursive_store_int_row:
  "recursive_store [w] dim (PyList (map PyInt r)) =
     (if length r \<noteq> w then Inl (ValueError w dim (length r)) else smap to_long r)"
proof -
  have leaf: "recursive_store [] d (PyInt x) = map_sum id (\<lambda>w. [w]) (to_long x)" for d x
    by (cases "to_long x") simp_all
  have "smap (recursive_store [] (Suc dim)) (map PyInt r) = map_sum id (map (\<lambda>w. [w])) (smap to_long r)"
    by (simp only: smap_map_comp comp_def leaf smap_map_sum)
  moreover have "sbind (map_sum id (map (\<lambda>w. [w])) x) (\<lambda>chunks. Inr (concat chunks)) = x"
    for x :: "error + int64 list"
    by (cases x) (simp_all add: concat_map_singleton)
  ultimately show ?thesis by simp
qed

lemma recursive_store_int_rows:
  "smap (recursive_store [w] (Suc 0)) (map (\<lambda>r. PyList (map PyInt r)) rows) = smap (store_row w) rows"
proof -
  have "recursive_store [w] (Suc 0) (PyList (map PyInt r)) = store_row w r" for r
    by (simp only: recursive_store_int_row) (simp add: store_row_def)
  then show ?thesis
    by (simp only: smap_map_comp comp_def)
qed


lemma torch_tensor_int_rows_eq:
  "torch_tensor (nd_of_int_rows rows) = map_sum id nd_of_tensor (torch_tensor_long rows)"
proof (cases rows)
  case Nil
  then show ?thesis
    by (simp add: torch_tensor_def nd_of_int_rows_def torch_tensor_long_def nd_of_tensor_def)
next
  case (Cons r rs)
  let ?rows = "r # rs"
  have sizes: "compute_sizes (nd_of_int_rows ?rows) = [Suc (length rs), length r]"
    by (simp add: nd_of_int_rows_def compute_sizes_int_row)
  have store: "recursive_store [Suc (length rs), length r] 0 (nd_of_int_rows ?rows) =
      sbind (smap (store_row (length r)) ?rows) (\<lambda>chunks. Inr (concat chunks))"
    using recursive_store_int_rows [of "length r" ?rows]
    by (simp add: nd_of_int_rows_def del: recursive_store.simps(2,3) smap.simps)
  have tl: "torch_tensor_long ?rows =
      sbind (smap (store_row (length r)) ?rows) (\<lambda>rs'. Inr \<lparr>t_rows = rs', t_device = Cpu\<rparr>)"
    by (simp add: torch_tensor_long_def del: smap.simps)
  show ?thesis
  proof (cases "smap (store_row (length r)) ?rows")
    case (Inl e)
    then show ?thesis
      using Cons by (simp add: torch_tensor_def sizes store tl del: smap.simps)
  next
    case (Inr rs')
    with tl have t: "torch_tensor_long ?rows = Inr \<lparr>t_rows = rs', t_device = Cpu\<rparr>"
      by simp
    have "rs' = map (map word_of_int) ?rows"
      using torch_tensor_long_Cons_Inr_iff [of r rs "\<lparr>t_rows = rs', t_device = Cpu\<rparr>"] t by simp
    then show ?thesis
      using Inr t Cons by (simp add: torch_tensor_def sizes store nd_of_tensor_def del: smap.simps)
  qed
qed

lemma torch_tensor_scalars:
  "list_all in_int64 xs \<Longrightarrow>
     torch_tensor (PyList (map PyInt xs)) =
       Inr \<lparr>nd_shape = [length xs], nd_data = map word_of_int xs, nd_device = Cpu\<rparr>"
proof -
  assume ok: "list_all in_int64 xs"
  have "smap (recursive_store [] (Suc 0)) (map PyInt xs) = Inr (map (\<lambda>x. [word_of_int x]) xs)"
    using ok by (induction xs) (simp_all add: to_long_def)
  then show ?thesis
    by (simp add: torch_tensor_def compute_sizes_int_row concat_map_singleton
        del: recursive_store.simps(2,3))
qed


lemma scalar_column_okD:
  assumes "scalar_column_ok features n" and "s \<in> set features"
  obtains x where "map_of s n = Some (PyInt x)" and "in_int64 x"
proof -
  from assms have "case map_of s n of Some (PyInt x) \<Rightarrow> in_int64 x | _ \<Rightarrow> False"
    by (simp add: scalar_column_ok_def list_all_iff)
  then show ?thesis
    using that by (auto split: option.splits pyval.splits)
qed

lemma scalar_column_leaf:
  assumes "scalar_column_ok features n" and "s \<in> set features"
  shows "the (map_of s n) = PyInt (scalar_value (the (map_of s n))) \<and> map_of s n \<noteq> None \<and>
         in_int64 (scalar_value (the (map_of s n)))"
  using assms by (rule scalar_column_okD) (simp add: scalar_value_def)

lemma scalar_column_tensor:
  assumes ok: "scalar_column_ok features n"
  shows "sbind (feature_column features n) (\<lambda>col. torch_tensor (PyList col)) =
           Inr (scalar_tensor features n)"
proof -
  let ?xs = "map (\<lambda>s. scalar_value (the (map_of s n))) features"
  have "feature_column features n = Inr (map (\<lambda>s. the (map_of s n)) features)"
    using scalar_column_leaf [OF ok] by (simp add: feature_column_Inr_iff)
  also have "map (\<lambda>s. the (map_of s n)) features = map PyInt ?xs"
    using scalar_column_leaf [OF ok] by (auto intro: map_cong)
  finally have "feature_column features n = Inr (map PyInt ?xs)" .
  moreover have "list_all in_int64 ?xs"
    using scalar_column_leaf [OF ok] by (simp add: list_all_iff)
  ultimately show ?thesis
    using torch_tensor_scalars [of ?xs] by (simp add: scalar_tensor_def comp_def)
qed

lemma all_same_size0_Inr:
  "nd_size0 t0 = Inr m \<Longrightarrow> \<forall>t \<in> set ts. nd_size0 t = Inr m \<Longrightarrow> all_same_size0 t0 ts = Inr True"
  by (induction ts) auto

lemma scalar_tensor_size0: "nd_size0 (scalar_tensor features n) = Inr (length features)"
  by (simp add: nd_size0_def scalar_tensor_def)

section \<open>Properties of the nested model\<close>

text \<open>
  C29. Storage invariant of \<open>torch.tensor\<close>: a tensor it returns has the shape
  inferred from the first elements, and its flat storage holds exactly as many values
  as the product of that shape (every list of every level had the length of its
  dimension).
\<close>

theorem torch_tensor_storage:
  assumes "torch_tensor v = Inr t"
  shows "nd_shape t = compute_sizes v \<and> length (nd_data t) = prod_list (nd_shape t)"
  using assms recursive_store_length
  by (auto simp: torch_tensor_def sbind_eq_Inr_iff)



text \<open>
  C30. Scalar features: when every sample has, for every key of the first sample, a
  Python int in the long range, the converter builds one 1-D tensor per key, of length
  the number of samples, holding the values in sample order (they read back unchanged),
  and the dataset's length is the number of samples.
\<close>

theorem convert_features_to_dataset_nd_scalars:
  assumes "features \<noteq> []" and "list_all (scalar_column_ok features) (map fst (hd features))"
  shows "convert_features_to_dataset_nd features =
           Inr (\<lparr>nd_tensors = map (scalar_tensor features) (map fst (hd features))\<rparr>,
                map fst (hd features)) \<and>
         list_all (\<lambda>n. map sint (nd_data (scalar_tensor features n)) =
                        map (\<lambda>s. scalar_value (the (map_of s n))) features) (map fst (hd features)) \<and>
         (map fst (hd features) = [] \<or>
          nd_len \<lparr>nd_tensors = map (scalar_tensor features) (map fst (hd features))\<rparr> =
            Inr (length features))"
proof -
  let ?names = "map fst (hd features)"
  from assms(1) obtain f fs where f: "features = f # fs" by (cases features) auto
  have cols: "smap (\<lambda>t_name. sbind (feature_column features t_name) (\<lambda>col. torch_tensor (PyList col)))
      ?names = Inr (map (scalar_tensor features) ?names)"
    using assms(2) by (intro smap_eq_map) (simp add: list_all_iff scalar_column_tensor)
  have ds: "tensor_dataset_nd (map (scalar_tensor features) ?names) =
      Inr \<lparr>nd_tensors = map (scalar_tensor features) ?names\<rparr>"
  proof (cases ?names)
    case Nil
    then show ?thesis by (simp add: tensor_dataset_nd_def)
  next
    case (Cons n ns)
    then show ?thesis
      by (simp add: tensor_dataset_nd_def all_same_size0_Inr scalar_tensor_size0
          del: all_same_size0.simps)
  qed
  have conv: "convert_features_to_dataset_nd features =
      Inr (\<lparr>nd_tensors = map (scalar_tensor features) ?names\<rparr>, ?names)"
    using cols ds f by (simp add: convert_features_to_dataset_nd_def tensor_names_def del: smap.simps)
  have rb: "list_all (\<lambda>n. map sint (nd_data (scalar_tensor features n)) =
      map (\<lambda>s. scalar_value (the (map_of s n))) features) ?names"
  proof -
    have "map sint (nd_data (scalar_tensor features n)) =
        map (\<lambda>s. scalar_value (the (map_of s n))) features" if "scalar_column_ok features n" for n
    proof -
      from that have "list_all in_int64 (map (\<lambda>s. scalar_value (the (map_of s n))) features)"
        using scalar_column_leaf by (simp add: list_all_iff)
      then have "map sint (map (word_of_int :: int \<Rightarrow> int64)
            (map (\<lambda>s. scalar_value (the (map_of s n))) features)) =
          map (\<lambda>s. scalar_value (the (map_of s n))) features"
        by (rule map_sint_word_of_int)
      then show ?thesis
        by (simp add: scalar_tensor_def comp_def)
    qed
    with assms(2) show ?thesis by (simp add: list_all_iff)
  qed
  have "?names = [] \<or> nd_len \<lparr>nd_tensors = map (scalar_tensor features) ?names\<rparr> = Inr (length features)"
    by (cases ?names) (simp_all add: nd_len_def scalar_tensor_size0)
  with conv rb show ?thesis by simp
qed

section \<open>Witnesses\<close>

theorem torch_tensor_storage_witness:
  "torch_tensor (PyList [PyList [PyInt 1, PyInt 2, PyInt 3], PyList [PyInt 4, PyInt 5, PyInt 6]]) =
     Inr \<lparr>nd_shape = [2, 3], nd_data = [1, 2, 3, 4, 5, 6], nd_device = Cpu\<rparr> \<and>
   [2, 3] = compute_sizes (PyList [PyList [PyInt 1, PyInt 2, PyInt 3], PyList [PyInt 4, PyInt 5, PyInt 6]]) \<and>
   length [1, 2, 3, 4, 5, 6 :: int64] = prod_list [2, 3 :: nat]"
proof -
  have t: "torch_tensor (PyList [PyList [PyInt 1, PyInt 2, PyInt 3], PyList [PyInt 4, PyInt 5, PyInt 6]]) =
     Inr \<lparr>nd_shape = [2, 3], nd_data = [1, 2, 3, 4, 5, 6], nd_device = Cpu\<rparr>"
    by (simp add: torch_tensor_def to_long_def in_int64_def)
  show ?thesis
    using t torch_tensor_storage [OF t] by simp
qed

theorem convert_features_to_dataset_nd_scalars_witness:
  "[[(''label_ids'', PyInt 1), (''seq_len'', PyInt 7)],
    [(''label_ids'', PyInt 0), (''seq_len'', PyInt 5)]] \<noteq> [] \<and>
   list_all (scalar_column_ok [[(''label_ids'', PyInt 1), (''seq_len'', PyInt 7)],
                               [(''label_ids'', PyInt 0), (''seq_len'', PyInt 5)]])
     [''label_ids'', ''seq_len''] \<and>
   convert_features_to_dataset_nd
     [[(''label_ids'', PyInt 1), (''seq_len'', PyInt 7)], [(''label_ids'', PyInt 0), (''seq_len'', PyInt 5)]] =
     Inr (\<lparr>nd_tensors = [\<lparr>nd_shape = [2], nd_data = [1, 0], nd_device = Cpu\<rparr>,
                         \<lparr>nd_shape = [2], nd_data = [7, 5], nd_device = Cpu\<rparr>]\<rparr>,
          [''label_ids'', ''seq_len'']) \<and>
   nd_len \<lparr>nd_tensors = [\<lparr>nd_shape = [2], nd_data = [1, 0], nd_device = Cpu\<rparr>,
                        \<lparr>nd_shape = [2], nd_data = [7, 5], nd_device = Cpu\<rparr>]\<rparr> = Inr 2"
proof -
  let ?fs = "[[(''label_ids'', PyInt 1), (''seq_len'', PyInt 7)],
              [(''label_ids'', PyInt 0), (''seq_len'', PyInt 5)]]"
  have ne: "?fs \<noteq> []" by simp
  have ok: "list_all (scalar_column_ok ?fs) (map fst (hd ?fs))"
    by (simp add: scalar_column_ok_def in_int64_def)
  show ?thesis
    using ok convert_features_to_dataset_nd_scalars [OF ne ok]
    by (simp add: scalar_tensor_def scalar_value_def numeral_2_eq_2)
qed

end
