(* ===== verification/Loader_nd.thy ===== *)
theory Loader_nd
  imports Torch Loader
begin

text \<open>
  The batch loader of \<open>infer.py\<close> (lines 119-124 and 159-164) over a dataset of
  tensors of any shape, as \<open>convert_features_to_dataset\<close> builds it from scalar, 1-D or
  nested feature values (\<open>Torch\<close>).  \<open>TensorDataset.__getitem__\<close> indexes every
  tensor along dimension 0 (\<open>nd_index\<close>: the sub-tensor of the remaining dimensions, a
  window of the flat storage), FARM's collate function groups the examples per tensor
  name and stacks them with \<open>torch.stack\<close> (\<open>nd_stack\<close>, which needs equal shapes),
  and the sampler is the one of \<open>Loader\<close>.  A tensor is well formed (\<open>nd_wf\<close>) when
  its storage has the product of its shape many values, as \<open>torch.tensor\<close> guarantees.
  The theory proves that indexing and stacking keep tensors well formed, that a batch of
  consecutive rows is the slice \<open>t[a:b]\<close> of every tensor (\<open>nd_slice\<close>, the
  reference), and that the loader fetches every batch of a converted dataset without
  error.  Like \<open>Loader\<close>, this code is not under \<open>src/\<close> and is modelled from torch
  and FARM's \<open>dataloader.py\<close>.
\<close>

section \<open>Indexing, stacking and collating\<close>

definition nd_wf :: "nd_tensor \<Rightarrow> bool" where
  "nd_wf t \<longleftrightarrow> length (nd_data t) = prod_list (nd_shape t)"

text \<open>\<open>tensor[i]\<close> for a row index \<open>i\<close>: IndexError on a 0-dimensional tensor and past
  the end of dimension 0.\<close>

definition nd_index :: "nd_tensor \<Rightarrow> nat \<Rightarrow> error + nd_tensor" where
  "nd_index t i =
     (case nd_shape t of
        [] \<Rightarrow> Inl IndexError
      | n # ns \<Rightarrow>
          if i < n
          then Inr \<lparr>nd_shape = ns,
                    nd_data = py_slice (nd_data t) (i * prod_list ns) (Suc i * prod_list ns),
                    nd_device = nd_device t\<rparr>
          else Inl IndexError)"

text \<open>\<open>TensorDataset.__getitem__\<close>: \<open>tuple(tensor[index] for tensor in self.tensors)\<close>.\<close>

definition nd_getitem :: "nd_dataset \<Rightarrow> nat \<Rightarrow> error + nd_tensor list" where
  "nd_getitem ds i = smap (\<lambda>t. nd_index t i) (nd_tensors ds)"

text \<open>\<open>torch.stack\<close>: a new leading dimension over tensors of one shape, their storages
  one after the other.\<close>

definition nd_stack :: "nd_tensor list \<Rightarrow> error + nd_tensor" where
  "nd_stack ts =
     (case ts of
        [] \<Rightarrow> Inl (RuntimeError ''stack expects a non-empty TensorList'')
      | t # _ \<Rightarrow>
          if list_all (\<lambda>u. nd_shape u = nd_shape t) ts
          then Inr \<lparr>nd_shape = length ts # nd_shape t, nd_data = concat (map nd_data ts),
                    nd_device = nd_device t\<rparr>
          else Inl (RuntimeError ''stack expects each tensor to be equal size''))"

text \<open>The collate function of \<open>NamedDataLoader\<close>: the first example must have one
  tensor per name; the examples' tensors are grouped per name and stacked.\<close>

definition collate_nd :: "string list \<Rightarrow> nd_tensor list list \<Rightarrow> error + nd_tensor pydict" where
  "collate_nd names batch =
     (case batch of
        [] \<Rightarrow> Inl IndexError
      | ex # _ \<Rightarrow>
          if length ex \<noteq> length names
          then Inl (AssertionError ''Dataset contains a different number of tensors than tensor names'')
          else smap (\<lambda>(name, k). sbind (nd_stack (map (\<lambda>e. e ! k) batch)) (\<lambda>t. Inr (name, t)))
                 (zip names [0..<length names]))"

definition fetch_batch_nd :: "nd_dataset \<Rightarrow> string list \<Rightarrow> nat list \<Rightarrow> error + nd_tensor pydict" where
  "fetch_batch_nd ds names idxs = sbind (smap (nd_getitem ds) idxs) (collate_nd names)"

definition data_loader_batches_nd :: "nd_dataset \<Rightarrow> int \<Rightarrow> error + nat list list" where
  "data_loader_batches_nd ds batch_size =
     (if batch_size \<le> 0 then Inl (BatchSizeError batch_size)
      else sbind (nd_len ds)
             (\<lambda>n. Inr (batch_sampler_iter (nat batch_size) [] (sequential_sampler n))))"

text \<open>The reference: the slice \<open>t[a:b]\<close> along dimension 0, for \<open>a \<le> b\<close> within it.\<close>

definition nd_slice :: "nd_tensor \<Rightarrow> nat \<Rightarrow> nat \<Rightarrow> nd_tensor" where
  "nd_slice t a b =
     \<lparr>nd_shape = (b - a) # tl (nd_shape t),
      nd_data = py_slice (nd_data t) (a * prod_list (tl (nd_shape t))) (b * prod_list (tl (nd_shape t))),
      nd_device = nd_device t\<rparr>"

text \<open>Row \<open>i\<close> of a tensor, the reference for \<open>tensor[i]\<close>.\<close>

definition nd_row :: "nd_tensor \<Rightarrow> nat \<Rightarrow> nd_tensor" where
  "nd_row t i =
     \<lparr>nd_shape = tl (nd_shape t),
      nd_data = py_slice (nd_data t) (i * prod_list (tl (nd_shape t))) (Suc i * prod_list (tl (nd_shape t))),
      nd_device = nd_device t\<rparr>"

text \<open>\<open>Dataset\<close>'s 2-D tensors (rows of one width, on the CPU) as n-D tensors, and a
  row as a 1-D tensor.\<close>

definition nd_of_dataset :: "dataset \<Rightarrow> nd_dataset" where
  "nd_of_dataset ds = \<lparr>nd_tensors = map nd_of_tensor (ds_tensors ds)\<rparr>"

definition nd_of_row :: "int64 list \<Rightarrow> nd_tensor" where
  "nd_of_row r = \<lparr>nd_shape = [length r], nd_data = r, nd_device = Cpu\<rparr>"

definition rectangular :: "tensor \<Rightarrow> bool" where
  "rectangular t \<longleftrightarrow> list_all (\<lambda>r. length r = length (hd (t_rows t))) (t_rows t) \<and> t_device t = Cpu"

definition nd_of_feature :: "feature \<Rightarrow> nd_feature" where
  "nd_of_feature f = map (\<lambda>(k, v). (k, PyList (map PyInt v))) f"

text \<open>A scenario: three samples with a scalar feature \<open>label_ids\<close> and a 1-D feature
  \<open>input_ids\<close> of length 2.\<close>

definition mixed_features :: "nd_feature list" where
  "mixed_features =
     [[(''label_ids'', PyInt 1), (''input_ids'', PyList [PyInt 2, PyInt 3])],
      [(''label_ids'', PyInt 4), (''input_ids'', PyList [PyInt 5, PyInt 6])],
      [(''label_ids'', PyInt 7), (''input_ids'', PyList [PyInt 8, PyInt 9])]]"

definition mixed_dataset :: nd_dataset where
  "mixed_dataset =
     \<lparr>nd_tensors = [\<lparr>nd_shape = [3], nd_data = [1, 4, 7], nd_device = Cpu\<rparr>,
                   \<lparr>nd_shape = [3, 2], nd_data = [2, 3, 5, 6, 8, 9], nd_device = Cpu\<rparr>]\<rparr>"

section \<open>Lemmas\<close>

lemma py_slice_append:
  assumes "i \<le> j" and "j \<le> k"
  shows "py_slice xs i j @ py_slice xs j k = py_slice xs i k"
proof -
  have "take (k - i) (drop i xs) = take (j - i) (drop i xs) @ take (k - j) (drop (j - i) (drop i xs))"
    using assms take_add [of "j - i" "k - j" "drop i xs"] by simp
  with assms show ?thesis by (simp add: py_slice_def)
qed

lemma concat_slices_from:
  "a \<le> b \<Longrightarrow> concat (map (\<lambda>k. py_slice xs (k * n) (Suc k * n)) [a..<b]) = py_slice xs (a * n) (b * n)"
proof (induction b)
  case 0
  then show ?case by (simp add: py_slice_def)
next
  case (Suc b)
  show ?case
  proof (cases "a = Suc b")
    case True
    then show ?thesis by (simp add: py_slice_def)
  next
    case False
    with Suc.prems have ab: "a \<le> b" by simp
    then have "py_slice xs (a * n) (b * n) @ py_slice xs (b * n) (Suc b * n) = py_slice xs (a * n) (Suc b * n)"
      by (intro py_slice_append) simp_all
    with Suc.IH [OF ab] ab show ?thesis by simp
  qed
qed

lemma nd_index_row:
  "nd_shape t = n # ns \<Longrightarrow> i < n \<Longrightarrow> nd_index t i = Inr (nd_row t i)"
  by (simp add: nd_index_def nd_row_def)

lemma nd_index_Inr_iff:
  "nd_index t i = Inr u \<longleftrightarrow> nd_shape t \<noteq> [] \<and> i < hd (nd_shape t) \<and> u = nd_row t i"
  by (auto simp: nd_index_def nd_row_def split: list.splits)

lemma nd_row_wf:
  assumes "nd_wf t" and "nd_shape t = n # ns" and "i < n"
  shows "nd_wf (nd_row t i)"
proof -
  have "Suc i * prod_list ns \<le> n * prod_list ns"
    using assms(3) mult_le_mono1 [of "Suc i" n "prod_list ns"] by simp
  with assms(1,2) show ?thesis
    by (simp add: nd_wf_def nd_row_def py_slice_length diff_mult_distrib)
qed

lemma nd_stack_wf:
  assumes "list_all nd_wf ts" and "nd_stack ts = Inr u"
  shows "nd_wf u"
proof -
  from assms(2) obtain t ts' where ts: "ts = t # ts'"
    and same: "list_all (\<lambda>v. nd_shape v = nd_shape t) ts"
    and u: "u = \<lparr>nd_shape = length ts # nd_shape t, nd_data = concat (map nd_data ts),
                 nd_device = nd_device t\<rparr>"
    by (auto simp: nd_stack_def split: list.splits if_splits)
  have "length (concat (map nd_data ts)) = length ts * prod_list (nd_shape t)"
    using assms(1) same by (simp add: length_concat nd_wf_def list_all_iff sum_list_map_const)
  with u show ?thesis by (simp add: nd_wf_def)
qed

lemma nd_stack_rows:
  assumes "a < b"
  shows "nd_stack (map (nd_row t) [a..<b]) = Inr (nd_slice t a b)"
proof -
  obtain rest where ab: "[a..<b] = a # rest"
    using assms upt_conv_Cons by blast
  have "concat (map nd_data (map (nd_row t) [a..<b])) =
      py_slice (nd_data t) (a * prod_list (tl (nd_shape t))) (b * prod_list (tl (nd_shape t)))"
    using assms concat_slices_from [of a b "nd_data t" "prod_list (tl (nd_shape t))"]
    by (simp add: nd_row_def comp_def)
  moreover have "Suc (length rest) = b - a"
    using ab by (metis length_Cons length_upt)
  ultimately show ?thesis using ab
    by (simp add: nd_stack_def nd_slice_def nd_row_def list_all_iff del: upt_Suc)
qed

text \<open>Fetching the consecutive rows \<open>[a, b)\<close> of a dataset of \<open>n\<close> rows gives,
  under every name, the slice \<open>t[a:b]\<close> of its tensor.\<close>

lemma fetch_batch_nd_slices:
  assumes "\<forall>t \<in> set (nd_tensors ds). \<exists>ns. nd_shape t = n # ns"
    and "length names = length (nd_tensors ds)" and "a < b" and "b \<le> n"
  shows "fetch_batch_nd ds names [a..<b] = Inr (zip names (map (\<lambda>t. nd_slice t a b) (nd_tensors ds)))"
proof -
  let ?ts = "nd_tensors ds"
  let ?rows = "map (\<lambda>i. map (\<lambda>t. nd_row t i) ?ts) [a..<b]"
  have "nd_getitem ds i = Inr (map (\<lambda>t. nd_row t i) ?ts)" if "i \<in> set [a..<b]" for i
    unfolding nd_getitem_def using assms(1,4) that
    by (intro smap_eq_map) (force simp: nd_index_Inr_iff)
  then have get: "smap (nd_getitem ds) [a..<b] = Inr ?rows"
    by (intro smap_eq_map) blast
  obtain rest where ab: "[a..<b] = a # rest"
    using assms(3) upt_conv_Cons by blast
  have cols: "smap (\<lambda>(name, k). sbind (nd_stack (map (\<lambda>e. e ! k) ?rows)) (\<lambda>t. Inr (name, t)))
      (zip names [0..<length names]) =
      Inr (map (\<lambda>(name, k). (name, nd_slice (?ts ! k) a b)) (zip names [0..<length names]))"
  proof (rule smap_eq_map, clarify)
    fix name k assume "(name, k) \<in> set (zip names [0..<length names])"
    then have "k < length ?ts" using assms(2) by (auto dest: set_zip_rightD)
    then have eq: "map (\<lambda>e. e ! k) ?rows = map (nd_row (?ts ! k)) [a..<b]"
      by simp
    show "sbind (nd_stack (map (\<lambda>e. e ! k) ?rows)) (\<lambda>t. Inr (name, t)) =
        Inr (name, nd_slice (?ts ! k) a b)"
      by (simp only: eq nd_stack_rows [OF assms(3)] sbind_Inr)
  qed
  have "map (\<lambda>(name, k). (name, nd_slice (?ts ! k) a b)) (zip names [0..<length names]) =
      zip names (map (\<lambda>t. nd_slice t a b) ?ts)"
    using assms(2) by (intro nth_equalityI) auto
  with get cols ab assms(2) show ?thesis
    by (simp add: fetch_batch_nd_def collate_nd_def del: upt_Suc)
qed

lemma nd_slice_wf:
  assumes "nd_wf t" and "nd_shape t = n # ns" and "a \<le> b" and "b \<le> n"
  shows "nd_wf (nd_slice t a b)"
proof -
  have "b * prod_list ns - a * prod_list ns \<le> n * prod_list ns - a * prod_list ns"
    using assms(4) by (intro diff_le_mono mult_le_mono1)
  with assms(1,2,3) show ?thesis
    by (simp add: nd_wf_def nd_slice_def py_slice_length min_absorb1 diff_mult_distrib)
qed

lemma data_loader_batches_nd_Inr:
  "0 < batch_size \<Longrightarrow> nd_len ds = Inr n \<Longrightarrow>
     data_loader_batches_nd ds batch_size = Inr (chunks (nat batch_size) [0..<n])"
  by (simp add: data_loader_batches_nd_def sequential_sampler_def batch_sampler_iter_chunks)

lemma compute_sizes_PyList:
  "vs \<noteq> [] \<Longrightarrow> compute_sizes (PyList vs) = length vs # compute_sizes (hd vs)"
  by (cases vs) auto

lemma torch_tensor_column:
  assumes "torch_tensor (PyList col) = Inr t" and "col \<noteq> []"
  shows "nd_wf t \<and> nd_shape t = length col # compute_sizes (hd col)"
proof -
  from assms(1) obtain data where
    st: "recursive_store (compute_sizes (PyList col)) 0 (PyList col) = Inr data"
    and t: "t = \<lparr>nd_shape = compute_sizes (PyList col), nd_data = data, nd_device = Cpu\<rparr>"
    by (auto simp: torch_tensor_def sbind_eq_Inr_iff simp del: recursive_store.simps)
  from st have "length data = prod_list (compute_sizes (PyList col))"
    by (rule recursive_store_length)
  with t assms(2) show ?thesis
    by (simp add: nd_wf_def compute_sizes_PyList)
qed

text \<open>The converter builds one well-formed tensor per name, each with one row per
  sample.\<close>

lemma convert_features_to_dataset_nd_tensors:
  assumes "convert_features_to_dataset_nd features = Inr (ds, names)"
  shows "length names = length (nd_tensors ds) \<and>
         (\<forall>t \<in> set (nd_tensors ds). nd_wf t \<and> (\<exists>ns. nd_shape t = length features # ns))"
proof -
  from assms obtain ts where ne: "features \<noteq> []"
    and cols: "smap (\<lambda>t_name. sbind (feature_column features t_name) (\<lambda>col. torch_tensor (PyList col)))
                 names = Inr ts"
    and ds: "tensor_dataset_nd ts = Inr ds"
    by (auto simp: convert_features_to_dataset_nd_def tensor_names_def sbind_eq_Inr_iff
        split: list.splits)
  have dsts: "nd_tensors ds = ts"
    using ds by (auto simp: tensor_dataset_nd_def sbind_eq_Inr_iff split: if_splits)
  have "nd_wf t \<and> (\<exists>ns. nd_shape t = length features # ns)" if "t \<in> set ts" for t
  proof -
    from cols have all2: "list_all2 (\<lambda>name t.
        sbind (feature_column features name) (\<lambda>col. torch_tensor (PyList col)) = Inr t) names ts"
      by (simp add: smap_Inr_iff)
    from that obtain i where "i < length ts" and "t = ts ! i"
      by (auto simp: in_set_conv_nth)
    with all2 obtain name where
      "sbind (feature_column features name) (\<lambda>col. torch_tensor (PyList col)) = Inr t"
      by (auto simp: list_all2_conv_all_nth)
    then obtain col where col: "feature_column features name = Inr col"
      and tt: "torch_tensor (PyList col) = Inr t"
      by (auto simp: sbind_eq_Inr_iff)
    have len: "length col = length features"
      using col unfolding feature_column_def by (rule smap_length)
    with ne have "col \<noteq> []" by auto
    with len show ?thesis
      using torch_tensor_column [OF tt] by auto
  qed
  moreover have "length ts = length names"
    using cols by (rule smap_length)
  ultimately show ?thesis by (simp add: dsts)
qed

lemma convert_features_to_dataset_nd_len:
  assumes "convert_features_to_dataset_nd features = Inr (ds, names)" and "names \<noteq> []"
  shows "nd_len ds = Inr (length features)"
proof -
  note ts = convert_features_to_dataset_nd_tensors [OF assms(1)]
  with assms(2) obtain t ts' where "nd_tensors ds = t # ts'"
    by (cases "nd_tensors ds") auto
  with ts show ?thesis
    by (auto simp: nd_len_def nd_size0_def)
qed

lemma mixed_converted:
  "convert_features_to_dataset_nd mixed_features = Inr (mixed_dataset, [''label_ids'', ''input_ids''])"
  by (simp add: mixed_features_def mixed_dataset_def convert_features_to_dataset_nd_def
      tensor_names_def feature_column_def dict_get_def torch_tensor_def to_long_def in_int64_def
      tensor_dataset_nd_def nd_size0_def)

section \<open>The 2-D loader as the n-D loader\<close>

lemma smap_cong_set:
  "\<forall>x \<in> set xs. f x = g x \<Longrightarrow> smap f xs = smap g xs"
  by (induction xs) auto

lemma py_slice_concat_rows:
  "list_all (\<lambda>r. length r = w) rows \<Longrightarrow> i < length rows \<Longrightarrow>
     py_slice (concat rows) (i * w) (Suc i * w) = rows ! i"
proof (induction rows arbitrary: i)
  case Nil
  then show ?case by simp
next
  case (Cons r rs)
  show ?case
  proof (cases i)
    case 0
    with Cons.prems show ?thesis by (simp add: py_slice_def)
  next
    case (Suc j)
    with Cons.prems Cons.IH [of j] show ?thesis
      by (simp add: py_slice_def add.commute)
  qed
qed

lemma nd_index_of_tensor:
  assumes "rectangular t"
  shows "nd_index (nd_of_tensor t) i =
           map_sum id nd_of_row (if i < length (t_rows t) then Inr (t_rows t ! i) else Inl IndexError)"
proof (cases "t_rows t")
  case Nil
  then show ?thesis by (simp add: nd_index_def nd_of_tensor_def)
next
  case (Cons r rs)
  have "i < length (t_rows t) \<Longrightarrow>
      py_slice (concat (t_rows t)) (i * length r) (Suc i * length r) = t_rows t ! i"
    using assms Cons by (intro py_slice_concat_rows) (simp_all add: rectangular_def)
  moreover have "i < length (t_rows t) \<Longrightarrow> length (t_rows t ! i) = length r"
  proof -
    assume "i < length (t_rows t)"
    then have "t_rows t ! i \<in> set (t_rows t)" by (rule nth_mem)
    with assms Cons show ?thesis by (auto simp: rectangular_def list_all_iff)
  qed
  ultimately show ?thesis
    using assms Cons
    by (auto simp: nd_index_def nd_of_tensor_def nd_of_row_def rectangular_def simp del: mult_Suc)
qed

lemma nd_getitem_of_dataset:
  assumes "list_all rectangular (ds_tensors ds)"
  shows "nd_getitem (nd_of_dataset ds) i = map_sum id (map nd_of_row) (ds_getitem ds i)"
proof -
  have "nd_getitem (nd_of_dataset ds) i = smap ((\<lambda>t. nd_index t i) \<circ> nd_of_tensor) (ds_tensors ds)"
    by (simp add: nd_getitem_def nd_of_dataset_def smap_map_comp)
  also have "\<dots> = smap (\<lambda>t. map_sum id nd_of_row
        (if i < length (t_rows t) then Inr (t_rows t ! i) else Inl IndexError)) (ds_tensors ds)"
    using assms by (intro smap_cong_set) (simp add: list_all_iff nd_index_of_tensor)
  finally show ?thesis
    by (simp add: smap_map_sum ds_getitem_def)
qed

lemma ds_getitem_Inr_iff:
  "ds_getitem ds i = Inr e \<longleftrightarrow>
     (\<forall>t \<in> set (ds_tensors ds). i < length (t_rows t)) \<and> e = map (\<lambda>t. t_rows t ! i) (ds_tensors ds)"
  unfolding ds_getitem_def by (rule smap_Inr_map_iff) auto

lemma nd_stack_of_rows:
  assumes "col \<noteq> []" and "list_all (\<lambda>r. length r = length (hd col)) col"
  shows "nd_stack (map nd_of_row col) = Inr (nd_of_tensor (stack col))"
  using assms
  by (cases col) (auto simp: nd_stack_def nd_of_row_def nd_of_tensor_def stack_def list_all_iff comp_def)

lemma collate_nd_of_rows:
  assumes "\<forall>e \<in> set batch. length e = length ws \<and> (\<forall>k < length ws. length (e ! k) = ws ! k)"
  shows "collate_nd names (map (map nd_of_row) batch) =
           map_sum id (map (\<lambda>(n, t). (n, nd_of_tensor t))) (collate names batch)"
proof (cases batch)
  case Nil
  then show ?thesis by (simp add: collate_nd_def collate_def)
next
  case (Cons ex rest)
  show ?thesis
  proof (cases "length ex = length names")
    case False
    with Cons show ?thesis by (simp add: collate_nd_def collate_def)
  next
    case True
    have len: "length ws = length names" using assms Cons True by simp
    have col: "nd_stack (map (\<lambda>e. e ! k) (map (map nd_of_row) batch)) =
        Inr (nd_of_tensor (stack (map (\<lambda>e. e ! k) batch)))" if "k < length names" for k
    proof -
      have eq: "map (\<lambda>e. e ! k) (map (map nd_of_row) batch) = map nd_of_row (map (\<lambda>e. e ! k) batch)"
        using assms that len by auto
      have ne: "map (\<lambda>e. e ! k) batch \<noteq> []" using Cons by simp
      have wf: "list_all (\<lambda>r. length r = length (hd (map (\<lambda>e. e ! k) batch))) (map (\<lambda>e. e ! k) batch)"
        using assms that len Cons by (simp add: list_all_iff)
      show ?thesis
        by (simp only: eq nd_stack_of_rows [OF ne wf])
    qed
    have "smap (\<lambda>(name, k). sbind (nd_stack (map (\<lambda>e. e ! k) (map (map nd_of_row) batch))) (\<lambda>t. Inr (name, t)))
        (zip names [0..<length names]) =
        Inr (map (\<lambda>(name, k). (name, nd_of_tensor (stack (map (\<lambda>e. e ! k) batch)))) (zip names [0..<length names]))"
    proof (rule smap_eq_map, clarify)
      fix name k assume "(name, k) \<in> set (zip names [0..<length names])"
      then have "k < length names" by (auto dest: set_zip_rightD)
      then show "sbind (nd_stack (map (\<lambda>e. e ! k) (map (map nd_of_row) batch))) (\<lambda>t. Inr (name, t)) =
          Inr (name, nd_of_tensor (stack (map (\<lambda>e. e ! k) batch)))"
        by (simp only: col sbind_Inr)
    qed
    with Cons True show ?thesis
      by (simp add: collate_nd_def collate_def split_def)
  qed
qed

text \<open>The loader of \<open>Loader\<close>, over the 2-D tensors the inferencer's model uses, is
  this loader restricted to rectangular tensors: it visits the same batches, and
  fetching a batch raises the same exception or returns the same tensors seen as n-D.\<close>

lemma data_loader_batches_nd_refines_2d:
  "data_loader_batches_nd (nd_of_dataset ds) batch_size = data_loader_batches ds batch_size"
  by (auto simp: data_loader_batches_nd_def data_loader_batches_def nd_len_def ds_len_def
      nd_of_dataset_def nd_size0_def nd_of_tensor_def split: list.splits)

lemma fetch_batch_nd_refines_2d:
  assumes rect: "list_all rectangular (ds_tensors ds)"
  shows "fetch_batch_nd (nd_of_dataset ds) names idxs =
           map_sum id (map (\<lambda>(n, t). (n, nd_of_tensor t))) (fetch_batch ds names idxs)"
proof -
  let ?ts = "ds_tensors ds"
  have "nd_getitem (nd_of_dataset ds) = (\<lambda>i. map_sum id (map nd_of_row) (ds_getitem ds i))"
    by (rule ext) (rule nd_getitem_of_dataset [OF rect])
  then have get: "smap (nd_getitem (nd_of_dataset ds)) idxs =
      map_sum id (map (map nd_of_row)) (smap (ds_getitem ds) idxs)"
    by (simp add: smap_map_sum)
  show ?thesis
  proof (cases "smap (ds_getitem ds) idxs")
    case (Inl e)
    with get show ?thesis by (simp add: fetch_batch_nd_def fetch_batch_def)
  next
    case (Inr rows)
    let ?ws = "map (\<lambda>t. length (hd (t_rows t))) ?ts"
    have "length e = length ?ws \<and> (\<forall>k < length ?ws. length (e ! k) = ?ws ! k)" if "e \<in> set rows" for e
    proof -
      from Inr that obtain i where "ds_getitem ds i = Inr e"
        by (auto simp: smap_Inr_iff list_all2_conv_all_nth in_set_conv_nth)
      then have i: "\<forall>t \<in> set ?ts. i < length (t_rows t)" and e: "e = map (\<lambda>t. t_rows t ! i) ?ts"
        by (simp_all add: ds_getitem_Inr_iff)
      have "length (t_rows t ! i) = length (hd (t_rows t))" if "t \<in> set ?ts" for t
      proof -
        from i that have "t_rows t ! i \<in> set (t_rows t)" by simp
        with rect that show ?thesis by (auto simp: rectangular_def list_all_iff)
      qed
      with e show ?thesis by simp
    qed
    then have "collate_nd names (map (map nd_of_row) rows) =
        map_sum id (map (\<lambda>(n, t). (n, nd_of_tensor t))) (collate names rows)"
      by (intro collate_nd_of_rows) blast
    with get Inr show ?thesis by (simp add: fetch_batch_nd_def fetch_batch_def)
  qed
qed

lemma convert_features_to_dataset_rectangular:
  assumes "convert_features_to_dataset features = Inr (ds, names)"
  shows "list_all rectangular (ds_tensors ds)"
proof -
  from assms have ok: "features_ok features"
    and ds: "ds_tensors ds = map (feature_tensor features) (map fst (hd features))"
    by (simp_all add: convert_features_to_dataset_eq)
  have "rectangular (feature_tensor features n)" if "n \<in> set (map fst (hd features))" for n
  proof -
    from ok have ne: "features \<noteq> []"
      unfolding features_ok_def by (rule conjunct1)
    from ok have cols: "\<forall>n \<in> set (map fst (hd features)). column_ok features n"
      unfolding features_ok_def by (rule conjunct2)
    from cols that have col: "column_ok features n" by (rule bspec)
    have len: "length (the (map_of s n)) = length (the (map_of (hd features) n))" if "s \<in> set features" for s
    proof -
      from col that have "case map_of s n of None \<Rightarrow> False
          | Some v \<Rightarrow> length v = length (the (map_of (hd features) n)) \<and> list_all in_int64 v"
        unfolding column_ok_def by (rule bspec)
      then show ?thesis by (cases "map_of s n") simp_all
    qed
    have "hd (t_rows (feature_tensor features n)) = map word_of_int (the (map_of (hd features) n))"
      using ne by (simp add: feature_tensor_def hd_map)
    with len show ?thesis
      by (simp add: rectangular_def feature_tensor_def list_all_iff)
  qed
  with ds show ?thesis by (simp add: list_all_iff)
qed

text \<open>The converter of \<open>Dataset\<close> is the n-D converter on features whose values
  are int lists: it raises the same exception, or builds the same dataset seen as n-D.\<close>

lemma nd_size0_of_tensor: "nd_size0 (nd_of_tensor t) = Inr (length (t_rows t))"
  by (simp add: nd_size0_def nd_of_tensor_def split: list.split)

lemma all_same_size0_of_tensors:
  "all_same_size0 (nd_of_tensor t0) (map nd_of_tensor ts) =
     Inr (list_all (\<lambda>t. length (t_rows t) = length (t_rows t0)) ts)"
  by (induction ts) (auto simp: nd_size0_of_tensor)

lemma tensor_dataset_nd_of_tensors:
  "tensor_dataset_nd (map nd_of_tensor ts) = map_sum id nd_of_dataset (tensor_dataset ts)"
proof (cases ts)
  case Nil
  then show ?thesis by (simp add: tensor_dataset_nd_def tensor_dataset_def nd_of_dataset_def)
next
  case (Cons t ts')
  have "all_same_size0 (hd (map nd_of_tensor ts)) (map nd_of_tensor ts) =
      Inr (list_all (\<lambda>u. length (t_rows u) = length (t_rows (hd ts))) ts)"
    using Cons all_same_size0_of_tensors [of t ts] by simp
  then show ?thesis
    by (simp add: tensor_dataset_nd_def tensor_dataset_def nd_of_dataset_def)
qed

lemma sbind_map_sum: "sbind (map_sum id f r) g = sbind r (g \<circ> f)"
  by (cases r) simp_all

lemma map_sum_sbind: "map_sum id h (sbind r g) = sbind r (map_sum id h \<circ> g)"
  by (cases r) simp_all

lemma feature_column_nd_of_features:
  "feature_column (map nd_of_feature features) n =
     map_sum id (map (\<lambda>v. PyList (map PyInt v))) (feature_column features n)"
proof -
  have "dict_get (nd_of_feature s) n = map_sum id (\<lambda>v. PyList (map PyInt v)) (dict_get s n)" for s
    by (simp add: dict_get_def nd_of_feature_def map_of_map split: option.split)
  then show ?thesis
    by (simp add: feature_column_def smap_map_comp comp_def smap_map_sum)
qed

lemma tensor_names_nd_of_features:
  "tensor_names (map nd_of_feature features) = tensor_names features"
  by (cases features) (simp_all add: tensor_names_def nd_of_feature_def case_prod_beta comp_def)

lemma convert_features_to_dataset_nd_refines_2d:
  "convert_features_to_dataset_nd (map nd_of_feature features) =
     map_sum id (\<lambda>(ds, names). (nd_of_dataset ds, names)) (convert_features_to_dataset features)"
proof -
  have col: "sbind (feature_column (map nd_of_feature features) n) (\<lambda>col. torch_tensor (PyList col)) =
      map_sum id nd_of_tensor (sbind (feature_column features n) torch_tensor_long)" for n
    by (cases "feature_column features n")
       (simp_all add: feature_column_nd_of_features torch_tensor_int_rows_eq [unfolded nd_of_int_rows_def])
  have cols: "smap (\<lambda>n. sbind (feature_column (map nd_of_feature features) n) (\<lambda>col. torch_tensor (PyList col))) names =
      map_sum id (map nd_of_tensor) (smap (\<lambda>n. sbind (feature_column features n) torch_tensor_long) names)"
    for names
    by (simp only: col smap_map_sum)
  show ?thesis
    by (simp add: convert_features_to_dataset_nd_def convert_features_to_dataset_def
        tensor_names_nd_of_features cols sbind_map_sum map_sum_sbind comp_def
        tensor_dataset_nd_of_tensors del: smap.simps)
qed

section \<open>Theorems\<close>

text \<open>
  C24. The converter and the loader compose: for a dataset the converter built from
  features of any nesting (at least one key), a positive batch size and every batch
  \<open>k\<close> of the loader, the loader yields the index batches of \<open>Loader\<close> and fetches
  batch \<open>k\<close> without error, as the slice \<open>t[k*bs:min((k+1)*bs, N)]\<close> along
  dimension 0 of every tensor, under its name; each slice is a well-formed tensor.
\<close>

theorem convert_features_to_dataset_nd_batches:
  assumes conv: "convert_features_to_dataset_nd features = Inr (ds, names)" and ne: "names \<noteq> []"
    and bs: "0 < batch_size" and k: "k < length (chunks (nat batch_size) [0..<length features])"
  shows "data_loader_batches_nd ds batch_size = Inr (chunks (nat batch_size) [0..<length features]) \<and>
         fetch_batch_nd ds names (chunks (nat batch_size) [0..<length features] ! k) =
           Inr (zip names (map (\<lambda>t. nd_slice t (k * nat batch_size)
                                       (min (Suc k * nat batch_size) (length features)))
                               (nd_tensors ds))) \<and>
         list_all (\<lambda>t. nd_wf (nd_slice t (k * nat batch_size)
                                       (min (Suc k * nat batch_size) (length features))))
           (nd_tensors ds)"
proof -
  let ?b = "nat batch_size" and ?N = "length features"
  let ?c = "min (Suc k * ?b) ?N"
  note ts = convert_features_to_dataset_nd_tensors [OF conv]
  have chunk: "chunks ?b [0..<?N] ! k = [k * ?b..<?c]"
    using k by (rule chunks_upt_nth)
  from k have "chunks ?b [0..<?N] ! k \<noteq> []"
    using chunks_bounds nth_mem by blast
  with chunk have ac: "k * ?b < ?c" by (metis upt_eq_Nil_conv not_le)
  have shapes: "\<forall>t \<in> set (nd_tensors ds). \<exists>ns. nd_shape t = ?N # ns"
    using ts by blast
  have "fetch_batch_nd ds names [k * ?b..<?c] =
      Inr (zip names (map (\<lambda>t. nd_slice t (k * ?b) ?c) (nd_tensors ds)))"
    using shapes ts ac by (intro fetch_batch_nd_slices) auto
  moreover have "list_all (\<lambda>t. nd_wf (nd_slice t (k * ?b) ?c)) (nd_tensors ds)"
    unfolding list_all_iff
  proof
    fix t assume "t \<in> set (nd_tensors ds)"
    with ts obtain ns where wf: "nd_wf t" and sh: "nd_shape t = ?N # ns" by blast
    show "nd_wf (nd_slice t (k * ?b) ?c)"
      using ac by (intro nd_slice_wf [OF wf sh]) simp_all
  qed
  moreover have "data_loader_batches_nd ds batch_size = Inr (chunks ?b [0..<?N])"
    using bs convert_features_to_dataset_nd_len [OF conv ne] by (rule data_loader_batches_nd_Inr)
  ultimately show ?thesis using chunk by simp
qed

section \<open>Witnesses\<close>

theorem convert_features_to_dataset_nd_batches_witness:
  "convert_features_to_dataset_nd mixed_features = Inr (mixed_dataset, [''label_ids'', ''input_ids'']) \<and>
   [''label_ids'', ''input_ids''] \<noteq> [] \<and> (0 :: int) < 2 \<and>
   1 < length (chunks 2 [0..<length mixed_features]) \<and>
   data_loader_batches_nd mixed_dataset 2 = Inr [[0, 1], [2]] \<and>
   fetch_batch_nd mixed_dataset [''label_ids'', ''input_ids''] [2] =
     Inr [(''label_ids'', \<lparr>nd_shape = [1], nd_data = [7], nd_device = Cpu\<rparr>),
          (''input_ids'', \<lparr>nd_shape = [1, 2], nd_data = [8, 9], nd_device = Cpu\<rparr>)]"
proof -
  have len: "length mixed_features = 3" by (simp add: mixed_features_def)
  have ch: "chunks 2 [0..<3] = [[0, 1], [2]]"
    by (simp add: chunks.simps upt_rec)
  have ne: "[''label_ids'', ''input_ids''] \<noteq> []" by simp
  have k: "1 < length (chunks (nat 2) [0..<length mixed_features])"
    using ch len by simp
  note inst = convert_features_to_dataset_nd_batches [OF mixed_converted ne _ k]
  have "data_loader_batches_nd mixed_dataset 2 = Inr [[0, 1], [2]] \<and>
      fetch_batch_nd mixed_dataset [''label_ids'', ''input_ids''] [2] =
        Inr [(''label_ids'', \<lparr>nd_shape = [1], nd_data = [7], nd_device = Cpu\<rparr>),
             (''input_ids'', \<lparr>nd_shape = [1, 2], nd_data = [8, 9], nd_device = Cpu\<rparr>)]"
    using inst ch len by (simp add: mixed_dataset_def nd_slice_def py_slice_def)
  with mixed_converted k show ?thesis by simp
qed

end
