(* ===== verification/Spec2Isabelle.thy ===== *)
theory Spec2Isabelle
  imports Alignment Fasttext Banners Loader_nd
begin

text \<open>
  \<^bold>\<open>A verification development of FARM's inference core.\<close>

  \<^bold>\<open>The program.\<close>  \<open>src/farm/infer.py\<close> defines two inference front ends.
  \<open>Inferencer\<close> loads an AdaptiveModel (a language model plus zero or more prediction
  heads) and a Processor.  \<open>run_inference\<close> and \<open>extract_vectors\<close> turn input dicts
  into a tensor dataset through the Processor, which calls
  \<open>convert_features_to_dataset\<close> of \<open>src/farm/data_handler/dataset.py\<close>.  They
  re-derive the list of samples, iterate a \<open>NamedDataLoader\<close> over a
  \<open>SequentialSampler\<close>, move every batch to the device, pair it with the slice
  \<open>samples[i*bs:(i+1)*bs]\<close>, and call the model's forward pass and formatting (or the
  language model's formatting).  \<open>FasttextInferencer\<close> instead calls a fastText model
  dict by dict.  \<open>src/farm/ascii/text.py\<close> holds six ASCII-art banners as
  string literals.

  \<^bold>\<open>Theories and what they model.\<close>
  \<^item> \<open>Prelude\<close>: the Python exceptions as the datatype \<open>error\<close>, fallible results
    \<open>error + 'a\<close> with \<open>sbind\<close> and the fallible list comprehension \<open>smap\<close>, dicts as
    association lists in insertion order (\<open>dict_get\<close> raises KeyError), list indexing
    and slicing, the device, torch's long dtype as \<open>64 word\<close>, and generic facts on
    runs of deterministic step relations.
  \<^item> \<open>Dataset\<close>: \<open>convert_features_to_dataset\<close> (dataset.py 6-23) with the two torch
    calls it makes: \<open>torch.tensor(..., dtype=long)\<close> (\<open>torch_tensor_long\<close>: width
    from the first row, ragged rows raise ValueError, values outside the signed 64-bit
    range raise torch's RuntimeError \<open>Overflow when unpacking long\<close>, first offence
    in row-major order) and \<open>TensorDataset\<close> (\<open>tensor_dataset\<close>, its size
    assertion), plus \<open>len\<close> and indexing, for features whose values are int lists.
  \<^item> \<open>Torch\<close>: \<open>torch.tensor\<close> on values of any nesting as torch implements it
    (\<open>compute_sizes\<close>, \<open>recursive_store\<close> into a flat storage), \<open>TensorDataset\<close>
    over tensors of any shape, and \<open>convert_features_to_dataset_nd\<close>, the converter
    for features whose values are ints (scalar features, 1-D tensors) or nested lists.
  \<^item> \<open>Loader\<close>: the loader built at infer.py 119-124: torch's BatchSampler loop
    (\<open>batch_sampler_iter\<close>), SequentialSampler, FARM's collate function and the
    per-batch fetch.  These are not under \<open>src/\<close> and are modelled from the spec.
    \<open>chunks\<close> is the reference chunking they are proved against.
  \<^item> \<open>Loader_nd\<close>: the same loader over tensors of any shape: indexing along
    dimension 0 (\<open>nd_index\<close>, a window of the flat storage),
    \<open>TensorDataset.__getitem__\<close> (\<open>nd_getitem\<close>), \<open>torch.stack\<close> (\<open>nd_stack\<close>)
    and the collate function over such tensors (\<open>collate_nd\<close>, \<open>fetch_batch_nd\<close>,
    \<open>data_loader_batches_nd\<close>), with the slice \<open>t[a:b]\<close> (\<open>nd_slice\<close>) as the
    reference.  The 2-D converter and loader of \<open>Dataset\<close> and \<open>Loader\<close>, which the
    inferencer uses, are proved to be these restricted to int-list features and
    rectangular tensors (\<open>convert_features_to_dataset_nd_refines_2d\<close>,
    \<open>fetch_batch_nd_refines_2d\<close>, \<open>data_loader_batches_nd_refines_2d\<close>).
  \<^item> \<open>Collaborators\<close>: the contracts of Processor, AdaptiveModel,
    \<open>initialize_device_settings\<close> and \<open>set_all_seeds\<close> (not under \<open>src/\<close>).  Each
    is a record of operations that may raise, over an explicit \<open>world\<close> record of the
    process-wide state (CUDA availability, generator seeds).
  \<^item> \<open>Inferencer\<close>: the class's attributes as a record.  \<open>prediction_type\<close> and
    \<open>label_map\<close> are options, since \<open>__init__\<close> may leave them unset.  The
    operations are \<open>inferencer_init\<close> (\<open>__init__\<close>, threading the world),
    \<open>inferencer_load\<close> (\<open>load\<close>, with \<open>basename\<close> as \<open>os.path.basename\<close>),
    \<open>run_inference\<close>, \<open>extract_vectors\<close>, and their shared loop \<open>predict_loop\<close>
    with its steps \<open>inference_step\<close> and \<open>extraction_step\<close>.
  \<^item> \<open>Loop\<close>: the same loop (lines 126-141, 166-179) as a small-step machine,
    \<open>loop_step\<close>, one transition per turn of \<open>enumerate(data_loader)\<close> over a state
    of the counter, the batches still to come and \<open>preds_all\<close>; \<open>run_env\<close> is the
    loop of one call.
  \<^item> \<open>Store\<close>: the model objects in a store addressed by references, so that
    \<open>self.model.eval()\<close> (line 60) is an update of a shared object:
    \<open>inferencer_init_heap\<close> and \<open>inferencer_load_heap\<close> are \<open>__init__\<close> and
    \<open>load\<close> over the store, \<open>abs_inferencer\<close> reads an inferencer object back.
  \<^item> \<open>Fasttext\<close>: \<open>FasttextInferencer\<close> (\<open>fasttext_init\<close>, \<open>fasttext_load\<close>,
    the per-dict loop \<open>ft_extract_loop\<close>), with fastText's \<open>get_sentence_vector\<close>,
    which raises ValueError for a text containing a newline.
  \<^item> \<open>Banners\<close>: the six literals of \<open>text.py\<close> line by line, Python's decoding of
    a non-raw string literal (\<open>py_decode\<close>, from the language reference) and the
    module as the decoding of all six (\<open>text_module\<close>).
  \<^item> \<open>Scenarios\<close>: concrete worlds, processors, models and stores.  The witnesses
    apply the theorems to them.
  \<^item> \<open>Alignment\<close>: the Processor's baskets (any number of features per sample)
    against the inferencer's slicing: \<open>positional\<close> is the contract of a head
    whose formatting zips its predictions with the samples it is given, \<open>owners\<close>
    the alignment the spec asks for, the sample each feature row was made from.

  \<^bold>\<open>What is proved.\<close>  Dataset: the converter succeeds exactly on well-formed
  features and then builds one tensor per key, in key order (C1).  Rows read back
  unchanged (C2).  \<open>len\<close> is the sample count, except for key-less features (C3).
  Only four exceptions are possible (C4).  Loader: the sampler loop equals chunking
  (C5).  Every row is visited once, in order, in \<open>ceil(N/bs)\<close> batches (C6).
  Batch \<open>i\<close> is the window \<open>[i*bs, (i+1)*bs)\<close> (C7).  Collating fetched rows
  equals slicing columns (C8).  Inferencer: the attributes \<open>__init__\<close> sets (C9),
  when it fails (C10), and its effect on the process-wide state (C11).
  \<open>run_inference\<close> rejects embedder models before any work (C12) and fails on
  multi-head models (C13).  The refinement theorems C14/C15 say that, for one feature
  per sample and a row-wise model, the batched loop computes the unbatched
  specification \<open>map2 g rows samples\<close>: batching and the sample slicing keep rows and
  samples aligned.  An exception in any batch aborts the call (C16).  \<open>load\<close> names
  the inferencer after the base name of its directory (C17, C18).  A non-positive
  batch size is accepted at construction and raises only after the Processor has
  converted the input (C19).  Fasttext: the reduce_mean output for texts without a
  newline (C20), the vector dimension (C21), the exception behaviour of other
  strategies, including the two the docstring lists (C22), and the first-offender
  exception of reduce_mean, a missing text or fastText's ValueError for a newline
  (C23).  Converter and loader over tensors of any shape: for a dataset the converter
  built, the loader fetches every batch without error, as the well-formed slice along
  dimension 0 of every tensor (C24).  Loop: \<open>preds_all\<close> is at every turn the
  concatenation of the batches already run (C25), and a call that returns makes
  exactly \<open>ceil(N/bs)\<close> model calls (C26).  Store: a failing \<open>__init__\<close> has
  already switched the caller's model to evaluation mode (C27); the switch reaches
  every inferencer sharing the model, and a later \<open>train()\<close> reaches them all too
  (C28).  Torch: the storage of a tensor has \<open>prod(shape)\<close> values (C29), and scalar
  features give 1-D tensors of the sample count (C30).  Alignment: for every shape
  of basket, \<open>run_inference\<close> pairs row \<open>j\<close> with the \<open>j\<close>-th sample and drops
  what is beyond the shorter list (C31), so it meets the owner alignment exactly when
  every sample has one feature (C32); the example at the end of this theory is the
  smallest case where it does not.

  Supporting results that are not properties of their own: the small-step loop
  reaches exactly the final configuration \<open>predict_loop\<close> computes
  (\<open>loop_run_unique\<close>), the store model computes what the value model does
  (\<open>init_heap_refines\<close>, \<open>load_heap_refines\<close>), the 2-D converter and loader are
  the n-D ones restricted to int lists (\<open>Loader_nd\<close>), and a non-raw string literal
  reads as its own source text exactly when every backslash in it starts an invalid
  escape sequence (\<open>py_decode_verbatim_iff\<close>); the banners are such literals, with
  sixteen invalid escapes (\<open>text_module_result\<close>).

  \<^bold>\<open>Bounds and termination.\<close>  There is no fuel anywhere.  Every loop is over a
  finite list (structural recursion); \<open>chunks\<close> terminates by the measure
  \<open>length xs\<close>, \<open>py_decode\<close> by the length of the text still to decode, and
  \<open>recursive_store\<close> by the number of dimensions still to store.
  Torch's int64 bound is the range check \<open>in_int64\<close>, and values are stored as
  \<open>64 word\<close> and read back with \<open>sint\<close>.

  \<^bold>\<open>State of the development.\<close>  Every line of \<open>src/\<close> that executes is
  modelled: the converter (2-D and nested), both inferencers, the banners; with the
  loader (2-D and n-D), the collaborators' contracts, the loop as a state machine,
  the store of shared models and the alignment of baskets around them.  What is left
  of the source is imports, docstrings and comments.  The Processor and the
  AdaptiveModel stay contracts: their code is not under \<open>src/\<close>, and what the
  inference core relies on is the shape of what they return.

  \<^bold>\<open>Not modelled.\<close>  The network, tokenisation and feature construction, which are
  parameters of the contracts.  Logging and \<open>torch.no_grad\<close> (no observable effect
  on results).  Dtypes other than long, and floats among the feature values.
  Multi-process and distributed device settings (\<open>local_rank\<close> is fixed at -1 by the
  code).  The effect of the training flag on the forward pass (dropout): the store
  records the flag, the forward pass is a parameter of the model's contract.
  The extraction strategies (\<open>cls_token\<close>, \<open>reduce_mean\<close>, \<open>reduce_max\<close>,
  \<open>per_token\<close>): \<open>extract_vectors\<close> passes the strategy through unchecked to the
  language model, whose code is not under \<open>src/\<close>; C15 holds for every strategy, and
  what each strategy computes is part of the language model's contract.  The
  inferencer's own loop is modelled over the 2-D dataset model, which the refinement
  lemmas of \<open>Loader_nd\<close> show to be the n-D loader on the datasets the 2-D converter
  builds; the row view \<open>batch_rows\<close> of the model contracts is 2-D.
\<close>

section \<open>An example across components\<close>

text \<open>
  The inferencer pairs batch rows with samples by position (C31, C32).  With a Processor
  that makes two features per sample (as a document-stride tokenisation does) and
  batch size 1, \<open>run_inference\<close> on two dicts pairs the second dict's sample with the
  first dict's second feature.  It reports only two of the four rows: the slice
  \<open>samples[i*bs:(i+1)*bs]\<close> assumes one feature per sample.
\<close>

theorem run_inference_stride_misaligned:
  "run_inference ((toy_inferencer [''ner''] (Some ''ner'') (Some [''O'', ''PER'']) ''ner-model'')
       \<lparr>inf_processor := stride_processor, inf_batch_size := 1\<rparr>) [5, 7] =
     Inr [(5, [(''input_ids'', [5, 0])]), (7, [(''input_ids'', [5, 1])])]"
  by (simp add: run_inference_def run_batches_def dataset_from_dicts_def stride_processor_def
      convert_features_to_dataset_def tensor_names_def feature_column_def dict_get_def
      torch_tensor_long_def store_row_def to_long_def in_int64_def tensor_dataset_def
      dicts_to_samples_def data_loader_batches_def ds_len_def sequential_sampler_def
      fetch_batch_def ds_getitem_def collate_def stack_def batch_to_device_def py_slice_def
      inference_step_def batch_rows_def toy_defs upt_rec)

end
